(* ===== verification/Bolo_Prelude.thy ===== *)
theory Bolo_Prelude
  imports Complex_Main
begin

text \<open>
  Shared vocabulary of the development: the Python runtime behaviour the engine relies on
  (list indexing that raises, float modulo, \<open>int()\<close> of a float, \<open>math.atan2\<close>,
  \<open>math.sqrt\<close> distances,
  the \<open>random\<close> module as a sequence of draws with \<open>randint\<close> and \<open>choice\<close> read
  from it, the first-match search of a \<open>for \<dots> break\<close> loop, the pygame key codes),
  with the generic lemmas the component theories share.
  Python floats are modelled as \<^typ>\<open>real\<close> (exact arithmetic, no rounding) and
  Python ints as \<^typ>\<open>int\<close>.
\<close>

section \<open>Python errors and list indexing\<close>

datatype py_error = IndexError

text \<open>Python list indexing: a negative index counts from the end, anything else raises.\<close>

definition py_index :: "'a list \<Rightarrow> int \<Rightarrow> nat option" where
  "py_index xs i =
     (let n = int (length xs); j = (if i < 0 then n + i else i)
      in if 0 \<le> j \<and> j < n then Some (nat j) else None)"

definition py_get :: "'a list \<Rightarrow> int \<Rightarrow> py_error + 'a" where
  "py_get xs i = (case py_index xs i of None \<Rightarrow> Inl IndexError | Some j \<Rightarrow> Inr (xs ! j))"

definition py_set :: "'a list \<Rightarrow> int \<Rightarrow> 'a \<Rightarrow> py_error + 'a list" where
  "py_set xs i v = (case py_index xs i of None \<Rightarrow> Inl IndexError | Some j \<Rightarrow> Inr (xs[j := v]))"

text \<open>Sequencing of code that may raise: the first error propagates.\<close>

definition py_bind :: "py_error + 'a \<Rightarrow> ('a \<Rightarrow> py_error + 'b) \<Rightarrow> py_error + 'b" where
  "py_bind m f = (case m of Inl e \<Rightarrow> Inl e | Inr a \<Rightarrow> f a)"

text \<open>A \<open>for\<close> loop whose body may raise, over the items of a list.\<close>

fun py_for :: "('a \<Rightarrow> 's \<Rightarrow> py_error + 's) \<Rightarrow> 'a list \<Rightarrow> 's \<Rightarrow> py_error + 's" where
  "py_for f [] s = Inr s"
| "py_for f (a # xs) s = py_bind (f a s) (py_for f xs)"

lemma py_bind_Inr [simp]: "py_bind (Inr a) f = f a"
  by (simp add: py_bind_def)

lemma py_bind_Inl [simp]: "py_bind (Inl e) f = Inl e"
  by (simp add: py_bind_def)

lemma py_for_invariant:
  assumes step: "\<And>a s s'. a \<in> set xs \<Longrightarrow> P s \<Longrightarrow> f a s = Inr s' \<Longrightarrow> P s'"
  shows "P s \<Longrightarrow> py_for f xs s = Inr s' \<Longrightarrow> P s'"
  using step
proof (induction xs arbitrary: s)
  case Nil
  then show ?case by simp
next
  case (Cons a xs)
  then show ?case
    by (cases "f a s") (auto simp: py_bind_def)
qed

lemma py_for_total:
  assumes "\<And>a s. a \<in> set xs \<Longrightarrow> P s \<Longrightarrow> \<exists>s'. f a s = Inr s' \<and> P s'"
  shows "P s \<Longrightarrow> \<exists>s'. py_for f xs s = Inr s' \<and> P s'"
  using assms
proof (induction xs arbitrary: s)
  case Nil
  then show ?case by simp
next
  case (Cons a xs)
  from Cons.prems obtain s1 where "f a s = Inr s1" "P s1" by fastforce
  with Cons show ?case by simp
qed

lemma py_index_nonneg [simp]:
  "0 \<le> i \<Longrightarrow> py_index xs i = (if i < int (length xs) then Some (nat i) else None)"
  by (simp add: py_index_def Let_def)

lemma py_set_nonneg [simp]:
  "0 \<le> i \<Longrightarrow> i < int (length xs) \<Longrightarrow> py_set xs i v = Inr (xs[nat i := v])"
  by (simp add: py_set_def)

lemma py_get_nonneg [simp]:
  "0 \<le> i \<Longrightarrow> i < int (length xs) \<Longrightarrow> py_get xs i = Inr (xs ! nat i)"
  by (simp add: py_get_def)

lemma py_index_Some_less: "py_index xs i = Some j \<Longrightarrow> j < length xs"
  by (auto simp: py_index_def Let_def split: if_splits)

lemma py_set_length: "py_set xs i v = Inr ys \<Longrightarrow> length ys = length xs"
  by (auto simp: py_set_def split: option.splits)

section \<open>Float arithmetic\<close>

text \<open>Python's \<open>a % m\<close> on floats takes the sign of \<open>m\<close>: \<open>a - m * floor (a / m)\<close>.\<close>

definition py_fmod :: "real \<Rightarrow> real \<Rightarrow> real" where
  "py_fmod a m = a - m * of_int \<lfloor>a / m\<rfloor>"

lemma py_fmod_range:
  assumes "0 < m"
  shows "0 \<le> py_fmod a m \<and> py_fmod a m < m"
proof -
  have f1: "of_int \<lfloor>a / m\<rfloor> \<le> a / m" by (rule of_int_floor_le)
  have f2: "a / m < of_int \<lfloor>a / m\<rfloor> + 1" by (rule real_of_int_floor_add_one_gt)
  from f1 have "of_int \<lfloor>a / m\<rfloor> * m \<le> a"
    using pos_le_divide_eq [OF assms] by blast
  moreover from f2 have "a < (of_int \<lfloor>a / m\<rfloor> + 1) * m"
    using pos_divide_less_eq [OF assms] by blast
  ultimately show ?thesis by (simp add: py_fmod_def algebra_simps)
qed

lemma py_fmod_id: "0 \<le> a \<Longrightarrow> a < m \<Longrightarrow> py_fmod a m = a"
proof -
  assume a: "0 \<le> a" "a < m"
  then have "\<lfloor>a / m\<rfloor> = 0" by (simp add: floor_eq_iff)
  then show ?thesis by (simp add: py_fmod_def)
qed

text \<open>\<open>math.radians\<close> and \<open>math.degrees\<close>.\<close>

definition radians :: "real \<Rightarrow> real" where
  "radians d = d * pi / 180"

definition degrees :: "real \<Rightarrow> real" where
  "degrees r = r * 180 / pi"

text \<open>\<open>math.atan2(y, x)\<close>, the principal angle of the point \<open>(x, y)\<close> in \<open>(-pi, pi]\<close>.\<close>

definition atan2 :: "real \<Rightarrow> real \<Rightarrow> real" where
  "atan2 y x =
     (if 0 < x then arctan (y / x)
      else if x < 0 then (if 0 \<le> y then arctan (y / x) + pi else arctan (y / x) - pi)
      else if 0 < y then pi / 2
      else if y < 0 then - (pi / 2)
      else 0)"

lemma atan2_zero_right [simp]: "0 < x \<Longrightarrow> atan2 0 x = 0"
  by (simp add: atan2_def)

text \<open>The Euclidean distance as the engine computes it with \<open>math.sqrt\<close>.\<close>

definition euclid :: "real \<Rightarrow> real \<Rightarrow> real \<Rightarrow> real \<Rightarrow> real" where
  "euclid x1 y1 x2 y2 = sqrt ((x1 - x2)\<^sup>2 + (y1 - y2)\<^sup>2)"

lemma euclid_less_iff [simp]:
  "0 \<le> r \<Longrightarrow> (euclid x1 y1 x2 y2 < r) = ((x1 - x2)\<^sup>2 + (y1 - y2)\<^sup>2 < r\<^sup>2)"
proof -
  assume r: "0 \<le> r"
  let ?d = "(x1 - x2)\<^sup>2 + (y1 - y2)\<^sup>2"
  from r have "sqrt (r\<^sup>2) = r" by simp
  then have "(sqrt ?d < r) = (sqrt ?d < sqrt (r\<^sup>2))" by simp
  also have "\<dots> = (?d < r\<^sup>2)" by (rule real_sqrt_less_iff)
  finally show ?thesis by (simp add: euclid_def)
qed

lemma euclid_sym: "euclid x1 y1 x2 y2 = euclid x2 y2 x1 y1"
  by (simp add: euclid_def power2_commute)

text \<open>A point reached along a heading at distance \<open>r\<close> is \<open>|r|\<close> away.\<close>

lemma euclid_polar: "euclid (x + cos a * r) (y + sin a * r) x y = \<bar>r\<bar>"
proof -
  have "(x + cos a * r - x)\<^sup>2 + (y + sin a * r - y)\<^sup>2 = r\<^sup>2 * ((sin a)\<^sup>2 + (cos a)\<^sup>2)"
    by (simp add: power_mult_distrib algebra_simps del: sin_cos_squared_add sin_cos_squared_add2)
  also have "\<dots> = r\<^sup>2" by (simp only: sin_cos_squared_add mult_1_right)
  finally have d: "(x + cos a * r - x)\<^sup>2 + (y + sin a * r - y)\<^sup>2 = r\<^sup>2" .
  show ?thesis unfolding euclid_def d by (rule real_sqrt_abs)
qed

text \<open>\<open>int(x)\<close> of a float truncates towards zero.\<close>

definition py_int :: "real \<Rightarrow> int" where
  "py_int x = (if 0 \<le> x then \<lfloor>x\<rfloor> else \<lceil>x\<rceil>)"

lemma py_int_nonneg [simp]: "0 \<le> x \<Longrightarrow> py_int x = \<lfloor>x\<rfloor>"
  by (simp add: py_int_def)

lemma py_int_of_int [simp]: "py_int (of_int n) = n"
  by (simp add: py_int_def)

section \<open>The random module\<close>

text \<open>
  \<open>random.random()\<close> is a sequence of draws in \<open>[0, 1)\<close>: the draws themselves and
  the number consumed so far. Every call reads the next draw and advances the position.
\<close>

record rng =
  draws :: "nat \<Rightarrow> real"
  rpos :: nat

definition random_random :: "rng \<Rightarrow> real \<times> rng" where
  "random_random g = (draws g (rpos g), g\<lparr>rpos := Suc (rpos g)\<rparr>)"

lemma random_random_draws [simp]: "draws (snd (random_random g)) = draws g"
  by (simp add: random_random_def)

lemma random_random_rpos [simp]: "rpos (snd (random_random g)) = Suc (rpos g)"
  by (simp add: random_random_def)

text \<open>
  \<open>random.randint(a, b)\<close> and \<open>random.choice(xs)\<close> read from the same stream of
  draws: a draw \<open>r\<close> in \<open>[0, 1)\<close> selects the integer \<open>a + \<lfloor>r (b - a + 1)\<rfloor>\<close>, and
  the element at that position of \<open>xs\<close>. CPython takes the bits of the stream
  differently; the properties proved hold for every stream.
\<close>

definition py_randint :: "rng \<Rightarrow> int \<Rightarrow> int \<Rightarrow> int \<times> rng" where
  "py_randint g a b = (case random_random g of (r, g') \<Rightarrow> (a + \<lfloor>r * of_int (b - a + 1)\<rfloor>, g'))"

definition py_choice :: "rng \<Rightarrow> 'a list \<Rightarrow> 'a \<times> rng" where
  "py_choice g xs = (case random_random g of (r, g') \<Rightarrow> (xs ! nat \<lfloor>r * of_nat (length xs)\<rfloor>, g'))"

section \<open>Nearest element, first on ties\<close>

text \<open>
  The reference for a search that keeps the best element seen and replaces it only by a
  strictly better one: the first element of least measure.
\<close>

fun first_min :: "('a \<Rightarrow> real) \<Rightarrow> 'a list \<Rightarrow> 'a option" where
  "first_min f [] = None"
| "first_min f (x # xs) =
     (case first_min f xs of None \<Rightarrow> Some x | Some y \<Rightarrow> if f y < f x then Some y else Some x)"

text \<open>The search as a loop over the list with an accumulator (best element and its measure).\<close>

fun argmin_loop :: "('a \<Rightarrow> real) \<Rightarrow> 'a list \<Rightarrow> ('a \<times> real) option \<Rightarrow> ('a \<times> real) option" where
  "argmin_loop f [] best = best"
| "argmin_loop f (x # xs) best =
     argmin_loop f xs (if (case best of None \<Rightarrow> True | Some (_, bd) \<Rightarrow> f x < bd)
                       then Some (x, f x) else best)"

lemma first_min_None [simp]: "first_min f xs = None \<longleftrightarrow> xs = []"
  by (cases xs) (auto split: option.split)

lemma first_min_cons_cons:
  "first_min f (b # x # xs) = (if f x < f b then first_min f (x # xs) else first_min f (b # xs))"
  by (auto split: option.split)

lemma argmin_loop_Some:
  "argmin_loop f xs (Some (b, f b)) = map_option (\<lambda>y. (y, f y)) (first_min f (b # xs))"
proof (induction xs arbitrary: b)
  case Nil
  then show ?case by simp
next
  case (Cons x xs)
  show ?case
  proof (cases "f x < f b")
    case True
    with Cons.IH [of x] show ?thesis by (simp add: first_min_cons_cons del: first_min.simps)
  next
    case False
    with Cons.IH [of b] show ?thesis by (simp add: first_min_cons_cons del: first_min.simps)
  qed
qed

theorem argmin_loop_first_min:
  "argmin_loop f xs None = map_option (\<lambda>y. (y, f y)) (first_min f xs)"
  by (cases xs) (simp_all add: argmin_loop_Some)

lemma first_min_Some_least:
  "first_min f xs = Some y \<Longrightarrow> y \<in> set xs \<and> (\<forall>x \<in> set xs. f y \<le> f x)"
proof (induction xs arbitrary: y)
  case Nil
  then show ?case by simp
next
  case (Cons x xs)
  then show ?case
    by (cases "first_min f xs") (fastforce split: if_splits)+
qed

lemma first_min_Some_first:
  "first_min f xs = Some y \<Longrightarrow> \<exists>i < length xs. xs ! i = y \<and> (\<forall>j < i. f y < f (xs ! j))"
proof (induction xs arbitrary: y)
  case Nil
  then show ?case by simp
next
  case (Cons x xs)
  show ?case
  proof (cases "first_min f xs")
    case None
    with Cons.prems show ?thesis by auto
  next
    case (Some z)
    show ?thesis
    proof (cases "f z < f x")
      case True
      with Cons.prems Some have y: "y = z" by simp
      from Cons.IH [OF Some] obtain i where "i < length xs" "xs ! i = z" "\<forall>j < i. f z < f (xs ! j)"
        by blast
      with True y show ?thesis
        by (intro exI [of _ "Suc i"]) (auto simp: less_Suc_eq_0_disj)
    next
      case False
      with Cons.prems Some show ?thesis by auto
    qed
  qed
qed

section \<open>Loops over list indices\<close>

text \<open>
  A \<open>for\<close> loop over the indices of a list whose length the body never changes keeps
  any property that each iteration keeps for an index in range.
\<close>

lemma fold_index_invariant:
  assumes step: "\<And>i s. i < n \<Longrightarrow> len s = n \<Longrightarrow> P s \<Longrightarrow> P (f i s)"
    and len: "\<And>i s. len (f i s) = len s"
    and "set is \<subseteq> {..<n}" "len s = n" "P s"
  shows "P (fold f is s) \<and> len (fold f is s) = n"
  using assms(3-5)
proof (induction "is" arbitrary: s)
  case Nil
  then show ?case by simp
next
  case (Cons i "is")
  then have "P (f i s)" "len (f i s) = n" using step len by auto
  with Cons show ?case by simp
qed

lemma fold_eq_invariant: "(\<And>i s. g (f i s) = g s) \<Longrightarrow> g (fold f is s) = g s"
  by (induction "is" arbitrary: s) simp_all

lemma list_all_list_update: "list_all P xs \<Longrightarrow> P x \<Longrightarrow> list_all P (xs[i := x])"
  using set_update_subset_insert [of xs i x] by (auto simp: list_all_iff)

section \<open>First match of a search loop\<close>

text \<open>
  \<open>for j in range(n): if P(j): \<dots>; break\<close>: the first index that satisfies the test,
  all tests being evaluated on the same state since nothing changes before the break.
\<close>

definition first_index :: "(nat \<Rightarrow> bool) \<Rightarrow> nat \<Rightarrow> nat option" where
  "first_index P n = find P [0..<n]"

lemma first_index_Some:
  "first_index P n = Some j \<longleftrightarrow> j < n \<and> P j \<and> (\<forall>k < j. \<not> P k)"
proof -
  have "find P [0..<n] = Some j \<longleftrightarrow>
        (\<exists>i < n. [0..<n] ! i = j \<and> P j \<and> (\<forall>k < i. \<not> P ([0..<n] ! k)))"
    by (auto simp: find_Some_iff)
  also have "\<dots> \<longleftrightarrow> j < n \<and> P j \<and> (\<forall>k < j. \<not> P k)"
    by (auto simp: nth_upt)
  finally show ?thesis by (simp add: first_index_def)
qed

lemma first_index_None: "first_index P n = None \<longleftrightarrow> (\<forall>j < n. \<not> P j)"
  by (auto simp: first_index_def find_None_iff)

section \<open>Key codes\<close>

text \<open>The pygame key codes the two programs test; any other key is \<open>K_OTHER\<close>.\<close>

datatype key = K_ESCAPE | K_r | K_SPACE | K_m | K_w | K_UP | K_s | K_DOWN
  | K_a | K_LEFT | K_d | K_RIGHT | K_OTHER nat

end
