(* ===== verification/Bolo_Config.thy ===== *)
theory Bolo_Config
  imports Bolo_Prelude
begin

text \<open>
  Section 1 of \<open>src/src/bolo_engine.py\<close>: the \<open>Config\<close> constants the engine reads, the
  terrain kinds \<open>TileType\<close>, the property table \<open>TERRAIN_DATA\<close> and the \<open>Team\<close>
  enumeration. The lemmas characterise the terrain table: the speed multiplier is never
  negative, it is zero exactly on the impassable kinds, and only walls stop shells.
\<close>

section \<open>Config\<close>

definition WINDOW_WIDTH :: int where "WINDOW_WIDTH = 1024"
definition WINDOW_HEIGHT :: int where "WINDOW_HEIGHT = 768"
definition TILE_SIZE :: int where "TILE_SIZE = 16"
definition MAP_WIDTH :: int where "MAP_WIDTH = 64"
definition MAP_HEIGHT :: int where "MAP_HEIGHT = 48"
definition TANK_MAX_ARMOR :: int where "TANK_MAX_ARMOR = 8"
definition TANK_MAX_SHELLS :: int where "TANK_MAX_SHELLS = 40"
definition TANK_MAX_MINES :: int where "TANK_MAX_MINES = 40"
definition TANK_MAX_WOOD :: int where "TANK_MAX_WOOD = 40"
definition TANK_BASE_SPEED :: real where "TANK_BASE_SPEED = 2"
definition TANK_ROTATION_SPEED :: real where "TANK_ROTATION_SPEED = 4"
definition TANK_SIZE :: int where "TANK_SIZE = 12"
definition SHELL_DAMAGE :: int where "SHELL_DAMAGE = 1"
definition SHELL_SPEED :: real where "SHELL_SPEED = 6"
definition SHELL_LIFETIME :: int where "SHELL_LIFETIME = 90"
definition MINE_DAMAGE :: int where "MINE_DAMAGE = 4"
definition PILLBOX_MAX_HEALTH :: int where "PILLBOX_MAX_HEALTH = 16"
definition PILLBOX_FIRE_RATE :: int where "PILLBOX_FIRE_RATE = 30"
definition PILLBOX_RANGE :: real where "PILLBOX_RANGE = 150"
definition BASE_RESUPPLY_RATE :: int where "BASE_RESUPPLY_RATE = 1200"

lemmas config_defs [simp] =
  WINDOW_WIDTH_def WINDOW_HEIGHT_def TILE_SIZE_def MAP_WIDTH_def MAP_HEIGHT_def
  TANK_MAX_ARMOR_def TANK_MAX_SHELLS_def TANK_MAX_MINES_def TANK_MAX_WOOD_def
  TANK_BASE_SPEED_def TANK_ROTATION_SPEED_def TANK_SIZE_def
  SHELL_DAMAGE_def SHELL_SPEED_def SHELL_LIFETIME_def MINE_DAMAGE_def
  PILLBOX_MAX_HEALTH_def PILLBOX_FIRE_RATE_def PILLBOX_RANGE_def BASE_RESUPPLY_RATE_def

section \<open>Terrain kinds and their properties\<close>

datatype tile_type =
    DEEP_WATER | RIVER | SWAMP | CRATER | ROAD | FOREST | RUBBLE | GRASS | WALL | DAMAGED_WALL
  | BOAT

type_synonym color = "nat \<times> nat \<times> nat"

record terrain_info =
  tname :: string
  speed_multiplier :: real
  passable :: bool
  blocks_shots :: bool
  destructible :: bool
  tcolor :: color

text \<open>
  \<open>TERRAIN_DATA\<close> is a dictionary with an entry for every kind, so the engine's
  \<open>TERRAIN_DATA.get(tile, TERRAIN_DATA[TileType.GRASS])\<close> never falls back to its default:
  the lookup is this total function.
\<close>

fun terrain_data :: "tile_type \<Rightarrow> terrain_info" where
  "terrain_data DEEP_WATER = \<lparr>tname = ''Deep Water'', speed_multiplier = 0, passable = False,
     blocks_shots = False, destructible = False, tcolor = (20, 60, 120)\<rparr>"
| "terrain_data RIVER = \<lparr>tname = ''River'', speed_multiplier = 0.3, passable = True,
     blocks_shots = False, destructible = False, tcolor = (40, 100, 160)\<rparr>"
| "terrain_data SWAMP = \<lparr>tname = ''Swamp'', speed_multiplier = 0.25, passable = True,
     blocks_shots = False, destructible = True, tcolor = (60, 80, 40)\<rparr>"
| "terrain_data CRATER = \<lparr>tname = ''Crater'', speed_multiplier = 0.5, passable = True,
     blocks_shots = False, destructible = False, tcolor = (80, 70, 50)\<rparr>"
| "terrain_data ROAD = \<lparr>tname = ''Road'', speed_multiplier = 1.2, passable = True,
     blocks_shots = False, destructible = False, tcolor = (60, 60, 60)\<rparr>"
| "terrain_data FOREST = \<lparr>tname = ''Forest'', speed_multiplier = 0.4, passable = True,
     blocks_shots = False, destructible = True, tcolor = (20, 80, 20)\<rparr>"
| "terrain_data RUBBLE = \<lparr>tname = ''Rubble'', speed_multiplier = 0.6, passable = True,
     blocks_shots = False, destructible = False, tcolor = (90, 85, 75)\<rparr>"
| "terrain_data GRASS = \<lparr>tname = ''Grass'', speed_multiplier = 0.8, passable = True,
     blocks_shots = False, destructible = False, tcolor = (50, 120, 50)\<rparr>"
| "terrain_data WALL = \<lparr>tname = ''Wall'', speed_multiplier = 0, passable = False,
     blocks_shots = True, destructible = True, tcolor = (100, 100, 100)\<rparr>"
| "terrain_data DAMAGED_WALL = \<lparr>tname = ''Damaged Wall'', speed_multiplier = 0, passable = False,
     blocks_shots = True, destructible = True, tcolor = (120, 110, 100)\<rparr>"
| "terrain_data BOAT = \<lparr>tname = ''Boat'', speed_multiplier = 0.8, passable = True,
     blocks_shots = False, destructible = True, tcolor = (120, 80, 40)\<rparr>"

section \<open>Teams\<close>

datatype team = NEUTRAL | TEAM_1 | TEAM_2 | TEAM_3 | TEAM_4

section \<open>Properties of the terrain table\<close>

lemma terrain_speed_nonneg: "0 \<le> speed_multiplier (terrain_data t)"
  by (cases t) simp_all

lemma terrain_impassable_iff_speed_zero:
  "\<not> passable (terrain_data t) \<longleftrightarrow> speed_multiplier (terrain_data t) = 0"
  by (cases t) simp_all

lemma terrain_impassable_kinds:
  "\<not> passable (terrain_data t) \<longleftrightarrow> t \<in> {DEEP_WATER, WALL, DAMAGED_WALL}"
  by (cases t) simp_all

lemma terrain_blocks_shots_iff:
  "blocks_shots (terrain_data t) \<longleftrightarrow> t = WALL \<or> t = DAMAGED_WALL"
  by (cases t) simp_all

lemma terrain_blocks_shots_destructible:
  "blocks_shots (terrain_data t) \<Longrightarrow> destructible (terrain_data t)"
  by (cases t) simp_all

end
