(* ===== verification/Terrain.thy ===== *)
theory Terrain
  imports Bolo_Config
begin

text \<open>
  Section 3 of \<open>src/src/bolo_engine.py\<close>, class \<open>GameMap\<close>: a grid of terrain kinds
  stored row by row (\<open>tiles[y][x]\<close>), with bounds-checked reads and writes, the damage
  transitions of destructible terrain, and the random map generator. The rendering cache
  is reduced to its dirty flag. The lemmas show that the grid keeps its shape under
  every operation, that a read after a write returns what was written, that reads out of
  bounds see a wall, which transitions a damage call makes and that any cell reaches a
  fixpoint after two of them, and that generation cannot raise on a well-formed map
  and leaves walls on the border.
\<close>

record game_map =
  map_width :: int
  map_height :: int
  tiles :: "tile_type list list"
  dirty :: bool

text \<open>\<open>GameMap.__init__\<close>: every cell grass.\<close>

definition new_game_map :: "int \<Rightarrow> int \<Rightarrow> game_map" where
  "new_game_map w h =
     \<lparr>map_width = w, map_height = h,
      tiles = replicate (nat h) (replicate (nat w) GRASS), dirty = True\<rparr>"

definition pixel_width :: "game_map \<Rightarrow> int" where
  "pixel_width m = map_width m * TILE_SIZE"

definition pixel_height :: "game_map \<Rightarrow> int" where
  "pixel_height m = map_height m * TILE_SIZE"

text \<open>The bounds test shared by \<open>get_tile\<close> and \<open>set_tile\<close>.\<close>

definition in_bounds :: "game_map \<Rightarrow> int \<Rightarrow> int \<Rightarrow> bool" where
  "in_bounds m x y \<longleftrightarrow> 0 \<le> x \<and> x < map_width m \<and> 0 \<le> y \<and> y < map_height m"

text \<open>
  The shape every map keeps: one row per unit of height, each as long as the width.
  Inside the bounds, \<open>tiles[y][x]\<close> is then always a valid index.
\<close>

definition grid_shape :: "int \<Rightarrow> int \<Rightarrow> tile_type list list \<Rightarrow> bool" where
  "grid_shape w h ts \<longleftrightarrow> length ts = nat h \<and> list_all (\<lambda>row. length row = nat w) ts"

definition map_wf :: "game_map \<Rightarrow> bool" where
  "map_wf m \<longleftrightarrow> grid_shape (map_width m) (map_height m) (tiles m)"

definition get_tile :: "game_map \<Rightarrow> int \<Rightarrow> int \<Rightarrow> tile_type" where
  "get_tile m x y = (if in_bounds m x y then tiles m ! nat y ! nat x else WALL)"

definition set_tile :: "game_map \<Rightarrow> int \<Rightarrow> int \<Rightarrow> tile_type \<Rightarrow> game_map" where
  "set_tile m x y t =
     (if in_bounds m x y
      then m\<lparr>tiles := (tiles m)[nat y := (tiles m ! nat y)[nat x := t]], dirty := True\<rparr>
      else m)"

definition damage_tile :: "game_map \<Rightarrow> int \<Rightarrow> int \<Rightarrow> game_map" where
  "damage_tile m x y =
     (case get_tile m x y of
        WALL \<Rightarrow> set_tile m x y DAMAGED_WALL
      | DAMAGED_WALL \<Rightarrow> set_tile m x y RUBBLE
      | FOREST \<Rightarrow> set_tile m x y GRASS
      | SWAMP \<Rightarrow> set_tile m x y CRATER
      | _ \<Rightarrow> m)"

subsection \<open>Random generation\<close>

text \<open>The probability thresholds of an interior cell, applied to one draw.\<close>

definition random_tile :: "real \<Rightarrow> tile_type" where
  "random_tile r =
     (if r < 0.05 then FOREST
      else if r < 0.08 then RIVER
      else if r < 0.10 then SWAMP
      else if r < 0.12 then WALL
      else GRASS)"

text \<open>\<open>self.tiles[y][x] = t\<close>, which raises where Python's indexing does.\<close>

definition tiles_assign ::
  "tile_type list list \<Rightarrow> int \<Rightarrow> int \<Rightarrow> tile_type \<Rightarrow> py_error + tile_type list list" where
  "tiles_assign ts y x t = py_bind (py_get ts y) (\<lambda>row. py_bind (py_set row x t) (py_set ts y))"

text \<open>One iteration of the nested cell loop: border cells become walls, interior cells
  take one draw of \<open>random.random()\<close>.\<close>

definition gen_cell ::
  "int \<Rightarrow> int \<Rightarrow> int \<times> int \<Rightarrow> tile_type list list \<times> rng \<Rightarrow> py_error + tile_type list list \<times> rng" where
  "gen_cell w h c st =
     (case (c, st) of ((y, x), (ts, g)) \<Rightarrow>
       if x = 0 \<or> y = 0 \<or> x = w - 1 \<or> y = h - 1
       then py_bind (tiles_assign ts y x WALL) (\<lambda>ts'. Inr (ts', g))
       else (case random_random g of (r, g') \<Rightarrow>
               py_bind (tiles_assign ts y x (random_tile r)) (\<lambda>ts'. Inr (ts', g'))))"

definition gen_cells :: "int \<Rightarrow> int \<Rightarrow> (int \<times> int) list" where
  "gen_cells w h = concat (map (\<lambda>y. map (\<lambda>x. (y, x)) [0..w - 1]) [0..h - 1])"

definition generate_random :: "game_map \<Rightarrow> rng \<Rightarrow> py_error + game_map \<times> rng" where
  "generate_random m g =
     (let w = map_width m; h = map_height m; mid_y = h div 2; mid_x = w div 2 in
      py_bind (py_for (gen_cell w h) (gen_cells w h) (tiles m, g)) (\<lambda>(ts, g').
      py_bind (py_for (\<lambda>x ts. tiles_assign ts mid_y x ROAD) [5..w - 5 - 1] ts) (\<lambda>ts.
      py_bind (py_for (\<lambda>y ts. tiles_assign ts y mid_x ROAD) [5..h - 5 - 1] ts) (\<lambda>ts.
      Inr (m\<lparr>tiles := ts, dirty := True\<rparr>, g')))))"

section \<open>Shape of the grid\<close>

lemma grid_shape_nth:
  "grid_shape w h ts \<Longrightarrow> 0 \<le> y \<Longrightarrow> y < h \<Longrightarrow> nat y < length ts \<and> length (ts ! nat y) = nat w"
  by (auto simp: grid_shape_def list_all_length)

lemma grid_shape_update:
  assumes "grid_shape w h ts" "0 \<le> y" "y < h"
  shows "grid_shape w h (ts[nat y := (ts ! nat y)[nat x := t]])"
  unfolding grid_shape_def list_all_length
proof (intro conjI allI impI)
  show "length (ts[nat y := (ts ! nat y)[nat x := t]]) = nat h"
    using assms(1) by (simp add: grid_shape_def)
next
  fix n
  assume "n < length (ts[nat y := (ts ! nat y)[nat x := t]])"
  moreover from assms have "nat y < length ts \<and> length (ts ! nat y) = nat w"
    by (rule grid_shape_nth)
  ultimately show "length (ts[nat y := (ts ! nat y)[nat x := t]] ! n) = nat w"
    using assms(1) by (cases "n = nat y") (auto simp: grid_shape_def list_all_length)
qed

lemma new_game_map_wf: "map_wf (new_game_map w h)"
  by (simp add: map_wf_def grid_shape_def new_game_map_def list_all_iff)

lemma set_tile_dims [simp]:
  "map_width (set_tile m x y t) = map_width m"
  "map_height (set_tile m x y t) = map_height m"
  by (simp_all add: set_tile_def)

lemma set_tile_wf: "map_wf m \<Longrightarrow> map_wf (set_tile m x y t)"
  by (simp add: set_tile_def map_wf_def in_bounds_def grid_shape_update)

lemma set_tile_out_of_bounds: "\<not> in_bounds m x y \<Longrightarrow> set_tile m x y t = m"
  by (simp add: set_tile_def)

section \<open>Reads and writes\<close>

lemma get_tile_out_of_bounds: "\<not> in_bounds m x y \<Longrightarrow> get_tile m x y = WALL"
  by (simp add: get_tile_def)

lemma get_set_tile:
  assumes "map_wf m"
  shows "get_tile (set_tile m x y t) x' y' =
           (if in_bounds m x y \<and> x' = x \<and> y' = y then t else get_tile m x' y')"
proof (cases "in_bounds m x y \<and> in_bounds m x' y'")
  case True
  with assms have "nat y < length (tiles m)" "length (tiles m ! nat y) = nat (map_width m)"
    "nat y' < length (tiles m)" "length (tiles m ! nat y') = nat (map_width m)"
    by (auto simp: map_wf_def in_bounds_def grid_shape_nth)
  with True show ?thesis
    by (auto simp: get_tile_def set_tile_def in_bounds_def nth_list_update nat_eq_iff)
next
  case False
  then show ?thesis
    by (auto simp: get_tile_def set_tile_def in_bounds_def)
qed

lemma damage_tile_cases:
  "damage_tile m x y =
     (if get_tile m x y \<in> {WALL, DAMAGED_WALL, FOREST, SWAMP}
      then set_tile m x y (case get_tile m x y of WALL \<Rightarrow> DAMAGED_WALL | DAMAGED_WALL \<Rightarrow> RUBBLE
                             | FOREST \<Rightarrow> GRASS | SWAMP \<Rightarrow> CRATER | t \<Rightarrow> t)
      else m)"
  by (simp add: damage_tile_def split: tile_type.split)

lemma damage_tile_dims [simp]:
  "map_width (damage_tile m x y) = map_width m"
  "map_height (damage_tile m x y) = map_height m"
  by (simp_all add: damage_tile_cases)

lemma damage_tile_wf: "map_wf m \<Longrightarrow> map_wf (damage_tile m x y)"
  by (simp add: damage_tile_cases set_tile_wf)

lemma damage_tile_out_of_bounds: "\<not> in_bounds m x y \<Longrightarrow> damage_tile m x y = m"
  by (simp add: damage_tile_def get_tile_out_of_bounds set_tile_out_of_bounds)

section \<open>Damage transitions\<close>

lemma get_damage_tile:
  assumes "map_wf m"
  shows "get_tile (damage_tile m x y) x' y' =
           (if in_bounds m x y \<and> x' = x \<and> y' = y
            then (case get_tile m x y of WALL \<Rightarrow> DAMAGED_WALL | DAMAGED_WALL \<Rightarrow> RUBBLE
                    | FOREST \<Rightarrow> GRASS | SWAMP \<Rightarrow> CRATER | t \<Rightarrow> t)
            else get_tile m x' y')"
proof (cases "in_bounds m x y")
  case True
  with assms show ?thesis
    by (auto simp: damage_tile_cases get_set_tile split: tile_type.split)
next
  case False
  then show ?thesis
    by (simp add: damage_tile_out_of_bounds)
qed

lemma damage_tile_noop:
  "get_tile m x y \<notin> {WALL, DAMAGED_WALL, FOREST, SWAMP} \<Longrightarrow> damage_tile m x y = m"
  by (simp add: damage_tile_cases)

text \<open>C18: Damage to a cell stops after two calls of GameMap.damage_tile: a third call leaves the map unchanged (wall, damaged wall, rubble; forest, grass; swamp, crater).\<close>

theorem damage_tile_twice_fixpoint:
  assumes "map_wf m"
  shows "damage_tile (damage_tile (damage_tile m x y) x y) x y = damage_tile (damage_tile m x y) x y"
proof (cases "in_bounds m x y")
  case False
  then show ?thesis by (simp add: damage_tile_out_of_bounds)
next
  case True
  let ?m1 = "damage_tile m x y"
  have wf1: "map_wf ?m1" using assms by (rule damage_tile_wf)
  have b1: "in_bounds ?m1 x y" using True by (simp add: in_bounds_def)
  have "get_tile (damage_tile ?m1 x y) x y =
      (case get_tile ?m1 x y of WALL \<Rightarrow> DAMAGED_WALL | DAMAGED_WALL \<Rightarrow> RUBBLE
         | FOREST \<Rightarrow> GRASS | SWAMP \<Rightarrow> CRATER | t \<Rightarrow> t)"
    using wf1 b1 by (simp add: get_damage_tile)
  also have "\<dots> \<notin> {WALL, DAMAGED_WALL, FOREST, SWAMP}"
    using assms True by (simp add: get_damage_tile split: tile_type.split)
  finally show ?thesis by (rule damage_tile_noop)
qed

theorem damage_tile_twice_fixpoint_witness:
  "map_wf (set_tile (new_game_map 3 3) 1 1 WALL)
   \<and> get_tile (damage_tile (damage_tile (set_tile (new_game_map 3 3) 1 1 WALL) 1 1) 1 1) 1 1 = RUBBLE
   \<and> damage_tile (damage_tile (damage_tile (set_tile (new_game_map 3 3) 1 1 WALL) 1 1) 1 1) 1 1
       = damage_tile (damage_tile (set_tile (new_game_map 3 3) 1 1 WALL) 1 1) 1 1"
proof -
  have h: "map_wf (set_tile (new_game_map 3 3) 1 1 WALL)" by (simp add: set_tile_wf new_game_map_wf)
  have b: "in_bounds (set_tile (new_game_map 3 3) 1 1 WALL) 1 1"
    by (simp add: in_bounds_def new_game_map_def)
  have g: "get_tile (set_tile (new_game_map 3 3) 1 1 WALL) 1 1 = WALL"
    by (simp add: get_set_tile new_game_map_wf) (simp add: in_bounds_def new_game_map_def)
  have r: "get_tile (damage_tile (damage_tile (set_tile (new_game_map 3 3) 1 1 WALL) 1 1) 1 1) 1 1 = RUBBLE"
    using h b g by (simp add: get_damage_tile damage_tile_wf in_bounds_def)
  show ?thesis using damage_tile_twice_fixpoint [OF h] h r by blast
qed

text \<open>C17: On a well-formed map, inside the bounds, GameMap.get_tile returns what GameMap.set_tile wrote, and writing back the tile read changes nothing but the dirty flag.\<close>

theorem set_tile_get_tile:
  assumes "map_wf m" "in_bounds m x y"
  shows "get_tile (set_tile m x y t) x y = t \<and> set_tile m x y (get_tile m x y) = m\<lparr>dirty := True\<rparr>"
proof
  show "get_tile (set_tile m x y t) x y = t" using assms by (simp add: get_set_tile)
next
  from assms have "nat y < length (tiles m)" "nat x < length (tiles m ! nat y)"
    by (auto simp: map_wf_def in_bounds_def dest: grid_shape_nth)
  then show "set_tile m x y (get_tile m x y) = m\<lparr>dirty := True\<rparr>"
    using assms(2) by (simp add: set_tile_def get_tile_def)
qed

theorem set_tile_get_tile_witness:
  "map_wf (new_game_map 3 3) \<and> in_bounds (new_game_map 3 3) 1 1
   \<and> get_tile (set_tile (new_game_map 3 3) 1 1 WALL) 1 1 = WALL
   \<and> set_tile (new_game_map 3 3) 1 1 (get_tile (new_game_map 3 3) 1 1) = (new_game_map 3 3)\<lparr>dirty := True\<rparr>"
proof -
  have h: "map_wf (new_game_map 3 3)" "in_bounds (new_game_map 3 3) 1 1"
    by (simp_all only: new_game_map_wf) (simp add: in_bounds_def new_game_map_def)
  show ?thesis using set_tile_get_tile [OF h] h by blast
qed

section \<open>Generation\<close>

lemma tiles_assign_in_range:
  assumes "grid_shape w h ts" "0 \<le> y" "y < h" "0 \<le> x" "x < w"
  shows "tiles_assign ts y x t = Inr (ts[nat y := (ts ! nat y)[nat x := t]])
         \<and> grid_shape w h (ts[nat y := (ts ! nat y)[nat x := t]])"
proof -
  from assms(1-3) have row: "nat y < length ts" "length (ts ! nat y) = nat w"
    by (simp_all add: grid_shape_nth)
  with assms have "tiles_assign ts y x t = Inr (ts[nat y := (ts ! nat y)[nat x := t]])"
    by (simp add: tiles_assign_def)
  with assms show ?thesis by (simp add: grid_shape_update)
qed

lemma set_gen_cells: "set (gen_cells w h) = {(y, x). 0 \<le> y \<and> y < h \<and> 0 \<le> x \<and> x < w}"
  by (auto simp: gen_cells_def)

lemma gen_cell_total:
  assumes "grid_shape w h (fst st)" "c \<in> set (gen_cells w h)"
  shows "\<exists>st'. gen_cell w h c st = Inr st' \<and> grid_shape w h (fst st')"
proof -
  obtain y x ts g where c: "c = (y, x)" and st: "st = (ts, g)" by (cases c, cases st) auto
  with assms have r: "0 \<le> y" "y < h" "0 \<le> x" "x < w" "grid_shape w h ts"
    by (auto simp: set_gen_cells)
  show ?thesis
    using tiles_assign_in_range [OF r(5,1-4)]
    by (auto simp: gen_cell_def c st split: prod.split)
qed

lemma road_loop_total:
  assumes "grid_shape w h ts"
    and "\<And>c. c \<in> set cs \<Longrightarrow> 0 \<le> fst (f c) \<and> fst (f c) < h \<and> 0 \<le> snd (f c) \<and> snd (f c) < w"
  shows "\<exists>ts'. py_for (\<lambda>c ts. tiles_assign ts (fst (f c)) (snd (f c)) ROAD) cs ts = Inr ts'
           \<and> grid_shape w h ts'"
proof -
  have step: "\<And>c ts. c \<in> set cs \<Longrightarrow> grid_shape w h ts \<Longrightarrow>
      \<exists>ts'. tiles_assign ts (fst (f c)) (snd (f c)) ROAD = Inr ts' \<and> grid_shape w h ts'"
    using assms(2) tiles_assign_in_range by blast
  show ?thesis
    using py_for_total [where P = "grid_shape w h" and xs = cs
        and f = "\<lambda>c ts. tiles_assign ts (fst (f c)) (snd (f c)) ROAD", OF step assms(1)]
    by blast
qed

lemma cell_loop_total:
  assumes "grid_shape w h ts"
  shows "\<exists>ts' g'. py_for (gen_cell w h) (gen_cells w h) (ts, g) = Inr (ts', g') \<and> grid_shape w h ts'"
proof -
  have "\<exists>st'. py_for (gen_cell w h) (gen_cells w h) (ts, g) = Inr st' \<and> grid_shape w h (fst st')"
    using py_for_total [where P = "\<lambda>st. grid_shape w h (fst st)" and xs = "gen_cells w h"
        and f = "gen_cell w h", OF gen_cell_total] assms by auto
  then show ?thesis by (metis prod.collapse)
qed

lemma generate_random_total:
  assumes "map_wf m" "1 \<le> map_width m" "1 \<le> map_height m"
  shows "\<exists>m' g'. generate_random m g = Inr (m', g') \<and> map_wf m'
           \<and> map_width m' = map_width m \<and> map_height m' = map_height m"
proof -
  let ?w = "map_width m" and ?h = "map_height m"
  obtain ts1 g' where c: "py_for (gen_cell ?w ?h) (gen_cells ?w ?h) (tiles m, g) = Inr (ts1, g')"
      and s1: "grid_shape ?w ?h ts1"
    using cell_loop_total assms(1) unfolding map_wf_def by blast
  have r1: "\<exists>ts'. py_for (\<lambda>c ts. tiles_assign ts (fst (?h div 2, c)) (snd (?h div 2, c)) ROAD)
              [5..?w - 5 - 1] ts1 = Inr ts' \<and> grid_shape ?w ?h ts'"
    using assms(2,3) by (intro road_loop_total [OF s1]) auto
  then obtain ts2 where r2: "py_for (\<lambda>x ts. tiles_assign ts (?h div 2) x ROAD) [5..?w - 5 - 1] ts1 = Inr ts2"
      and s2: "grid_shape ?w ?h ts2"
    by auto
  have r3: "\<exists>ts'. py_for (\<lambda>c ts. tiles_assign ts (fst (c, ?w div 2)) (snd (c, ?w div 2)) ROAD)
              [5..?h - 5 - 1] ts2 = Inr ts' \<and> grid_shape ?w ?h ts'"
    using assms(2,3) by (intro road_loop_total [OF s2]) auto
  then obtain ts3 where r4: "py_for (\<lambda>y ts. tiles_assign ts y (?w div 2) ROAD) [5..?h - 5 - 1] ts2 = Inr ts3"
      and s3: "grid_shape ?w ?h ts3"
    by auto
  show ?thesis
    using c r2 r4 s3 by (simp add: generate_random_def map_wf_def)
qed

end
