(* ===== verification/Entities.thy ===== *)
theory Entities
  imports Terrain
begin

text \<open>
  The entity data of Section 2 of \<open>src/src/bolo_engine.py\<close>. The abstract class
  \<open>Entity\<close> is the record \<open>ent\<close> (id, position, \<open>alive\<close> flag); each subclass
  extends it, as the Python subclasses do, so generic operations such as \<open>destroy\<close>
  apply to every variant. Subclass fields carry a prefix (\<open>tk_\<close>, \<open>sh_\<close>, \<open>mn_\<close>,
  \<open>pb_\<close>, \<open>bs_\<close>) because record fields share one name space. The engine's
  \<open>List[Entity]\<close> with \<open>isinstance\<close> tests is a list of the datatype \<open>entity\<close>,
  one constructor per subclass.

  The class variable \<open>Entity._next_id\<close> is passed explicitly: every constructor takes
  the id it is given, and its callers advance the counter (see \<open>Game_State\<close>).
  Fields the engine never reads (\<open>carried_pillboxes\<close>, \<open>draw\<close> parameters) are left out.
\<close>

record ent =
  eid :: nat
  ent_x :: real
  ent_y :: real
  alive :: bool

text \<open>\<open>Entity.tile_position\<close>: \<open>int(x // TILE_SIZE)\<close> is the floor of the quotient.\<close>

definition tile_position :: "'a ent_scheme \<Rightarrow> int \<times> int" where
  "tile_position e = (\<lfloor>ent_x e / of_int TILE_SIZE\<rfloor>, \<lfloor>ent_y e / of_int TILE_SIZE\<rfloor>)"

definition destroy :: "'a ent_scheme \<Rightarrow> 'a ent_scheme" where
  "destroy e = e\<lparr>alive := False\<rparr>"

lemma destroy_fields [simp]:
  "eid (destroy e) = eid e" "ent_x (destroy e) = ent_x e" "ent_y (destroy e) = ent_y e"
  "alive (destroy e) = False"
  by (simp_all add: destroy_def)

section \<open>Resources and tanks\<close>

record resources =
  armor :: int
  shells :: int
  mines :: int
  wood :: int

definition default_resources :: resources where
  "default_resources = \<lparr>armor = TANK_MAX_ARMOR, shells = TANK_MAX_SHELLS,
     mines = TANK_MAX_MINES, wood = 0\<rparr>"

record tank = ent +
  tk_team :: team
  tk_angle :: real
  tk_res :: resources
  tk_speed :: real
  tk_size :: int
  tk_is_moving :: bool
  tk_has_boat :: bool
  tk_lgm_deployed :: bool
  tk_lgm_position :: "(real \<times> real) option"
  tk_lgm_respawn_timer :: int
  tk_fire_cooldown :: int
  tk_fire_rate :: int

definition new_tank :: "nat \<Rightarrow> real \<Rightarrow> real \<Rightarrow> team \<Rightarrow> tank" where
  "new_tank nid x y tm =
     \<lparr>eid = nid, ent_x = x, ent_y = y, alive = True,
      tk_team = tm, tk_angle = 0, tk_res = default_resources, tk_speed = TANK_BASE_SPEED,
      tk_size = TANK_SIZE, tk_is_moving = False, tk_has_boat = False,
      tk_lgm_deployed = False, tk_lgm_position = None, tk_lgm_respawn_timer = 0,
      tk_fire_cooldown = 0, tk_fire_rate = 10\<rparr>"

section \<open>Shells and mines\<close>

record shell = ent +
  sh_angle :: real
  sh_team :: team
  sh_owner_id :: nat
  sh_speed :: real
  sh_damage :: int
  sh_lifetime :: int
  sh_radius :: int

definition new_shell :: "nat \<Rightarrow> real \<Rightarrow> real \<Rightarrow> real \<Rightarrow> team \<Rightarrow> nat \<Rightarrow> shell" where
  "new_shell nid x y a tm owner =
     \<lparr>eid = nid, ent_x = x, ent_y = y, alive = True,
      sh_angle = a, sh_team = tm, sh_owner_id = owner, sh_speed = SHELL_SPEED,
      sh_damage = SHELL_DAMAGE, sh_lifetime = SHELL_LIFETIME, sh_radius = 3\<rparr>"

record mine = ent +
  mn_team :: team
  mn_hidden :: bool
  mn_damage :: int
  mn_radius :: int
  mn_detection_radius :: int

definition new_mine :: "nat \<Rightarrow> real \<Rightarrow> real \<Rightarrow> team \<Rightarrow> bool \<Rightarrow> mine" where
  "new_mine nid x y tm hidden =
     \<lparr>eid = nid, ent_x = x, ent_y = y, alive = True,
      mn_team = tm, mn_hidden = hidden, mn_damage = MINE_DAMAGE, mn_radius = 6,
      mn_detection_radius = 4\<rparr>"

section \<open>Structures\<close>

record pillbox = ent +
  pb_team :: team
  pb_health :: int
  pb_fire_rate :: int
  pb_fire_cooldown :: int
  pb_range :: real
  pb_size :: int
  pb_active :: bool
  pb_aggression :: int

definition new_pillbox :: "nat \<Rightarrow> real \<Rightarrow> real \<Rightarrow> team \<Rightarrow> pillbox" where
  "new_pillbox nid x y tm =
     \<lparr>eid = nid, ent_x = x, ent_y = y, alive = True,
      pb_team = tm, pb_health = PILLBOX_MAX_HEALTH, pb_fire_rate = PILLBOX_FIRE_RATE,
      pb_fire_cooldown = 0, pb_range = PILLBOX_RANGE, pb_size = 8, pb_active = True,
      pb_aggression = 0\<rparr>"

record base = ent +
  bs_team :: team
  bs_health :: int
  bs_size :: int
  bs_shells :: int
  bs_mines :: int
  bs_armor :: int
  bs_regen_timer :: int

definition new_base :: "nat \<Rightarrow> real \<Rightarrow> real \<Rightarrow> team \<Rightarrow> base" where
  "new_base nid x y tm =
     \<lparr>eid = nid, ent_x = x, ent_y = y, alive = True,
      bs_team = tm, bs_health = 16, bs_size = 16, bs_shells = 20, bs_mines = 10, bs_armor = 8,
      bs_regen_timer = BASE_RESUPPLY_RATE\<rparr>"

section \<open>The entity list\<close>

datatype entity = Tank tank | Shell shell | Mine mine | Pillbox pillbox | Base base

text \<open>The \<open>Entity\<close> part of any entity.\<close>

fun ent_of :: "entity \<Rightarrow> ent" where
  "ent_of (Tank t) = ent.truncate t"
| "ent_of (Shell s) = ent.truncate s"
| "ent_of (Mine m) = ent.truncate m"
| "ent_of (Pillbox p) = ent.truncate p"
| "ent_of (Base b) = ent.truncate b"

definition ent_id :: "entity \<Rightarrow> nat" where
  "ent_id e = eid (ent_of e)"

definition ent_alive :: "entity \<Rightarrow> bool" where
  "ent_alive e = alive (ent_of e)"

lemma ent_id_simps [simp]:
  "ent_id (Tank t) = eid t" "ent_id (Shell s) = eid s" "ent_id (Mine m) = eid m"
  "ent_id (Pillbox p) = eid p" "ent_id (Base b) = eid b"
  by (simp_all add: ent_id_def ent.defs)

lemma ent_alive_simps [simp]:
  "ent_alive (Tank t) = alive t" "ent_alive (Shell s) = alive s" "ent_alive (Mine m) = alive m"
  "ent_alive (Pillbox p) = alive p" "ent_alive (Base b) = alive b"
  by (simp_all add: ent_alive_def ent.defs)

end
