(* ===== verification/Tank_Ops.thy ===== *)
theory Tank_Ops
  imports Entities
begin

text \<open>
  The methods of class \<open>Tank\<close> (\<open>src/src/bolo_engine.py\<close>, lines 218--369): the
  per-frame tick, movement constrained by terrain, rotation, firing and mine laying
  (which construct a new entity and so advance the id counter), damage, and the
  unused \<open>resupply\<close>. The lemmas give each method's behaviour on every branch, the
  bounds every accepted move respects, that a tank on deep water cannot move even
  with a boat, and the resource invariant the methods keep.
\<close>

section \<open>Operations\<close>

definition tank_update :: "tank \<Rightarrow> tank" where
  "tank_update t =
     (let t1 = (if 0 < tk_fire_cooldown t then t\<lparr>tk_fire_cooldown := tk_fire_cooldown t - 1\<rparr> else t)
      in if 0 < tk_lgm_respawn_timer t1
         then (let t2 = t1\<lparr>tk_lgm_respawn_timer := tk_lgm_respawn_timer t1 - 1\<rparr>
               in if tk_lgm_respawn_timer t2 = 0 then t2\<lparr>tk_lgm_deployed := False\<rparr> else t2)
         else t1)"

definition get_terrain_speed :: "tank \<Rightarrow> game_map \<Rightarrow> real" where
  "get_terrain_speed t m =
     (let tile = get_tile m (fst (tile_position t)) (snd (tile_position t));
          terrain = terrain_data tile
      in if (tile = DEEP_WATER \<or> tile = RIVER) \<and> \<not> tk_has_boat t
         then (if tile = DEEP_WATER then 0 else speed_multiplier terrain)
         else speed_multiplier terrain)"

definition can_move_to :: "tank \<Rightarrow> real \<Rightarrow> real \<Rightarrow> game_map \<Rightarrow> bool" where
  "can_move_to t x y m =
     (if x < of_int (tk_size t) \<or> x > of_int (pixel_width m - tk_size t) then False
      else if y < of_int (tk_size t) \<or> y > of_int (pixel_height m - tk_size t) then False
      else (let tile = get_tile m \<lfloor>x / of_int TILE_SIZE\<rfloor> \<lfloor>y / of_int TILE_SIZE\<rfloor>
            in if \<not> passable (terrain_data tile)
               then (if tile = DEEP_WATER \<and> tk_has_boat t then True else False)
               else True))"

definition move_forward :: "tank \<Rightarrow> game_map \<Rightarrow> tank" where
  "move_forward t m =
     (let ts = get_terrain_speed t m in
      if ts \<le> 0 then t
      else (let dx = cos (radians (tk_angle t)) * tk_speed t * ts;
                dy = sin (radians (tk_angle t)) * tk_speed t * ts;
                nx = ent_x t + dx; ny = ent_y t + dy
            in if can_move_to t nx ny m
               then t\<lparr>ent_x := nx, ent_y := ny, tk_is_moving := True\<rparr> else t))"

definition move_backward :: "tank \<Rightarrow> game_map \<Rightarrow> tank" where
  "move_backward t m =
     (let ts = get_terrain_speed t m in
      if ts \<le> 0 then t
      else (let dx = cos (radians (tk_angle t)) * tk_speed t * ts * 0.6;
                dy = sin (radians (tk_angle t)) * tk_speed t * ts * 0.6;
                nx = ent_x t - dx; ny = ent_y t - dy
            in if can_move_to t nx ny m
               then t\<lparr>ent_x := nx, ent_y := ny, tk_is_moving := True\<rparr> else t))"

definition rotate_left :: "tank \<Rightarrow> tank" where
  "rotate_left t = t\<lparr>tk_angle := py_fmod (tk_angle t - TANK_ROTATION_SPEED) 360\<rparr>"

definition rotate_right :: "tank \<Rightarrow> tank" where
  "rotate_right t = t\<lparr>tk_angle := py_fmod (tk_angle t + TANK_ROTATION_SPEED) 360\<rparr>"

text \<open>
  \<open>fire\<close> and \<open>place_mine\<close> return the tank, the entity they construct (\<open>None\<close> when
  the method returns \<open>None\<close>), and the id counter after the construction.
\<close>

definition fire :: "tank \<Rightarrow> nat \<Rightarrow> tank \<times> shell option \<times> nat" where
  "fire t nid =
     (if 0 < tk_fire_cooldown t \<or> shells (tk_res t) \<le> 0 then (t, None, nid)
      else (let t' = t\<lparr>tk_res := (tk_res t)\<lparr>shells := shells (tk_res t) - 1\<rparr>,
                       tk_fire_cooldown := tk_fire_rate t\<rparr>;
                cannon_length = of_int (tk_size t + 8);
                sx = ent_x t + cos (radians (tk_angle t)) * cannon_length;
                sy = ent_y t + sin (radians (tk_angle t)) * cannon_length
            in (t', Some (new_shell nid sx sy (tk_angle t) (tk_team t) (eid t)), Suc nid)))"

definition place_mine :: "tank \<Rightarrow> nat \<Rightarrow> tank \<times> mine option \<times> nat" where
  "place_mine t nid =
     (if mines (tk_res t) \<le> 0 then (t, None, nid)
      else (t\<lparr>tk_res := (tk_res t)\<lparr>mines := mines (tk_res t) - 1\<rparr>\<rparr>,
            Some (new_mine nid (ent_x t) (ent_y t) (tk_team t) False), Suc nid))"

definition tank_take_damage :: "tank \<Rightarrow> int \<Rightarrow> tank" where
  "tank_take_damage t amount =
     (let t' = t\<lparr>tk_res := (tk_res t)\<lparr>armor := armor (tk_res t) - amount\<rparr>\<rparr>
      in if armor (tk_res t') \<le> 0 then destroy t' else t')"

definition tank_resupply :: "tank \<Rightarrow> tank" where
  "tank_resupply t =
     t\<lparr>tk_res := (tk_res t)\<lparr>armor := min TANK_MAX_ARMOR (armor (tk_res t) + 1),
                            shells := min TANK_MAX_SHELLS (shells (tk_res t) + 5),
                            mines := min TANK_MAX_MINES (mines (tk_res t) + 2)\<rparr>\<rparr>"

section \<open>Behaviour of each method\<close>

lemma fire_refused:
  "0 < tk_fire_cooldown t \<or> shells (tk_res t) \<le> 0 \<Longrightarrow> fire t nid = (t, None, nid)"
  by (simp add: fire_def)

lemma fire_spawns_shell:
  assumes "tk_fire_cooldown t \<le> 0" "0 < shells (tk_res t)"
  shows "\<exists>s. fire t nid =
             (t\<lparr>tk_res := (tk_res t)\<lparr>shells := shells (tk_res t) - 1\<rparr>,
                tk_fire_cooldown := tk_fire_rate t\<rparr>, Some s, Suc nid)
           \<and> eid s = nid \<and> alive s \<and> sh_team s = tk_team t \<and> sh_owner_id s = eid t
           \<and> sh_angle s = tk_angle t \<and> sh_lifetime s = SHELL_LIFETIME
           \<and> euclid (ent_x s) (ent_y s) (ent_x t) (ent_y t) = \<bar>of_int (tk_size t + 8)\<bar>"
  using assms by (simp add: fire_def new_shell_def Let_def euclid_polar del: of_int_add)

lemma place_mine_refused: "mines (tk_res t) \<le> 0 \<Longrightarrow> place_mine t nid = (t, None, nid)"
  by (simp add: place_mine_def)

lemma rotate_left_range: "0 \<le> tk_angle (rotate_left t) \<and> tk_angle (rotate_left t) < 360"
  by (simp add: rotate_left_def py_fmod_range)

lemma rotate_right_range: "0 \<le> tk_angle (rotate_right t) \<and> tk_angle (rotate_right t) < 360"
  by (simp add: rotate_right_def py_fmod_range)

lemma tank_take_damage_alive:
  "alive (tank_take_damage t n) \<longleftrightarrow> alive t \<and> n < armor (tk_res t)"
  by (auto simp: tank_take_damage_def Let_def)

lemma tank_take_damage_armor: "armor (tk_res (tank_take_damage t n)) = armor (tk_res t) - n"
  by (simp add: tank_take_damage_def Let_def destroy_def)

lemma tank_take_damage_fields [simp]:
  "eid (tank_take_damage t n) = eid t" "tk_team (tank_take_damage t n) = tk_team t"
  "ent_x (tank_take_damage t n) = ent_x t" "ent_y (tank_take_damage t n) = ent_y t"
  "tk_size (tank_take_damage t n) = tk_size t"
  by (simp_all add: tank_take_damage_def Let_def destroy_def)

lemma tank_update_fields [simp]:
  "eid (tank_update t) = eid t" "alive (tank_update t) = alive t" "tk_team (tank_update t) = tk_team t"
  "ent_x (tank_update t) = ent_x t" "ent_y (tank_update t) = ent_y t"
  by (simp_all add: tank_update_def Let_def)

section \<open>Movement\<close>

text \<open>The tank's centre lies in the arena, at least its radius away from every edge.\<close>

definition in_arena :: "game_map \<Rightarrow> tank \<Rightarrow> bool" where
  "in_arena m t \<longleftrightarrow>
     of_int (tk_size t) \<le> ent_x t \<and> ent_x t \<le> of_int (pixel_width m - tk_size t)
     \<and> of_int (tk_size t) \<le> ent_y t \<and> ent_y t \<le> of_int (pixel_height m - tk_size t)"

lemma can_move_to_in_arena:
  "can_move_to t x y m \<Longrightarrow> in_arena m (t\<lparr>ent_x := x, ent_y := y, tk_is_moving := True\<rparr>)"
  by (simp add: can_move_to_def in_arena_def split: if_splits)

lemma move_forward_cases:
  "move_forward t m = t \<or>
   (\<exists>x y. can_move_to t x y m \<and> move_forward t m = t\<lparr>ent_x := x, ent_y := y, tk_is_moving := True\<rparr>)"
  by (auto simp: move_forward_def Let_def)

lemma move_backward_cases:
  "move_backward t m = t \<or>
   (\<exists>x y. can_move_to t x y m \<and> move_backward t m = t\<lparr>ent_x := x, ent_y := y, tk_is_moving := True\<rparr>)"
  by (auto simp: move_backward_def Let_def)

lemma move_forward_in_arena: "in_arena m t \<Longrightarrow> in_arena m (move_forward t m)"
  using move_forward_cases [of t m] can_move_to_in_arena by auto

lemma move_backward_in_arena: "in_arena m t \<Longrightarrow> in_arena m (move_backward t m)"
  using move_backward_cases [of t m] can_move_to_in_arena by auto

text \<open>C19: A tank on a deep-water tile can neither move forward nor backward, even when it has a boat, because Tank._get_terrain_speed returns the table speed 0 for deep water.\<close>

theorem deep_water_stuck:
  assumes "get_tile m (fst (tile_position t)) (snd (tile_position t)) = DEEP_WATER"
  shows "move_forward t m = t \<and> move_backward t m = t"
  using assms by (simp add: move_forward_def move_backward_def get_terrain_speed_def Let_def)

theorem deep_water_stuck_witness:
  "get_tile (set_tile (new_game_map 3 3) 1 1 DEEP_WATER) (fst (tile_position (new_tank 0 24 24 TEAM_1\<lparr>tk_has_boat := True\<rparr>))) (snd (tile_position (new_tank 0 24 24 TEAM_1\<lparr>tk_has_boat := True\<rparr>))) = DEEP_WATER
   \<and> tk_has_boat (new_tank 0 24 24 TEAM_1\<lparr>tk_has_boat := True\<rparr>)
   \<and> move_forward (new_tank 0 24 24 TEAM_1\<lparr>tk_has_boat := True\<rparr>) (set_tile (new_game_map 3 3) 1 1 DEEP_WATER) = new_tank 0 24 24 TEAM_1\<lparr>tk_has_boat := True\<rparr>
   \<and> move_backward (new_tank 0 24 24 TEAM_1\<lparr>tk_has_boat := True\<rparr>) (set_tile (new_game_map 3 3) 1 1 DEEP_WATER) = new_tank 0 24 24 TEAM_1\<lparr>tk_has_boat := True\<rparr>"
proof -
  have h: "get_tile (set_tile (new_game_map 3 3) 1 1 DEEP_WATER) (fst (tile_position (new_tank 0 24 24 TEAM_1\<lparr>tk_has_boat := True\<rparr>)))
      (snd (tile_position (new_tank 0 24 24 TEAM_1\<lparr>tk_has_boat := True\<rparr>))) = DEEP_WATER"
    by (simp add: tile_position_def new_tank_def TILE_SIZE_def get_set_tile new_game_map_wf)
       (simp add: in_bounds_def new_game_map_def)
  show ?thesis using deep_water_stuck [OF h] h by simp
qed

section \<open>Resource bounds\<close>

text \<open>
  Stocks stay within \<open>[0, max]\<close>; armor is only bounded above, since damage may take
  it below zero before the destroy check.
\<close>

definition res_ok :: "resources \<Rightarrow> bool" where
  "res_ok r \<longleftrightarrow> armor r \<le> TANK_MAX_ARMOR
     \<and> 0 \<le> shells r \<and> shells r \<le> TANK_MAX_SHELLS
     \<and> 0 \<le> mines r \<and> mines r \<le> TANK_MAX_MINES
     \<and> 0 \<le> wood r \<and> wood r \<le> TANK_MAX_WOOD"

lemma default_resources_ok: "res_ok default_resources"
  by (simp add: res_ok_def default_resources_def)

lemma tank_res_unchanged [simp]:
  "tk_res (tank_update t) = tk_res t"
  "tk_res (move_forward t m) = tk_res t"
  "tk_res (move_backward t m) = tk_res t"
  "tk_res (rotate_left t) = tk_res t"
  "tk_res (rotate_right t) = tk_res t"
  by (simp_all add: tank_update_def move_forward_def move_backward_def rotate_left_def
      rotate_right_def Let_def)

lemma tank_moves_fields [simp]:
  "eid (move_forward t m) = eid t" "alive (move_forward t m) = alive t"
  "tk_team (move_forward t m) = tk_team t"
  "eid (move_backward t m) = eid t" "alive (move_backward t m) = alive t"
  "tk_team (move_backward t m) = tk_team t"
  "eid (rotate_left t) = eid t" "alive (rotate_left t) = alive t" "tk_team (rotate_left t) = tk_team t"
  "eid (rotate_right t) = eid t" "alive (rotate_right t) = alive t" "tk_team (rotate_right t) = tk_team t"
  "eid (fst (fire t nid)) = eid t" "alive (fst (fire t nid)) = alive t"
  "tk_team (fst (fire t nid)) = tk_team t"
  "eid (fst (place_mine t nid)) = eid t" "alive (fst (place_mine t nid)) = alive t"
  "tk_team (fst (place_mine t nid)) = tk_team t"
  by (simp_all add: move_forward_def move_backward_def rotate_left_def rotate_right_def
      fire_def place_mine_def Let_def)

text \<open>What \<open>fire\<close> and \<open>place_mine\<close> construct: nothing, or one entity with the next id.\<close>

lemma fire_new_id:
  "(fst (snd (fire t nid)) = None \<and> snd (snd (fire t nid)) = nid)
   \<or> (\<exists>sh. fst (snd (fire t nid)) = Some sh \<and> eid sh = nid \<and> snd (snd (fire t nid)) = Suc nid)"
  by (simp add: fire_def new_shell_def Let_def)

lemma place_mine_new_id:
  "(fst (snd (place_mine t nid)) = None \<and> snd (snd (place_mine t nid)) = nid)
   \<or> (\<exists>mn. fst (snd (place_mine t nid)) = Some mn \<and> eid mn = nid
        \<and> snd (snd (place_mine t nid)) = Suc nid)"
  by (simp add: place_mine_def new_mine_def)

lemma fire_res_ok: "res_ok (tk_res t) \<Longrightarrow> res_ok (tk_res (fst (fire t nid)))"
  by (auto simp: fire_def res_ok_def Let_def)

lemma place_mine_res_ok: "res_ok (tk_res t) \<Longrightarrow> res_ok (tk_res (fst (place_mine t nid)))"
  by (auto simp: place_mine_def res_ok_def)

lemma take_damage_res_ok: "res_ok (tk_res t) \<Longrightarrow> 0 \<le> n \<Longrightarrow> res_ok (tk_res (tank_take_damage t n))"
  by (simp add: res_ok_def tank_take_damage_armor)
     (simp add: tank_take_damage_def Let_def destroy_def)

lemma tank_resupply_res_ok: "res_ok (tk_res t) \<Longrightarrow> res_ok (tk_res (tank_resupply t))"
  by (simp add: tank_resupply_def res_ok_def)

section \<open>Sequences of tank operations\<close>

text \<open>
  The operations a caller can apply to one tank, as the engine's callers apply them:
  the frame tick, the movement keys, firing and mine laying (the new entity leaves the
  tank), a hit of a given damage, and a resupply.
\<close>

datatype tank_cmd = Tick | Forward | Backward | Left | Right | Fire | PlaceMine
  | Hit int | Resupply

fun tank_cmd_step :: "game_map \<Rightarrow> nat \<Rightarrow> tank_cmd \<Rightarrow> tank \<Rightarrow> tank" where
  "tank_cmd_step m nid Tick t = tank_update t"
| "tank_cmd_step m nid Forward t = move_forward t m"
| "tank_cmd_step m nid Backward t = move_backward t m"
| "tank_cmd_step m nid Left t = rotate_left t"
| "tank_cmd_step m nid Right t = rotate_right t"
| "tank_cmd_step m nid Fire t = fst (fire t nid)"
| "tank_cmd_step m nid PlaceMine t = fst (place_mine t nid)"
| "tank_cmd_step m nid (Hit n) t = tank_take_damage t n"
| "tank_cmd_step m nid Resupply t = tank_resupply t"

definition hit_nonneg :: "tank_cmd \<Rightarrow> bool" where
  "hit_nonneg c \<longleftrightarrow> (case c of Hit n \<Rightarrow> 0 \<le> n | _ \<Rightarrow> True)"

lemma tank_cmd_step_res_ok:
  "res_ok (tk_res t) \<Longrightarrow> hit_nonneg c \<Longrightarrow> res_ok (tk_res (tank_cmd_step m nid c t))"
  by (cases c) (simp_all add: hit_nonneg_def fire_res_ok place_mine_res_ok
      take_damage_res_ok tank_resupply_res_ok)

text \<open>C8: Any sequence of tank updates, moves, rotations, firing, mine placement, non-negative hits and Tank.resupply keeps shells, mines and wood in [0, max] and armor at most its maximum.\<close>

lemma tank_cmds_res_ok:
  "res_ok (tk_res t) \<Longrightarrow> list_all hit_nonneg cs \<Longrightarrow>
   res_ok (tk_res (fold (tank_cmd_step m nid) cs t))"
  by (induction cs arbitrary: t) (simp_all add: tank_cmd_step_res_ok)

theorem tank_cmds_res_ok_witness:
  "res_ok (tk_res (new_tank 0 100 100 TEAM_1)) \<and> list_all hit_nonneg [Fire, Hit 3, Resupply, PlaceMine]
   \<and> res_ok (tk_res (fold (tank_cmd_step (new_game_map MAP_WIDTH MAP_HEIGHT) 1)
        [Fire, Hit 3, Resupply, PlaceMine] (new_tank 0 100 100 TEAM_1)))"
proof -
  have r: "res_ok (tk_res (new_tank 0 100 100 TEAM_1))" by (simp add: new_tank_def default_resources_ok)
  have c: "list_all hit_nonneg [Fire, Hit 3, Resupply, PlaceMine]" by (simp add: hit_nonneg_def)
  show ?thesis using r c tank_cmds_res_ok [OF r c] by simp
qed

end
