(* ===== verification/Shell_Mine.thy ===== *)
theory Shell_Mine
  imports Tank_Ops
begin

text \<open>
  Classes \<open>Shell\<close> and \<open>Mine\<close> of \<open>src/src/bolo_engine.py\<close> (lines 394--472).
  \<open>Shell.update\<close> moves the shell, counts its lifetime down and checks the terrain it
  reaches, damaging destructible blocking terrain; it returns the shell and the map.
  \<open>Mine.update\<close> does nothing; \<open>Mine.detonate\<close>, called by the collision pass, turns
  the mine's cell into a crater. The lemmas show that a shell dies after at most
  \<open>lifetime\<close> updates, when exactly an update destroys it, and that the final bounds
  check of \<open>Shell.update\<close> can never fire: a shell outside the map is already stopped
  by the wall that \<open>get_tile\<close> reports there; and that a detonation destroys the
  mine and leaves a crater on its cell.
\<close>

section \<open>Operations\<close>

definition shell_update :: "shell \<Rightarrow> game_map \<Rightarrow> shell \<times> game_map" where
  "shell_update s m =
     (let s1 = s\<lparr>ent_x := ent_x s + cos (radians (sh_angle s)) * sh_speed s,
                 ent_y := ent_y s + sin (radians (sh_angle s)) * sh_speed s\<rparr>;
          s2 = s1\<lparr>sh_lifetime := sh_lifetime s1 - 1\<rparr>
      in if sh_lifetime s2 \<le> 0 then (destroy s2, m)
         else (let (tx, ty) = tile_position s2; tile = get_tile m tx ty;
                   terrain = terrain_data tile
               in if blocks_shots terrain
                  then (destroy s2, if destructible terrain then damage_tile m tx ty else m)
                  else if ent_x s2 < 0 \<or> ent_x s2 > of_int (pixel_width m)
                          \<or> ent_y s2 < 0 \<or> ent_y s2 > of_int (pixel_height m)
                  then (destroy s2, m)
                  else (s2, m)))"

definition mine_detonate :: "mine \<Rightarrow> game_map \<Rightarrow> mine \<times> game_map" where
  "mine_detonate mn m =
     (destroy mn, set_tile m (fst (tile_position mn)) (snd (tile_position mn)) CRATER)"

section \<open>Shell updates\<close>

text \<open>Where the shell is after moving one step, before any check.\<close>

definition shell_next_x :: "shell \<Rightarrow> real" where
  "shell_next_x s = ent_x s + cos (radians (sh_angle s)) * sh_speed s"

definition shell_next_y :: "shell \<Rightarrow> real" where
  "shell_next_y s = ent_y s + sin (radians (sh_angle s)) * sh_speed s"

definition shell_next_tile :: "shell \<Rightarrow> int \<times> int" where
  "shell_next_tile s = (\<lfloor>shell_next_x s / of_int TILE_SIZE\<rfloor>, \<lfloor>shell_next_y s / of_int TILE_SIZE\<rfloor>)"

lemma shell_update_unfold:
  "shell_update s m =
     (let s2 = s\<lparr>ent_x := shell_next_x s, ent_y := shell_next_y s, sh_lifetime := sh_lifetime s - 1\<rparr>;
          (tx, ty) = shell_next_tile s; terrain = terrain_data (get_tile m tx ty)
      in if sh_lifetime s - 1 \<le> 0 then (destroy s2, m)
         else if blocks_shots terrain
              then (destroy s2, if destructible terrain then damage_tile m tx ty else m)
         else if shell_next_x s < 0 \<or> shell_next_x s > of_int (pixel_width m)
                 \<or> shell_next_y s < 0 \<or> shell_next_y s > of_int (pixel_height m)
              then (destroy s2, m)
         else (s2, m))"
  by (simp add: shell_update_def shell_next_x_def shell_next_y_def shell_next_tile_def
      tile_position_def Let_def)

text \<open>A cell that does not stop shells lies inside the grid, so its pixels are in bounds.\<close>

lemma not_blocking_in_pixels:
  assumes "\<not> blocks_shots (terrain_data (get_tile m \<lfloor>x / of_int TILE_SIZE\<rfloor> \<lfloor>y / of_int TILE_SIZE\<rfloor>))"
  shows "0 \<le> x \<and> x < of_int (pixel_width m) \<and> 0 \<le> y \<and> y < of_int (pixel_height m)"
proof -
  have b: "in_bounds m \<lfloor>x / 16\<rfloor> \<lfloor>y / 16\<rfloor>"
    using assms get_tile_out_of_bounds by fastforce
  then have "0 \<le> \<lfloor>x / 16\<rfloor>" "\<lfloor>x / 16\<rfloor> < map_width m"
            "0 \<le> \<lfloor>y / 16\<rfloor>" "\<lfloor>y / 16\<rfloor> < map_height m"
    by (simp_all add: in_bounds_def)
  then have "0 \<le> x / 16" "x / 16 < of_int (map_width m)" "0 \<le> y / 16" "y / 16 < of_int (map_height m)"
    by (simp_all add: floor_less_iff)
  then show ?thesis by (simp add: pixel_width_def pixel_height_def)
qed

theorem shell_update_alive_iff:
  "alive (fst (shell_update s m)) \<longleftrightarrow>
     alive s \<and> 1 < sh_lifetime s
     \<and> \<not> blocks_shots (terrain_data (get_tile m (fst (shell_next_tile s)) (snd (shell_next_tile s))))"
  using not_blocking_in_pixels [of m "shell_next_x s" "shell_next_y s"]
  by (auto simp: shell_update_unfold shell_next_tile_def Let_def)

lemma shell_update_fields [simp]:
  "eid (fst (shell_update s m)) = eid s"
  "sh_team (fst (shell_update s m)) = sh_team s"
  "sh_owner_id (fst (shell_update s m)) = sh_owner_id s"
  "sh_damage (fst (shell_update s m)) = sh_damage s"
  "sh_radius (fst (shell_update s m)) = sh_radius s"
  "sh_lifetime (fst (shell_update s m)) = sh_lifetime s - 1"
  by (simp_all add: shell_update_unfold Let_def destroy_def split: prod.split)

lemma shell_update_map:
  "snd (shell_update s m) = m \<or>
   snd (shell_update s m) = damage_tile m (fst (shell_next_tile s)) (snd (shell_next_tile s))"
  by (simp add: shell_update_unfold Let_def split: prod.split)

lemma shell_update_dims [simp]:
  "map_width (snd (shell_update s m)) = map_width m" "map_height (snd (shell_update s m)) = map_height m"
  using shell_update_map [of s m] by auto

lemma shell_update_map_wf: "map_wf m \<Longrightarrow> map_wf (snd (shell_update s m))"
  using shell_update_map [of s m] damage_tile_wf by auto

lemma shell_hits_wall:
  assumes "1 < sh_lifetime s"
    and "blocks_shots (terrain_data (get_tile m (fst (shell_next_tile s)) (snd (shell_next_tile s))))"
  shows "\<not> alive (fst (shell_update s m))
         \<and> snd (shell_update s m) = damage_tile m (fst (shell_next_tile s)) (snd (shell_next_tile s))"
  using assms terrain_blocks_shots_destructible
  by (cases "shell_next_tile s") (simp add: shell_update_unfold Let_def)

section \<open>Shell lifetime\<close>

text \<open>Repeated updates of one shell on a fixed map.\<close>

fun shell_run :: "nat \<Rightarrow> shell \<Rightarrow> game_map \<Rightarrow> shell" where
  "shell_run 0 s m = s"
| "shell_run (Suc n) s m = shell_run n (fst (shell_update s m)) m"

lemma shell_run_dead: "\<not> alive s \<Longrightarrow> \<not> alive (shell_run n s m)"
  by (induction n arbitrary: s) (simp_all add: shell_update_alive_iff)

lemma shell_run_alive_lifetime:
  "alive (shell_run n s m) \<Longrightarrow> n = 0 \<or> int n < sh_lifetime s"
proof (induction n arbitrary: s)
  case 0
  then show ?case by simp
next
  case (Suc n)
  then have a: "alive (shell_run n (fst (shell_update s m)) m)" by simp
  from Suc.IH [OF a] have n: "n = 0 \<or> int n < sh_lifetime s - 1" by simp
  have "alive (fst (shell_update s m))"
    using a shell_run_dead by blast
  then have "1 < sh_lifetime s" by (simp add: shell_update_alive_iff)
  with n show ?case by auto
qed

text \<open>C9: A shell updated repeatedly on a map is dead after at most max(1, lifetime) calls of Shell.update.\<close>

theorem shell_dies_within_lifetime:
  "max 1 (sh_lifetime s) \<le> int n \<Longrightarrow> \<not> alive (shell_run n s m)"
  using shell_run_alive_lifetime [of n s m] by auto

theorem shell_dies_within_lifetime_witness:
  "max 1 (sh_lifetime (new_shell 0 100 100 0 TEAM_1 7)) \<le> int 90
   \<and> \<not> alive (shell_run 90 (new_shell 0 100 100 0 TEAM_1 7) (new_game_map MAP_WIDTH MAP_HEIGHT))"
proof -
  have h: "max 1 (sh_lifetime (new_shell 0 100 100 0 TEAM_1 7)) \<le> int 90" by (simp add: new_shell_def)
  show ?thesis using h shell_dies_within_lifetime [OF h] by simp
qed

theorem shell_lifetime_one:
  "sh_lifetime s = 1 \<Longrightarrow> \<not> alive (fst (shell_update s m))"
  by (simp add: shell_update_alive_iff)

section \<open>Mines\<close>

text \<open>C20: Mine.detonate destroys the mine and leaves a crater on its tile of a well-formed map.\<close>

theorem mine_detonate_crater:
  assumes "map_wf m" "in_bounds m (fst (tile_position mn)) (snd (tile_position mn))"
  shows "\<not> alive (fst (mine_detonate mn m))
         \<and> get_tile (snd (mine_detonate mn m)) (fst (tile_position mn)) (snd (tile_position mn)) = CRATER"
  using assms by (simp add: mine_detonate_def get_set_tile)

lemma mine_detonate_dims [simp]:
  "map_width (snd (mine_detonate mn m)) = map_width m" "map_height (snd (mine_detonate mn m)) = map_height m"
  by (simp_all add: mine_detonate_def)

lemma mine_detonate_map_wf: "map_wf m \<Longrightarrow> map_wf (snd (mine_detonate mn m))"
  by (simp add: mine_detonate_def set_tile_wf)

lemma mine_detonate_fields [simp]:
  "eid (fst (mine_detonate mn m)) = eid mn"
  "mn_team (fst (mine_detonate mn m)) = mn_team mn"
  by (simp_all add: mine_detonate_def destroy_def)

theorem mine_detonate_crater_witness:
  "map_wf (new_game_map 3 3)
   \<and> in_bounds (new_game_map 3 3) (fst (tile_position (new_mine 0 24 24 TEAM_1 False))) (snd (tile_position (new_mine 0 24 24 TEAM_1 False)))
   \<and> \<not> alive (fst (mine_detonate (new_mine 0 24 24 TEAM_1 False) (new_game_map 3 3)))
   \<and> get_tile (snd (mine_detonate (new_mine 0 24 24 TEAM_1 False) (new_game_map 3 3))) (fst (tile_position (new_mine 0 24 24 TEAM_1 False)))
       (snd (tile_position (new_mine 0 24 24 TEAM_1 False))) = CRATER"
proof -
  have h: "map_wf (new_game_map 3 3)"
    "in_bounds (new_game_map 3 3) (fst (tile_position (new_mine 0 24 24 TEAM_1 False))) (snd (tile_position (new_mine 0 24 24 TEAM_1 False)))"
    by (simp_all only: new_game_map_wf)
      (simp add: tile_position_def new_mine_def TILE_SIZE_def in_bounds_def new_game_map_def)
  show ?thesis using mine_detonate_crater [OF h] h by blast
qed

end
