(* ===== verification/Pillbox_Ops.thy ===== *)
theory Pillbox_Ops
  imports Shell_Mine
begin

text \<open>
  Class \<open>Pillbox\<close> of \<open>src/src/bolo_engine.py\<close> (lines 487--567): the turret's frame
  update (cooldown, random decay of aggression, targeting and firing), its target search
  over the live entity list, firing at a target, damage and capture. The lemmas show that
  the target search returns the nearest enemy tank in range, the first one on ties (by
  equivalence with the reference \<open>first_min\<close>), that health, aggression and cooldown
  stay in their ranges, and that the turret's life cycle is a state machine in which only
  a capture brings an inactive turret back.
\<close>

section \<open>Operations\<close>

definition pb_dist :: "pillbox \<Rightarrow> tank \<Rightarrow> real" where
  "pb_dist p t = euclid (ent_x t) (ent_y t) (ent_x p) (ent_y p)"

text \<open>\<open>_find_target\<close>: the loop over \<open>game_state.entities\<close> with its best-so-far pair.\<close>

fun find_target_loop :: "pillbox \<Rightarrow> entity list \<Rightarrow> (tank \<times> real) option \<Rightarrow> (tank \<times> real) option" where
  "find_target_loop p [] best = best"
| "find_target_loop p (Tank t # es) best =
     (if tk_team t \<noteq> pb_team p
      then (let d = euclid (ent_x t) (ent_y t) (ent_x p) (ent_y p) in
            if d < pb_range p \<and> (case best of None \<Rightarrow> True | Some (_, bd) \<Rightarrow> d < bd)
            then find_target_loop p es (Some (t, d))
            else find_target_loop p es best)
      else find_target_loop p es best)"
| "find_target_loop p (_ # es) best = find_target_loop p es best"

definition find_target :: "pillbox \<Rightarrow> entity list \<Rightarrow> tank option" where
  "find_target p es = map_option fst (find_target_loop p es None)"

definition fire_at :: "pillbox \<Rightarrow> tank \<Rightarrow> nat \<Rightarrow> pillbox \<times> shell \<times> nat" where
  "fire_at p t nid =
     (let angle = degrees (atan2 (ent_y t - ent_y p) (ent_x t - ent_x p));
          adjusted_rate = max 5 (pb_fire_rate p - pb_aggression p * 3)
      in (p\<lparr>pb_fire_cooldown := adjusted_rate\<rparr>,
          new_shell nid (ent_x p) (ent_y p) angle (pb_team p) (eid p), Suc nid))"

text \<open>
  \<open>Pillbox.update\<close> in its two phases. The tick counts the cooldown down and, with
  probability 1/100, lowers the aggression; the draw of \<open>random.random()\<close> happens only
  when the aggression is positive (the \<open>and\<close> short-circuits). The engagement looks for
  a target once the cooldown has run out and fires at it; the shell goes to the caller,
  which adds it to the pending list.
\<close>

definition pillbox_tick :: "pillbox \<Rightarrow> rng \<Rightarrow> pillbox \<times> rng" where
  "pillbox_tick p g =
     (let p1 = (if 0 < pb_fire_cooldown p then p\<lparr>pb_fire_cooldown := pb_fire_cooldown p - 1\<rparr> else p)
      in if 0 < pb_aggression p1
         then (case random_random g of (r, g') \<Rightarrow>
                 (if r < 0.01 then p1\<lparr>pb_aggression := max 0 (pb_aggression p1 - 1)\<rparr> else p1, g'))
         else (p1, g))"

definition pillbox_engage :: "pillbox \<Rightarrow> entity list \<Rightarrow> nat \<Rightarrow> pillbox \<times> shell option \<times> nat" where
  "pillbox_engage p es nid =
     (if pb_fire_cooldown p \<le> 0
      then (case find_target p es of
              None \<Rightarrow> (p, None, nid)
            | Some t \<Rightarrow> (case fire_at p t nid of (p', s, nid') \<Rightarrow> (p', Some s, nid')))
      else (p, None, nid))"

definition pillbox_update ::
  "pillbox \<Rightarrow> entity list \<Rightarrow> rng \<Rightarrow> nat \<Rightarrow> pillbox \<times> shell option \<times> rng \<times> nat" where
  "pillbox_update p es g nid =
     (if \<not> pb_active p then (p, None, g, nid)
      else (case pillbox_tick p g of (p2, g1) \<Rightarrow>
              (case pillbox_engage p2 es nid of (p3, so, nid') \<Rightarrow> (p3, so, g1, nid'))))"

definition pillbox_take_damage :: "pillbox \<Rightarrow> int \<Rightarrow> pillbox" where
  "pillbox_take_damage p amount =
     (let p1 = p\<lparr>pb_health := pb_health p - amount, pb_aggression := min 8 (pb_aggression p + 1)\<rparr>
      in if pb_health p1 \<le> 0 then p1\<lparr>pb_team := NEUTRAL, pb_health := 0, pb_active := False\<rparr> else p1)"

definition pillbox_capture :: "pillbox \<Rightarrow> team \<Rightarrow> pillbox" where
  "pillbox_capture p tm =
     p\<lparr>pb_team := tm, pb_health := PILLBOX_MAX_HEALTH div 2, pb_active := True, pb_aggression := 0\<rparr>"

section \<open>Target search\<close>

fun tanks_of :: "entity list \<Rightarrow> tank list" where
  "tanks_of [] = []"
| "tanks_of (Tank t # es) = t # tanks_of es"
| "tanks_of (_ # es) = tanks_of es"

lemma set_tanks_of [simp]: "set (tanks_of es) = {t. Tank t \<in> set es}"
  by (induction es rule: tanks_of.induct) auto

text \<open>The tanks the turret may engage: enemies strictly within range, in list order.\<close>

definition pb_targets :: "pillbox \<Rightarrow> entity list \<Rightarrow> tank list" where
  "pb_targets p es = filter (\<lambda>t. tk_team t \<noteq> pb_team p \<and> pb_dist p t < pb_range p) (tanks_of es)"

lemma find_target_loop_argmin:
  "find_target_loop p es best = argmin_loop (pb_dist p) (pb_targets p es) best"
  by (induction p es best rule: find_target_loop.induct) (auto simp: pb_targets_def pb_dist_def Let_def)

theorem find_target_first_min: "find_target p es = first_min (pb_dist p) (pb_targets p es)"
  by (simp add: find_target_def find_target_loop_argmin argmin_loop_first_min option.map_comp comp_def option.map_ident)

text \<open>C3: The target chosen by Pillbox._find_target is an enemy tank of the entity list strictly within range, and no enemy tank of the list is nearer.\<close>

theorem find_target_nearest:
  assumes "find_target p es = Some t"
  shows "Tank t \<in> set es \<and> tk_team t \<noteq> pb_team p \<and> pb_dist p t < pb_range p
         \<and> (\<forall>t'. Tank t' \<in> set es \<and> tk_team t' \<noteq> pb_team p \<longrightarrow> pb_dist p t \<le> pb_dist p t')"
proof -
  from assms have fm: "first_min (pb_dist p) (pb_targets p es) = Some t"
    by (simp add: find_target_first_min)
  then have t: "t \<in> set (pb_targets p es)" and least: "\<forall>x \<in> set (pb_targets p es). pb_dist p t \<le> pb_dist p x"
    by (simp_all add: first_min_Some_least)
  from t have in_range: "pb_dist p t < pb_range p" by (simp add: pb_targets_def)
  have "pb_dist p t \<le> pb_dist p t'" if "Tank t' \<in> set es" "tk_team t' \<noteq> pb_team p" for t'
  proof (cases "pb_dist p t' < pb_range p")
    case True
    with that least show ?thesis by (simp add: pb_targets_def)
  next
    case False
    with in_range show ?thesis by simp
  qed
  with t in_range show ?thesis by (simp add: pb_targets_def)
qed

theorem find_target_nearest_witness:
  "find_target (new_pillbox 0 0 0 NEUTRAL) [Tank (new_tank 1 100 0 TEAM_1), Tank (new_tank 2 50 0 TEAM_2)]
     = Some (new_tank 2 50 0 TEAM_2)
   \<and> pb_dist (new_pillbox 0 0 0 NEUTRAL) (new_tank 2 50 0 TEAM_2)
       \<le> pb_dist (new_pillbox 0 0 0 NEUTRAL) (new_tank 1 100 0 TEAM_1)"
proof -
  have h: "find_target (new_pillbox 0 0 0 NEUTRAL) [Tank (new_tank 1 100 0 TEAM_1), Tank (new_tank 2 50 0 TEAM_2)]
     = Some (new_tank 2 50 0 TEAM_2)"
    by (simp add: find_target_def new_pillbox_def new_tank_def euclid_def)
  show ?thesis using h find_target_nearest [OF h] by (simp add: new_tank_def new_pillbox_def)
qed

theorem find_target_None:
  "find_target p es = None \<longleftrightarrow>
     (\<forall>t. Tank t \<in> set es \<and> tk_team t \<noteq> pb_team p \<longrightarrow> pb_range p \<le> pb_dist p t)"
  by (auto simp: find_target_first_min pb_targets_def filter_empty_conv not_less)

theorem find_target_first_on_ties:
  assumes "find_target p es = Some t"
  shows "\<exists>i < length (pb_targets p es). pb_targets p es ! i = t
           \<and> (\<forall>j < i. pb_dist p t < pb_dist p (pb_targets p es ! j))"
  using assms first_min_Some_first by (simp add: find_target_first_min)

section \<open>Frame update, damage and capture\<close>

lemma fire_at_fields [simp]:
  "pb_health (fst (fire_at p t nid)) = pb_health p"
  "pb_team (fst (fire_at p t nid)) = pb_team p"
  "pb_active (fst (fire_at p t nid)) = pb_active p"
  "pb_aggression (fst (fire_at p t nid)) = pb_aggression p"
  "pb_fire_rate (fst (fire_at p t nid)) = pb_fire_rate p"
  "pb_fire_cooldown (fst (fire_at p t nid)) = max 5 (pb_fire_rate p - pb_aggression p * 3)"
  "eid (fst (fire_at p t nid)) = eid p"
  by (simp_all add: fire_at_def Let_def)

lemma pillbox_update_inactive: "\<not> pb_active p \<Longrightarrow> pillbox_update p es g nid = (p, None, g, nid)"
  by (simp add: pillbox_update_def)

lemma pillbox_tick_fields [simp]:
  "eid (fst (pillbox_tick p g)) = eid p"
  "ent_x (fst (pillbox_tick p g)) = ent_x p" "ent_y (fst (pillbox_tick p g)) = ent_y p"
  "alive (fst (pillbox_tick p g)) = alive p"
  "pb_team (fst (pillbox_tick p g)) = pb_team p"
  "pb_health (fst (pillbox_tick p g)) = pb_health p"
  "pb_active (fst (pillbox_tick p g)) = pb_active p"
  "pb_fire_rate (fst (pillbox_tick p g)) = pb_fire_rate p"
  "pb_range (fst (pillbox_tick p g)) = pb_range p"
  "pb_size (fst (pillbox_tick p g)) = pb_size p"
  by (simp_all add: pillbox_tick_def Let_def split: prod.split)

lemma pillbox_tick_counters:
  "(pb_aggression (fst (pillbox_tick p g)) = pb_aggression p
      \<or> pb_aggression (fst (pillbox_tick p g)) = max 0 (pb_aggression p - 1))
   \<and> (pb_fire_cooldown (fst (pillbox_tick p g)) = pb_fire_cooldown p
      \<or> 0 < pb_fire_cooldown p \<and> pb_fire_cooldown (fst (pillbox_tick p g)) = pb_fire_cooldown p - 1)"
  by (auto simp: pillbox_tick_def Let_def split: prod.split)

lemma pillbox_engage_fields [simp]:
  "eid (fst (pillbox_engage p es nid)) = eid p"
  "ent_x (fst (pillbox_engage p es nid)) = ent_x p" "ent_y (fst (pillbox_engage p es nid)) = ent_y p"
  "alive (fst (pillbox_engage p es nid)) = alive p"
  "pb_team (fst (pillbox_engage p es nid)) = pb_team p"
  "pb_health (fst (pillbox_engage p es nid)) = pb_health p"
  "pb_active (fst (pillbox_engage p es nid)) = pb_active p"
  "pb_fire_rate (fst (pillbox_engage p es nid)) = pb_fire_rate p"
  "pb_aggression (fst (pillbox_engage p es nid)) = pb_aggression p"
  "pb_range (fst (pillbox_engage p es nid)) = pb_range p"
  "pb_size (fst (pillbox_engage p es nid)) = pb_size p"
  by (simp_all add: pillbox_engage_def fire_at_def Let_def split: option.split)

lemma pillbox_engage_cooldown:
  "pb_fire_cooldown (fst (pillbox_engage p es nid)) = pb_fire_cooldown p
   \<or> pb_fire_cooldown (fst (pillbox_engage p es nid)) = max 5 (pb_fire_rate p - pb_aggression p * 3)"
  by (auto simp: pillbox_engage_def fire_at_def Let_def split: option.split)

lemma pillbox_update_unfold:
  "fst (pillbox_update p es g nid) =
     (if pb_active p then fst (pillbox_engage (fst (pillbox_tick p g)) es nid) else p)"
  by (simp add: pillbox_update_def split: prod.split)

lemma pillbox_update_fields [simp]:
  "eid (fst (pillbox_update p es g nid)) = eid p"
  "ent_x (fst (pillbox_update p es g nid)) = ent_x p" "ent_y (fst (pillbox_update p es g nid)) = ent_y p"
  "alive (fst (pillbox_update p es g nid)) = alive p"
  "pb_team (fst (pillbox_update p es g nid)) = pb_team p"
  "pb_health (fst (pillbox_update p es g nid)) = pb_health p"
  "pb_active (fst (pillbox_update p es g nid)) = pb_active p"
  "pb_fire_rate (fst (pillbox_update p es g nid)) = pb_fire_rate p"
  "pb_range (fst (pillbox_update p es g nid)) = pb_range p"
  "pb_size (fst (pillbox_update p es g nid)) = pb_size p"
  by (simp_all add: pillbox_update_unfold)

lemma pillbox_take_damage_fields [simp]:
  "pb_fire_rate (pillbox_take_damage p n) = pb_fire_rate p"
  "pb_fire_cooldown (pillbox_take_damage p n) = pb_fire_cooldown p"
  "eid (pillbox_take_damage p n) = eid p"
  "pb_aggression (pillbox_take_damage p n) = min 8 (pb_aggression p + 1)"
  by (simp_all add: pillbox_take_damage_def Let_def)

theorem pillbox_destroyed:
  "pb_health p - n \<le> 0 \<Longrightarrow>
   pb_health (pillbox_take_damage p n) = 0 \<and> \<not> pb_active (pillbox_take_damage p n)
   \<and> pb_team (pillbox_take_damage p n) = NEUTRAL"
  by (simp add: pillbox_take_damage_def Let_def)

lemma pillbox_update_spawn:
  "(fst (snd (pillbox_update p es g nid)) = None \<and> snd (snd (snd (pillbox_update p es g nid))) = nid)
   \<or> (\<exists>sh. fst (snd (pillbox_update p es g nid)) = Some sh \<and> eid sh = nid \<and> alive sh
        \<and> sh_damage sh = SHELL_DAMAGE \<and> snd (snd (snd (pillbox_update p es g nid))) = Suc nid)"
  by (auto simp: pillbox_update_def pillbox_engage_def fire_at_def new_shell_def Let_def
      split: prod.split option.split)

section \<open>Invariant\<close>
text \<open>
  Health and aggression stay in range, the cooldown never exceeds the base fire rate,
  and a turret is active exactly while it has health; a turret without health is
  neutral.
\<close>

definition pb_ok :: "pillbox \<Rightarrow> bool" where
  "pb_ok p \<longleftrightarrow> 0 \<le> pb_health p \<and> pb_health p \<le> PILLBOX_MAX_HEALTH
     \<and> 0 \<le> pb_aggression p \<and> pb_aggression p \<le> 8
     \<and> pb_fire_rate p = PILLBOX_FIRE_RATE
     \<and> 0 \<le> pb_fire_cooldown p \<and> pb_fire_cooldown p \<le> PILLBOX_FIRE_RATE
     \<and> (pb_active p \<longleftrightarrow> 0 < pb_health p)
     \<and> (pb_health p = 0 \<longrightarrow> pb_team p = NEUTRAL)"

lemma new_pillbox_ok: "pb_ok (new_pillbox nid x y tm)"
  by (simp add: pb_ok_def new_pillbox_def)

lemma pillbox_tick_ok: "pb_ok p \<Longrightarrow> pb_ok (fst (pillbox_tick p g))"
  using pillbox_tick_counters [of p g] by (auto simp: pb_ok_def)

lemma pillbox_engage_ok: "pb_ok p \<Longrightarrow> pb_ok (fst (pillbox_engage p es nid))"
  using pillbox_engage_cooldown [of p es nid] by (auto simp: pb_ok_def)

lemma pillbox_update_ok: "pb_ok p \<Longrightarrow> pb_ok (fst (pillbox_update p es g nid))"
  by (simp add: pillbox_update_unfold pillbox_tick_ok pillbox_engage_ok)

lemma pillbox_take_damage_ok: "pb_ok p \<Longrightarrow> 0 \<le> n \<Longrightarrow> pb_ok (pillbox_take_damage p n)"
  by (auto simp: pb_ok_def pillbox_take_damage_def Let_def)

lemma pillbox_capture_ok: "pb_ok p \<Longrightarrow> pb_ok (pillbox_capture p tm)"
  by (simp add: pb_ok_def pillbox_capture_def)

section \<open>Life cycle\<close>

text \<open>
  The phases the specification names: inactive (destroyed or picked up), active and ready,
  active and cooling down. A step is any operation the engine or a caller can apply.
\<close>

datatype pb_phase = INACTIVE | ACTIVE_IDLE | ACTIVE_COOLDOWN

definition pb_phase_of :: "pillbox \<Rightarrow> pb_phase" where
  "pb_phase_of p = (if \<not> pb_active p then INACTIVE
                    else if 0 < pb_fire_cooldown p then ACTIVE_COOLDOWN else ACTIVE_IDLE)"

inductive pb_step :: "pillbox \<Rightarrow> pillbox \<Rightarrow> bool" where
  update: "pb_step p (fst (pillbox_update p es g nid))"
| damage: "0 \<le> n \<Longrightarrow> pb_step p (pillbox_take_damage p n)"
| capture: "pb_step p (pillbox_capture p tm)"

inductive pb_reachable :: "pillbox \<Rightarrow> bool" where
  init: "pb_reachable (new_pillbox nid x y tm)"
| step: "pb_reachable p \<Longrightarrow> pb_step p p' \<Longrightarrow> pb_reachable p'"

inductive_cases pb_step_cases: "pb_step p p'"

lemma pb_step_ok: "pb_step p p' \<Longrightarrow> pb_ok p \<Longrightarrow> pb_ok p'"
  by (induction rule: pb_step.induct)
     (simp_all add: pillbox_update_ok pillbox_take_damage_ok pillbox_capture_ok)

text \<open>C7: Every pillbox reachable from construction by updates, damage and capture has health in [0,16], aggression in [0,8], a cooldown in [0,30], is active exactly when its health is positive, and is neutral at health 0.\<close>

theorem pb_reachable_ok: "pb_reachable p \<Longrightarrow> pb_ok p"
proof (induction rule: pb_reachable.induct)
  case (init nid x y tm)
  show ?case by (rule new_pillbox_ok)
next
  case (step p p')
  then show ?case by (blast intro: pb_step_ok)
qed

theorem pb_reachable_ok_witness:
  "pb_reachable (pillbox_take_damage (new_pillbox 0 50 50 NEUTRAL) 16)
   \<and> pb_ok (pillbox_take_damage (new_pillbox 0 50 50 NEUTRAL) 16)"
proof -
  have h: "pb_reachable (pillbox_take_damage (new_pillbox 0 50 50 NEUTRAL) 16)"
    by (rule pb_reachable.step [OF pb_reachable.init pb_step.damage]) simp
  show ?thesis using h pb_reachable_ok [OF h] by simp
qed

theorem pb_inactive_absorbing:
  assumes "pb_step p p'" "pb_phase_of p = INACTIVE" "pb_phase_of p' \<noteq> INACTIVE"
  shows "\<exists>tm. p' = pillbox_capture p tm"
  using assms
  by (cases rule: pb_step_cases)
     (auto simp: pb_phase_of_def pillbox_update_inactive pillbox_take_damage_def Let_def
        split: if_splits)

end
