(* ===== verification/Base_Ops.thy ===== *)
theory Base_Ops
  imports Pillbox_Ops
begin

text \<open>
  Class \<open>Base\<close> of \<open>src/src/bolo_engine.py\<close> (lines 594--667): stock regeneration on
  a countdown, the prioritised transfer of armor, shells and mines to a tank of the
  base's team, damage and capture. The lemmas show that a transfer conserves each
  resource between base and tank, keeps the tank within its maxima and the base stock
  non-negative, that a base of another team gives nothing, and that the countdown
  refills the stock exactly when it runs out.
\<close>

section \<open>Operations\<close>

definition base_update :: "base \<Rightarrow> base" where
  "base_update b =
     (let b1 = b\<lparr>bs_regen_timer := bs_regen_timer b - 1\<rparr>
      in if bs_regen_timer b1 \<le> 0
         then b1\<lparr>bs_regen_timer := BASE_RESUPPLY_RATE,
                 bs_shells := min 40 (bs_shells b1 + 1),
                 bs_mines := min 20 (bs_mines b1 + 1),
                 bs_armor := min 16 (bs_armor b1 + 1)\<rparr>
         else b1)"

text \<open>
  \<open>Base.resupply_tank\<close>: the base, the tank after the transfer, and whether anything
  was transferred. Each block is guarded by the tank being below its maximum and the
  base having stock, and moves at most 1 armor, 5 shells and 2 mines.
\<close>

definition resupply_tank :: "base \<Rightarrow> tank \<Rightarrow> base \<times> tank \<times> bool" where
  "resupply_tank b t =
     (if tk_team t \<noteq> bs_team b then (b, t, False)
      else
       (let (b, t, r) =
          (if armor (tk_res t) < TANK_MAX_ARMOR \<and> bs_armor b > 0
           then (let tr = min 1 (min (bs_armor b) (TANK_MAX_ARMOR - armor (tk_res t)))
                 in (b\<lparr>bs_armor := bs_armor b - tr\<rparr>,
                     t\<lparr>tk_res := (tk_res t)\<lparr>armor := armor (tk_res t) + tr\<rparr>\<rparr>, True))
           else (b, t, False));
            (b, t, r) =
          (if shells (tk_res t) < TANK_MAX_SHELLS \<and> bs_shells b > 0
           then (let tr = min 5 (min (bs_shells b) (TANK_MAX_SHELLS - shells (tk_res t)))
                 in (b\<lparr>bs_shells := bs_shells b - tr\<rparr>,
                     t\<lparr>tk_res := (tk_res t)\<lparr>shells := shells (tk_res t) + tr\<rparr>\<rparr>, True))
           else (b, t, r));
            (b, t, r) =
          (if mines (tk_res t) < TANK_MAX_MINES \<and> bs_mines b > 0
           then (let tr = min 2 (min (bs_mines b) (TANK_MAX_MINES - mines (tk_res t)))
                 in (b\<lparr>bs_mines := bs_mines b - tr\<rparr>,
                     t\<lparr>tk_res := (tk_res t)\<lparr>mines := mines (tk_res t) + tr\<rparr>\<rparr>, True))
           else (b, t, r))
        in (b, t, r)))"

definition base_take_damage :: "base \<Rightarrow> int \<Rightarrow> base" where
  "base_take_damage b amount =
     (let b1 = b\<lparr>bs_health := bs_health b - amount\<rparr>
      in if bs_health b1 \<le> 0 then b1\<lparr>bs_team := NEUTRAL, bs_health := 1\<rparr> else b1)"

definition base_capture :: "base \<Rightarrow> team \<Rightarrow> base" where
  "base_capture b tm = b\<lparr>bs_team := tm, bs_health := 8\<rparr>"

section \<open>Resupply\<close>

lemma resupply_tank_other_team:
  "tk_team t \<noteq> bs_team b \<Longrightarrow> resupply_tank b t = (b, t, False)"
  by (simp add: resupply_tank_def)

text \<open>C5: Base.resupply_tank moves armor, shells and mines between base and tank without creating or losing any: each sum of tank stock and base stock is unchanged.\<close>

theorem resupply_tank_conserves:
  assumes "resupply_tank b t = (b', t', r)"
  shows "armor (tk_res t') + bs_armor b' = armor (tk_res t) + bs_armor b
       \<and> shells (tk_res t') + bs_shells b' = shells (tk_res t) + bs_shells b
       \<and> mines (tk_res t') + bs_mines b' = mines (tk_res t) + bs_mines b"
  using assms by (auto simp: resupply_tank_def Let_def split: if_splits)

theorem resupply_tank_conserves_witness:
  "resupply_tank (new_base 0 200 200 TEAM_1)
     ((new_tank 1 200 200 TEAM_1)\<lparr>tk_res := default_resources\<lparr>armor := 5\<rparr>\<rparr>)
   = ((new_base 0 200 200 TEAM_1)\<lparr>bs_armor := 7\<rparr>,
      (new_tank 1 200 200 TEAM_1)\<lparr>tk_res := default_resources\<lparr>armor := 6\<rparr>\<rparr>, True)
   \<and> 6 + bs_armor ((new_base 0 200 200 TEAM_1)\<lparr>bs_armor := 7\<rparr>) = 5 + bs_armor (new_base 0 200 200 TEAM_1)"
proof -
  have h: "resupply_tank (new_base 0 200 200 TEAM_1)
     ((new_tank 1 200 200 TEAM_1)\<lparr>tk_res := default_resources\<lparr>armor := 5\<rparr>\<rparr>)
   = ((new_base 0 200 200 TEAM_1)\<lparr>bs_armor := 7\<rparr>,
      (new_tank 1 200 200 TEAM_1)\<lparr>tk_res := default_resources\<lparr>armor := 6\<rparr>\<rparr>, True)"
    by (simp add: resupply_tank_def new_base_def new_tank_def default_resources_def)
  show ?thesis using h resupply_tank_conserves [OF h] by (simp add: default_resources_def)
qed

lemma resupply_tank_frame:
  assumes "resupply_tank b t = (b', t', r)"
  shows "t' = t\<lparr>tk_res := tk_res t'\<rparr> \<and> wood (tk_res t') = wood (tk_res t)
       \<and> b' = b\<lparr>bs_shells := bs_shells b', bs_mines := bs_mines b', bs_armor := bs_armor b'\<rparr>"
  using assms by (auto simp: resupply_tank_def Let_def split: if_splits)

lemma resupply_tank_fields [simp]:
  "eid (fst (resupply_tank b t)) = eid b" "alive (fst (resupply_tank b t)) = alive b"
  "bs_team (fst (resupply_tank b t)) = bs_team b" "bs_size (fst (resupply_tank b t)) = bs_size b"
  "ent_x (fst (resupply_tank b t)) = ent_x b" "ent_y (fst (resupply_tank b t)) = ent_y b"
  "eid (fst (snd (resupply_tank b t))) = eid t" "alive (fst (snd (resupply_tank b t))) = alive t"
  "tk_team (fst (snd (resupply_tank b t))) = tk_team t"
  "tk_size (fst (snd (resupply_tank b t))) = tk_size t"
  "ent_x (fst (snd (resupply_tank b t))) = ent_x t" "ent_y (fst (snd (resupply_tank b t))) = ent_y t"
  by (simp_all add: resupply_tank_def Let_def split: prod.split)

text \<open>The base's stock: non-negative and below the regeneration caps, timer running.\<close>
definition base_ok :: "base \<Rightarrow> bool" where
  "base_ok b \<longleftrightarrow> 0 \<le> bs_shells b \<and> bs_shells b \<le> 40 \<and> 0 \<le> bs_mines b \<and> bs_mines b \<le> 20
     \<and> 0 \<le> bs_armor b \<and> bs_armor b \<le> 16
     \<and> 1 \<le> bs_regen_timer b \<and> bs_regen_timer b \<le> BASE_RESUPPLY_RATE"

lemma new_base_ok: "base_ok (new_base nid x y tm)"
  by (simp add: base_ok_def new_base_def)

text \<open>C6: Base.resupply_tank keeps a tank's resources within their maxima and the base stock within its bounds.\<close>

theorem resupply_tank_bounds:
  assumes "resupply_tank b t = (b', t', r)" "res_ok (tk_res t)" "base_ok b"
  shows "res_ok (tk_res t') \<and> base_ok b'"
  using assms by (auto simp: resupply_tank_def res_ok_def base_ok_def Let_def split: if_splits)

theorem resupply_tank_bounds_witness:
  "res_ok (tk_res ((new_tank 1 200 200 TEAM_1)\<lparr>tk_res := default_resources\<lparr>armor := 5\<rparr>\<rparr>))
   \<and> base_ok (new_base 0 200 200 TEAM_1)
   \<and> res_ok (tk_res ((new_tank 1 200 200 TEAM_1)\<lparr>tk_res := default_resources\<lparr>armor := 6\<rparr>\<rparr>))
   \<and> base_ok ((new_base 0 200 200 TEAM_1)\<lparr>bs_armor := 7\<rparr>)"
proof -
  have h: "resupply_tank (new_base 0 200 200 TEAM_1)
     ((new_tank 1 200 200 TEAM_1)\<lparr>tk_res := default_resources\<lparr>armor := 5\<rparr>\<rparr>)
   = ((new_base 0 200 200 TEAM_1)\<lparr>bs_armor := 7\<rparr>,
      (new_tank 1 200 200 TEAM_1)\<lparr>tk_res := default_resources\<lparr>armor := 6\<rparr>\<rparr>, True)"
    by (simp add: resupply_tank_def new_base_def new_tank_def default_resources_def)
  have r: "res_ok (tk_res ((new_tank 1 200 200 TEAM_1)\<lparr>tk_res := default_resources\<lparr>armor := 5\<rparr>\<rparr>))"
    by (simp add: res_ok_def default_resources_def)
  have b: "base_ok (new_base 0 200 200 TEAM_1)" by (simp add: base_ok_def new_base_def)
  show ?thesis using r b resupply_tank_bounds [OF h r b] by simp
qed

theorem resupply_tank_amounts:
  assumes "resupply_tank b t = (b', t', r)" "tk_team t = bs_team b"
  shows "armor (tk_res t') = (if armor (tk_res t) < TANK_MAX_ARMOR \<and> 0 < bs_armor b
                              then armor (tk_res t) + min 1 (min (bs_armor b) (TANK_MAX_ARMOR - armor (tk_res t)))
                              else armor (tk_res t))
       \<and> shells (tk_res t') = (if shells (tk_res t) < TANK_MAX_SHELLS \<and> 0 < bs_shells b
                              then shells (tk_res t) + min 5 (min (bs_shells b) (TANK_MAX_SHELLS - shells (tk_res t)))
                              else shells (tk_res t))
       \<and> mines (tk_res t') = (if mines (tk_res t) < TANK_MAX_MINES \<and> 0 < bs_mines b
                              then mines (tk_res t) + min 2 (min (bs_mines b) (TANK_MAX_MINES - mines (tk_res t)))
                              else mines (tk_res t))
       \<and> (r \<longleftrightarrow> (armor (tk_res t) < TANK_MAX_ARMOR \<and> 0 < bs_armor b)
                \<or> (shells (tk_res t) < TANK_MAX_SHELLS \<and> 0 < bs_shells b)
                \<or> (mines (tk_res t) < TANK_MAX_MINES \<and> 0 < bs_mines b))"
  using assms by (auto simp: resupply_tank_def Let_def split: if_splits)

section \<open>Regeneration\<close>

lemma base_update_ok: "base_ok b \<Longrightarrow> base_ok (base_update b)"
  by (auto simp: base_ok_def base_update_def Let_def)

lemma base_update_fields [simp]:
  "eid (base_update b) = eid b" "ent_x (base_update b) = ent_x b" "ent_y (base_update b) = ent_y b"
  "alive (base_update b) = alive b" "bs_team (base_update b) = bs_team b"
  "bs_size (base_update b) = bs_size b" "bs_health (base_update b) = bs_health b"
  by (simp_all add: base_update_def Let_def)

theorem base_regenerates_on_expiry:
  "bs_regen_timer b = int (Suc k) \<Longrightarrow>
   (base_update ^^ Suc k) b =
     b\<lparr>bs_regen_timer := BASE_RESUPPLY_RATE, bs_shells := min 40 (bs_shells b + 1),
       bs_mines := min 20 (bs_mines b + 1), bs_armor := min 16 (bs_armor b + 1)\<rparr>"
proof (induction k arbitrary: b)
  case 0
  then show ?case by (simp add: base_update_def)
next
  case (Suc k)
  let ?b1 = "base_update b"
  from Suc.prems have b1: "?b1 = b\<lparr>bs_regen_timer := int (Suc k)\<rparr>"
    by (simp add: base_update_def)
  then have "bs_regen_timer ?b1 = int (Suc k)" by simp
  then have "(base_update ^^ Suc k) ?b1 =
      ?b1\<lparr>bs_regen_timer := BASE_RESUPPLY_RATE, bs_shells := min 40 (bs_shells ?b1 + 1),
        bs_mines := min 20 (bs_mines ?b1 + 1), bs_armor := min 16 (bs_armor ?b1 + 1)\<rparr>"
    by (rule Suc.IH)
  with b1 show ?case by (simp add: funpow_Suc_right del: funpow.simps)
qed

lemma base_no_regen_before_expiry:
  "int n < bs_regen_timer b \<Longrightarrow>
   (base_update ^^ n) b = b\<lparr>bs_regen_timer := bs_regen_timer b - int n\<rparr>"
proof (induction n arbitrary: b)
  case 0
  then show ?case by simp
next
  case (Suc n)
  let ?b1 = "base_update b"
  from Suc.prems have b1: "?b1 = b\<lparr>bs_regen_timer := bs_regen_timer b - 1\<rparr>"
    by (simp add: base_update_def)
  from Suc.prems b1 have "int n < bs_regen_timer ?b1" by simp
  then have "(base_update ^^ n) ?b1 = ?b1\<lparr>bs_regen_timer := bs_regen_timer ?b1 - int n\<rparr>"
    by (rule Suc.IH)
  with b1 show ?case by (simp add: funpow_Suc_right del: funpow.simps)
qed

end
