(* ===== verification/Game_State.thy ===== *)
theory Game_State
  imports Base_Ops
begin

text \<open>
  Class \<open>GameState\<close> of \<open>src/src/bolo_engine.py\<close> (lines 837--973): the map, the live
  entity list, the pending list of entities spawned during a frame, the player, the
  camera and the flags, and \<open>update\<close>, the frame pipeline: merge the pending list,
  update every entity in list order, resolve collisions in four passes, purge dead
  entities, move the camera. Two pieces of process state the Python keeps outside the
  object are fields here: \<open>next_id\<close> is the class variable \<open>Entity._next_id\<close> and
  \<open>rand\<close> the state of the \<open>random\<close> module. \<open>player\<close> is the id of the player's
  tank; the Python holds the tank object itself, which is the entry of the entity list
  with that id for as long as it is alive, and a purged tank is dead.
\<close>

record game_state =
  game_map :: game_map
  entities :: "entity list"
  pending_entities :: "entity list"
  player :: "nat option"
  camera_x :: real
  camera_y :: real
  paused :: bool
  game_over :: bool
  score :: int
  next_id :: nat
  rand :: rng

definition new_game_state :: "nat \<Rightarrow> rng \<Rightarrow> game_state" where
  "new_game_state nid g =
     \<lparr>game_map = new_game_map MAP_WIDTH MAP_HEIGHT, entities = [], pending_entities = [],
      player = None, camera_x = 0, camera_y = 0, paused = False, game_over = False, score = 0,
      next_id = nid, rand = g\<rparr>"

definition add_entity :: "entity \<Rightarrow> game_state \<Rightarrow> game_state" where
  "add_entity e s = s\<lparr>pending_entities := pending_entities s @ [e]\<rparr>"

definition remove_dead_entities :: "game_state \<Rightarrow> game_state" where
  "remove_dead_entities s = s\<lparr>entities := filter ent_alive (entities s)\<rparr>"

text \<open>In-place mutation of the entity at index \<open>i\<close> of the list.\<close>

definition set_entity :: "nat \<Rightarrow> entity \<Rightarrow> game_state \<Rightarrow> game_state" where
  "set_entity i e s = s\<lparr>entities := (entities s)[i := e]\<rparr>"

text \<open>
  \<open>GameState.player\<close> holds the player's \<open>Tank\<close> object, which is the entry of the
  entity list with its id while it is alive; the model keeps the id and finds the slot.
\<close>

definition player_index :: "game_state \<Rightarrow> nat option" where
  "player_index s =
     (case player s of
        None \<Rightarrow> None
      | Some pid \<Rightarrow> first_index (\<lambda>j. case entities s ! j of Tank t \<Rightarrow> eid t = pid | _ \<Rightarrow> False)
                      (length (entities s)))"

definition player_tank :: "game_state \<Rightarrow> tank option" where
  "player_tank s =
     (case player_index s of
        None \<Rightarrow> None
      | Some i \<Rightarrow> (case entities s ! i of Tank t \<Rightarrow> Some t | _ \<Rightarrow> None))"

definition player_alive :: "game_state \<Rightarrow> bool" where
  "player_alive s = (case player_tank s of None \<Rightarrow> False | Some t \<Rightarrow> alive t)"

section \<open>Entity updates\<close>

text \<open>\<open>entity.update(self)\<close> for the entity at index \<open>i\<close>, dispatched on its class.\<close>

definition entity_update :: "nat \<Rightarrow> game_state \<Rightarrow> game_state" where
  "entity_update i s =
     (case entities s ! i of
        Tank t \<Rightarrow> set_entity i (Tank (tank_update t)) s
      | Shell sh \<Rightarrow> (case shell_update sh (game_map s) of (sh', m') \<Rightarrow>
                      (set_entity i (Shell sh') s)\<lparr>game_map := m'\<rparr>)
      | Mine mn \<Rightarrow> s
      | Pillbox p \<Rightarrow> (case pillbox_update p (entities s) (rand s) (next_id s) of (p', so, g', nid') \<Rightarrow>
                      (let s' = (set_entity i (Pillbox p') s)\<lparr>rand := g', next_id := nid'\<rparr>
                       in case so of None \<Rightarrow> s' | Some sh \<Rightarrow> add_entity (Shell sh) s'))
      | Base b \<Rightarrow> set_entity i (Base (base_update b)) s)"

definition update_all :: "game_state \<Rightarrow> game_state" where
  "update_all s = fold entity_update [0..<length (entities s)] s"

section \<open>Collision passes\<close>

definition shell_hits_tank :: "shell \<Rightarrow> entity \<Rightarrow> bool" where
  "shell_hits_tank sh e =
     (case e of
        Tank t \<Rightarrow> alive t \<and> eid t \<noteq> sh_owner_id sh \<and> tk_team t \<noteq> sh_team sh
                  \<and> euclid (ent_x sh) (ent_y sh) (ent_x t) (ent_y t) < of_int (tk_size t + sh_radius sh)
      | _ \<Rightarrow> False)"

definition shell_vs_tank :: "nat \<Rightarrow> game_state \<Rightarrow> game_state" where
  "shell_vs_tank i s =
     (case entities s ! i of
        Shell sh \<Rightarrow>
          (if alive sh
           then (case first_index (\<lambda>j. shell_hits_tank sh (entities s ! j)) (length (entities s)) of
                   None \<Rightarrow> s
                 | Some j \<Rightarrow> (case entities s ! j of
                               Tank t \<Rightarrow> set_entity i (Shell (destroy sh))
                                           (set_entity j (Tank (tank_take_damage t (sh_damage sh))) s)
                             | _ \<Rightarrow> s))
           else s)
      | _ \<Rightarrow> s)"

definition shell_hits_pillbox :: "shell \<Rightarrow> entity \<Rightarrow> bool" where
  "shell_hits_pillbox sh e =
     (case e of
        Pillbox p \<Rightarrow> alive p \<and> pb_active p \<and> pb_team p \<noteq> sh_team sh
                  \<and> euclid (ent_x sh) (ent_y sh) (ent_x p) (ent_y p) < of_int (pb_size p + sh_radius sh)
      | _ \<Rightarrow> False)"

definition shell_vs_pillbox :: "nat \<Rightarrow> game_state \<Rightarrow> game_state" where
  "shell_vs_pillbox i s =
     (case entities s ! i of
        Shell sh \<Rightarrow>
          (if alive sh
           then (case first_index (\<lambda>j. shell_hits_pillbox sh (entities s ! j)) (length (entities s)) of
                   None \<Rightarrow> s
                 | Some j \<Rightarrow> (case entities s ! j of
                               Pillbox p \<Rightarrow> set_entity i (Shell (destroy sh))
                                           (set_entity j (Pillbox (pillbox_take_damage p (sh_damage sh))) s)
                             | _ \<Rightarrow> s))
           else s)
      | _ \<Rightarrow> s)"

definition mine_hits_tank :: "mine \<Rightarrow> entity \<Rightarrow> bool" where
  "mine_hits_tank mn e =
     (case e of
        Tank t \<Rightarrow> alive t \<and> tk_team t \<noteq> mn_team mn
                  \<and> euclid (ent_x mn) (ent_y mn) (ent_x t) (ent_y t) < of_int (tk_size t + mn_radius mn)
      | _ \<Rightarrow> False)"

definition tank_vs_mine :: "nat \<Rightarrow> game_state \<Rightarrow> game_state" where
  "tank_vs_mine i s =
     (case entities s ! i of
        Mine mn \<Rightarrow>
          (if alive mn
           then (case first_index (\<lambda>j. mine_hits_tank mn (entities s ! j)) (length (entities s)) of
                   None \<Rightarrow> s
                 | Some j \<Rightarrow> (case entities s ! j of
                               Tank t \<Rightarrow>
                                 (let s1 = set_entity j (Tank (tank_take_damage t (mn_damage mn))) s
                                  in case mine_detonate mn (game_map s1) of (mn', m') \<Rightarrow>
                                       (set_entity i (Mine mn') s1)\<lparr>game_map := m'\<rparr>)
                             | _ \<Rightarrow> s))
           else s)
      | _ \<Rightarrow> s)"

text \<open>Tank against base: no break, every base in contact is visited.\<close>

definition tank_vs_base_at :: "nat \<Rightarrow> nat \<Rightarrow> game_state \<Rightarrow> game_state" where
  "tank_vs_base_at i j s =
     (case (entities s ! i, entities s ! j) of
        (Tank t, Base b) \<Rightarrow>
          (if euclid (ent_x t) (ent_y t) (ent_x b) (ent_y b) < of_int (tk_size t + bs_size b)
           then (if bs_team b = tk_team t
                 then (case resupply_tank b t of (b', t', _) \<Rightarrow>
                         set_entity i (Tank t') (set_entity j (Base b') s))
                 else if bs_team b = NEUTRAL
                 then set_entity j (Base (base_capture b (tk_team t))) s
                 else s)
           else s)
      | _ \<Rightarrow> s)"

definition tank_vs_base :: "nat \<Rightarrow> game_state \<Rightarrow> game_state" where
  "tank_vs_base i s =
     (case entities s ! i of
        Tank t \<Rightarrow> (if alive t then fold (tank_vs_base_at i) [0..<length (entities s)] s else s)
      | _ \<Rightarrow> s)"

definition collision_pass :: "(nat \<Rightarrow> game_state \<Rightarrow> game_state) \<Rightarrow> game_state \<Rightarrow> game_state" where
  "collision_pass f s = fold f [0..<length (entities s)] s"

definition process_collisions :: "game_state \<Rightarrow> game_state" where
  "process_collisions s =
     collision_pass tank_vs_base (collision_pass tank_vs_mine
       (collision_pass shell_vs_pillbox (collision_pass shell_vs_tank s)))"

section \<open>Camera and frame\<close>

definition update_camera :: "game_state \<Rightarrow> game_state" where
  "update_camera s =
     (case player_tank s of
        None \<Rightarrow> s
      | Some p \<Rightarrow>
          (let target_x = ent_x p - of_int (WINDOW_WIDTH div 2);
               target_y = ent_y p - of_int (WINDOW_HEIGHT div 2);
               cx = camera_x s + (target_x - camera_x s) * 0.1;
               cy = camera_y s + (target_y - camera_y s) * 0.1
           in s\<lparr>camera_x := max 0 (min (of_int (pixel_width (game_map s) - WINDOW_WIDTH)) cx),
                camera_y := max 0 (min (of_int (pixel_height (game_map s) - WINDOW_HEIGHT)) cy)\<rparr>))"

definition game_update :: "game_state \<Rightarrow> game_state" where
  "game_update s =
     (if paused s \<or> game_over s then s
      else (let s1 = s\<lparr>entities := entities s @ pending_entities s, pending_entities := []\<rparr>;
                s2 = update_all s1;
                s3 = process_collisions s2;
                s4 = remove_dead_entities s3
            in if player_alive s4 then update_camera s4 else s4))"

section \<open>Frame lemmas\<close>

text \<open>What a pass may not change about a slot of the entity list: its id and its class.\<close>

datatype ekind = KTank | KShell | KMine | KPillbox | KBase

fun ent_kind :: "entity \<Rightarrow> ekind" where
  "ent_kind (Tank _) = KTank"
| "ent_kind (Shell _) = KShell"
| "ent_kind (Mine _) = KMine"
| "ent_kind (Pillbox _) = KPillbox"
| "ent_kind (Base _) = KBase"

definition ent_key :: "entity \<Rightarrow> nat \<times> ekind" where
  "ent_key e = (ent_id e, ent_kind e)"

lemma set_entity_simps [simp]:
  "entities (set_entity i e s) = (entities s)[i := e]"
  "game_map (set_entity i e s) = game_map s"
  "pending_entities (set_entity i e s) = pending_entities s"
  "player (set_entity i e s) = player s"
  "camera_x (set_entity i e s) = camera_x s" "camera_y (set_entity i e s) = camera_y s"
  "paused (set_entity i e s) = paused s" "game_over (set_entity i e s) = game_over s"
  "score (set_entity i e s) = score s"
  "next_id (set_entity i e s) = next_id s" "rand (set_entity i e s) = rand s"
  by (simp_all add: set_entity_def)

lemma keys_update:
  "ent_key e = ent_key (xs ! i) \<Longrightarrow> map ent_key (xs[i := e]) = map ent_key xs"
  by (metis list_update_id map_update)

lemma keys_update2:
  assumes "ent_key e1 = ent_key (xs ! j)" "ent_key e2 = ent_key (xs ! i)"
  shows "map ent_key (xs[j := e1, i := e2]) = map ent_key xs"
proof (cases "i = j")
  case True
  with assms(2) show ?thesis by (simp add: keys_update)
next
  case False
  with assms show ?thesis by (simp add: keys_update)
qed

lemma entity_update_keys: "map ent_key (entities (entity_update i s)) = map ent_key (entities s)"
  by (auto simp: entity_update_def ent_key_def Let_def add_entity_def keys_update case_prod_beta
      split: entity.split option.split)

lemma first_index_hit:
  "first_index P n = Some j \<Longrightarrow> j < n \<and> P j"
  by (simp add: first_index_Some)

lemma shell_vs_tank_keys: "map ent_key (entities (shell_vs_tank i s)) = map ent_key (entities s)"
  by (auto simp: shell_vs_tank_def ent_key_def keys_update2 split: option.split entity.split)

lemma shell_vs_pillbox_keys: "map ent_key (entities (shell_vs_pillbox i s)) = map ent_key (entities s)"
  by (auto simp: shell_vs_pillbox_def ent_key_def keys_update2 split: option.split entity.split)

lemma tank_vs_mine_keys: "map ent_key (entities (tank_vs_mine i s)) = map ent_key (entities s)"
  by (auto simp: tank_vs_mine_def ent_key_def keys_update2 Let_def case_prod_beta
      split: option.split entity.split)

lemma tank_vs_base_at_keys: "map ent_key (entities (tank_vs_base_at i j s)) = map ent_key (entities s)"
  by (auto simp: tank_vs_base_at_def ent_key_def keys_update2 keys_update case_prod_beta
      base_capture_def split: entity.split)

lemma tank_vs_base_keys: "map ent_key (entities (tank_vs_base i s)) = map ent_key (entities s)"
  by (simp add: tank_vs_base_def fold_eq_invariant [where g = "\<lambda>s. map ent_key (entities s)"]
      tank_vs_base_at_keys split: entity.split)

lemma collision_pass_keys:
  "(\<And>i s. map ent_key (entities (f i s)) = map ent_key (entities s)) \<Longrightarrow>
   map ent_key (entities (collision_pass f s)) = map ent_key (entities s)"
  unfolding collision_pass_def by (rule fold_eq_invariant)

lemma update_all_keys: "map ent_key (entities (update_all s)) = map ent_key (entities s)"
  unfolding update_all_def by (rule fold_eq_invariant) (rule entity_update_keys)

lemma process_collisions_keys:
  "map ent_key (entities (process_collisions s)) = map ent_key (entities s)"
  by (simp add: process_collisions_def collision_pass_keys shell_vs_tank_keys shell_vs_pillbox_keys
      tank_vs_mine_keys tank_vs_base_keys)

lemma keys_ids: "map ent_key xs = map ent_key ys \<Longrightarrow> map ent_id xs = map ent_id ys"
proof -
  assume "map ent_key xs = map ent_key ys"
  then have "map fst (map ent_key xs) = map fst (map ent_key ys)" by simp
  then show ?thesis by (simp add: ent_key_def comp_def)
qed

text \<open>Collision passes leave everything but the entity list and the map alone.\<close>

lemma collision_step_frame:
  assumes "f = shell_vs_tank \<or> f = shell_vs_pillbox \<or> f = tank_vs_mine \<or> f = tank_vs_base"
  shows "pending_entities (f i s) = pending_entities s \<and> next_id (f i s) = next_id s
       \<and> rand (f i s) = rand s \<and> player (f i s) = player s \<and> paused (f i s) = paused s
       \<and> game_over (f i s) = game_over s \<and> camera_x (f i s) = camera_x s
       \<and> camera_y (f i s) = camera_y s"
proof -
  have base_at: "pending_entities (tank_vs_base_at i j s) = pending_entities s \<and> next_id (tank_vs_base_at i j s) = next_id s
       \<and> rand (tank_vs_base_at i j s) = rand s \<and> player (tank_vs_base_at i j s) = player s
       \<and> paused (tank_vs_base_at i j s) = paused s \<and> game_over (tank_vs_base_at i j s) = game_over s
       \<and> camera_x (tank_vs_base_at i j s) = camera_x s \<and> camera_y (tank_vs_base_at i j s) = camera_y s"
    for i j s
    by (simp add: tank_vs_base_at_def case_prod_beta split: entity.split)
  from assms show ?thesis
    by (elim disjE) (simp_all add: shell_vs_tank_def shell_vs_pillbox_def tank_vs_mine_def
        tank_vs_base_def Let_def case_prod_beta fold_eq_invariant base_at split: entity.split option.split)
qed

lemma collision_pass_frame:
  assumes "f = shell_vs_tank \<or> f = shell_vs_pillbox \<or> f = tank_vs_mine \<or> f = tank_vs_base"
  shows "pending_entities (collision_pass f s) = pending_entities s
       \<and> next_id (collision_pass f s) = next_id s \<and> rand (collision_pass f s) = rand s
       \<and> player (collision_pass f s) = player s"
  using collision_step_frame [OF assms]
  by (simp add: collision_pass_def fold_eq_invariant)

lemma process_collisions_frame:
  "pending_entities (process_collisions s) = pending_entities s
   \<and> next_id (process_collisions s) = next_id s \<and> rand (process_collisions s) = rand s
   \<and> player (process_collisions s) = player s"
  by (simp add: process_collisions_def collision_pass_frame)

section \<open>Spawning\<close>

text \<open>
  Between two states, the pending list only grew, by entities whose ids are exactly the
  ids handed out by the counter in between.
\<close>

definition spawned :: "game_state \<Rightarrow> game_state \<Rightarrow> bool" where
  "spawned s s' \<longleftrightarrow> next_id s \<le> next_id s'
     \<and> (\<exists>new. pending_entities s' = pending_entities s @ new \<and> map ent_id new = [next_id s..<next_id s'])"

lemma spawned_trans: "spawned s1 s2 \<Longrightarrow> spawned s2 s3 \<Longrightarrow> spawned s1 s3"
  unfolding spawned_def
proof (elim conjE exE, intro conjI exI)
  fix n1 n2
  assume "next_id s1 \<le> next_id s2" "next_id s2 \<le> next_id s3"
    and p1: "pending_entities s2 = pending_entities s1 @ n1" "map ent_id n1 = [next_id s1..<next_id s2]"
    and p2: "pending_entities s3 = pending_entities s2 @ n2" "map ent_id n2 = [next_id s2..<next_id s3]"
  then show "next_id s1 \<le> next_id s3" "pending_entities s3 = pending_entities s1 @ n1 @ n2"
      "map ent_id (n1 @ n2) = [next_id s1..<next_id s3]"
    using upt_add_eq_append [of "next_id s1" "next_id s2" "next_id s3 - next_id s2"]
    by simp_all
qed

lemma entity_update_spawned: "spawned s (entity_update i s)"
proof (cases "entities s ! i")
  case (Pillbox p)
  let ?r = "pillbox_update p (entities s) (rand s) (next_id s)"
  from pillbox_update_spawn [of p "entities s" "rand s" "next_id s"] show ?thesis
  proof
    assume "fst (snd ?r) = None \<and> snd (snd (snd ?r)) = next_id s"
    with Pillbox show ?thesis
      by (simp add: entity_update_def spawned_def case_prod_beta)
  next
    assume "\<exists>sh. fst (snd ?r) = Some sh \<and> eid sh = next_id s \<and> alive sh
             \<and> sh_damage sh = SHELL_DAMAGE \<and> snd (snd (snd ?r)) = Suc (next_id s)"
    with Pillbox show ?thesis
      by (auto simp: entity_update_def spawned_def case_prod_beta add_entity_def)
  qed
qed (auto simp: entity_update_def spawned_def case_prod_beta)

lemma fold_entity_update_spawned: "spawned s (fold entity_update is s)"
proof (induction "is" arbitrary: s)
  case Nil
  show ?case by (simp add: spawned_def)
next
  case (Cons i "is")
  then show ?case using entity_update_spawned spawned_trans by fastforce
qed

lemma update_all_spawned: "spawned s (update_all s)"
  by (simp add: update_all_def fold_entity_update_spawned)

section \<open>The frame\<close>

text \<open>The fields the entity updates and the collision passes never write.\<close>

definition ctrl :: "game_state \<Rightarrow> nat option \<times> bool \<times> bool \<times> real \<times> real \<times> int" where
  "ctrl s = (player s, paused s, game_over s, camera_x s, camera_y s, score s)"

lemma entity_update_ctrl: "ctrl (entity_update i s) = ctrl s"
  by (simp add: entity_update_def ctrl_def Let_def case_prod_beta add_entity_def
      split: entity.split option.split)

lemma collision_ctrl:
  "ctrl (shell_vs_tank i s) = ctrl s" "ctrl (shell_vs_pillbox i s) = ctrl s"
  "ctrl (tank_vs_mine i s) = ctrl s" "ctrl (tank_vs_base i s) = ctrl s"
  using collision_step_frame [of shell_vs_tank i s] collision_step_frame [of shell_vs_pillbox i s]
        collision_step_frame [of tank_vs_mine i s] collision_step_frame [of tank_vs_base i s]
  by (simp_all add: ctrl_def)
     (auto simp: shell_vs_tank_def shell_vs_pillbox_def tank_vs_mine_def tank_vs_base_def
        tank_vs_base_at_def Let_def case_prod_beta fold_eq_invariant
        split: entity.split option.split)

lemma stages_ctrl:
  "ctrl (update_all s) = ctrl s" "ctrl (process_collisions s) = ctrl s"
  by (simp_all add: update_all_def process_collisions_def collision_pass_def fold_eq_invariant
      entity_update_ctrl collision_ctrl)

lemma update_camera_frame [simp]:
  "entities (update_camera s) = entities s" "pending_entities (update_camera s) = pending_entities s"
  "next_id (update_camera s) = next_id s" "rand (update_camera s) = rand s"
  "player (update_camera s) = player s" "paused (update_camera s) = paused s"
  "game_over (update_camera s) = game_over s" "game_map (update_camera s) = game_map s"
  by (simp_all add: update_camera_def Let_def split: option.split)

text \<open>A frame that runs, stage by stage.\<close>

lemma game_update_parts:
  assumes "\<not> paused s" "\<not> game_over s"
  defines "s3 \<equiv> process_collisions (update_all
                  (s\<lparr>entities := entities s @ pending_entities s, pending_entities := []\<rparr>))"
  shows "entities (game_update s) = filter ent_alive (entities s3)
       \<and> pending_entities (game_update s) = pending_entities s3
       \<and> next_id (game_update s) = next_id s3 \<and> game_map (game_update s) = game_map s3
       \<and> player (game_update s) = player s \<and> paused (game_update s) = paused s
       \<and> game_over (game_update s) = game_over s"
proof -
  have "ctrl s3 = ctrl (s\<lparr>entities := entities s @ pending_entities s, pending_entities := []\<rparr>)"
    by (simp only: s3_def stages_ctrl)
  also have "\<dots> = ctrl s" by (simp add: ctrl_def)
  finally have c: "ctrl s3 = ctrl s" .
  then show ?thesis using assms(1,2)
    by (simp add: game_update_def s3_def Let_def remove_dead_entities_def ctrl_def)
qed

section \<open>Entity ids\<close>

text \<open>
  Ids are unique among the live and pending entities and below the counter, so the next
  entity constructed gets an id no entity has: the property the class variable
  \<open>Entity._next_id\<close> exists for.
\<close>

definition ids_ok :: "game_state \<Rightarrow> bool" where
  "ids_ok s \<longleftrightarrow> distinct (map ent_id (entities s @ pending_entities s))
     \<and> list_all (\<lambda>x. x < next_id s) (map ent_id (entities s @ pending_entities s))"

lemma frame_ids:
  assumes "distinct (map ent_id E)" "list_all (\<lambda>x. x < n) (map ent_id E)"
    and "map ent_id N = [n..<n']" "n \<le> n'"
  shows "distinct (map ent_id (filter P E @ N)) \<and> list_all (\<lambda>x. x < n') (map ent_id (filter P E @ N))"
proof -
  have d1: "distinct (map ent_id (filter P E))" using assms(1) by (simp add: distinct_map_filter)
  have sN: "set (map ent_id N) = {n..<n'}" using assms(3) by (metis set_upt)
  have sE: "set (map ent_id (filter P E)) \<subseteq> {..<n}"
    using assms(2) by (auto simp: list_all_iff)
  have "distinct (map ent_id N)" using assms(3) by simp
  with d1 sN sE have "distinct (map ent_id (filter P E) @ map ent_id N)" by auto
  moreover have "list_all (\<lambda>x. x < n') (map ent_id (filter P E) @ map ent_id N)"
    using sN sE assms(4) by (auto simp: list_all_iff)
  ultimately show ?thesis by simp
qed

lemma game_update_ids_ok: "ids_ok s \<Longrightarrow> ids_ok (game_update s)"
proof (cases "paused s \<or> game_over s")
  case True
  moreover assume "ids_ok s"
  ultimately show ?thesis by (simp add: game_update_def)
next
  case False
  assume ok: "ids_ok s"
  let ?s1 = "s\<lparr>entities := entities s @ pending_entities s, pending_entities := []\<rparr>"
  let ?s2 = "update_all ?s1"
  let ?s3 = "process_collisions ?s2"
  from False game_update_parts [of s] have parts:
      "entities (game_update s) = filter ent_alive (entities ?s3)"
      "pending_entities (game_update s) = pending_entities ?s3" "next_id (game_update s) = next_id ?s3"
    by blast+
  have "spawned ?s1 ?s2" by (rule update_all_spawned)
  then obtain new where new: "pending_entities ?s2 = new" "map ent_id new = [next_id s..<next_id ?s2]"
      and le: "next_id s \<le> next_id ?s2"
    unfolding spawned_def by auto
  have "map ent_key (entities ?s3) = map ent_key (entities ?s1)"
    using process_collisions_keys [of ?s2] update_all_keys [of ?s1] by simp
  then have "map ent_id (entities ?s3) = map ent_id (entities ?s1)" by (rule keys_ids)
  then have ids3: "map ent_id (entities ?s3) = map ent_id (entities s @ pending_entities s)" by simp
  have fr3: "pending_entities ?s3 = pending_entities ?s2" "next_id ?s3 = next_id ?s2"
    using process_collisions_frame [of ?s2] by simp_all
  from ok have "distinct (map ent_id (entities ?s3))" "list_all (\<lambda>x. x < next_id s) (map ent_id (entities ?s3))"
    unfolding ids_ok_def ids3 by simp_all
  from frame_ids [OF this new(2) le, of ent_alive]
  show ?thesis unfolding ids_ok_def parts fr3 new(1) .
qed

section \<open>Purge, spawning and camera\<close>

text \<open>C11: After a frame that runs (not paused, not game over) every entity of the live list is alive.\<close>

theorem game_update_purges_dead:
  "\<not> paused s \<Longrightarrow> \<not> game_over s \<Longrightarrow> list_all ent_alive (entities (game_update s))"
  using game_update_parts [of s] by (simp add: list_all_iff)

theorem game_update_purges_dead_witness:
  "\<not> paused (new_game_state 0 \<lparr>draws = \<lambda>_. 0.5, rpos = 0\<rparr>) \<and> \<not> game_over (new_game_state 0 \<lparr>draws = \<lambda>_. 0.5, rpos = 0\<rparr>)
   \<and> list_all ent_alive (entities (game_update (new_game_state 0 \<lparr>draws = \<lambda>_. 0.5, rpos = 0\<rparr>)))"
proof -
  have h: "\<not> paused (new_game_state 0 \<lparr>draws = \<lambda>_. 0.5, rpos = 0\<rparr>)" "\<not> game_over (new_game_state 0 \<lparr>draws = \<lambda>_. 0.5, rpos = 0\<rparr>)"
    by (simp_all add: new_game_state_def)
  from h game_update_purges_dead [OF h] show ?thesis by blast
qed

text \<open>
  Entities spawned during a frame go to the pending list: the live list after the frame
  holds only entities that were live or pending before it, and the pending list holds
  exactly the entities constructed during the frame, in the order of their ids.
\<close>

text \<open>C2: After a frame of GameState.update the live list holds only entities that were live or pending before it, and the pending list holds exactly the entities constructed during the frame, with the consecutive ids the counter handed out.\<close>

theorem game_update_spawns_pending:
  assumes "\<not> paused s" "\<not> game_over s"
  shows "set (map ent_id (entities (game_update s))) \<subseteq> set (map ent_id (entities s @ pending_entities s))
       \<and> map ent_id (pending_entities (game_update s)) = [next_id s..<next_id (game_update s)]"
proof -
  let ?s1 = "s\<lparr>entities := entities s @ pending_entities s, pending_entities := []\<rparr>"
  let ?s2 = "update_all ?s1"
  let ?s3 = "process_collisions ?s2"
  from assms game_update_parts [of s] have parts:
      "entities (game_update s) = filter ent_alive (entities ?s3)"
      "pending_entities (game_update s) = pending_entities ?s3" "next_id (game_update s) = next_id ?s3"
    by blast+
  have "spawned ?s1 ?s2" by (rule update_all_spawned)
  then have new: "map ent_id (pending_entities ?s2) = [next_id s..<next_id ?s2]"
    unfolding spawned_def by auto
  have "map ent_key (entities ?s3) = map ent_key (entities ?s1)"
    using process_collisions_keys [of ?s2] update_all_keys [of ?s1] by simp
  then have "map ent_id (entities ?s3) = map ent_id (entities ?s1)" by (rule keys_ids)
  then have ids3: "map ent_id (entities ?s3) = map ent_id (entities s @ pending_entities s)" by simp
  have fr3: "pending_entities ?s3 = pending_entities ?s2" "next_id ?s3 = next_id ?s2"
    using process_collisions_frame [of ?s2] by simp_all
  have "set (map ent_id (filter ent_alive (entities ?s3))) \<subseteq> set (map ent_id (entities ?s3))" by auto
  with ids3 new show ?thesis unfolding parts fr3 by simp
qed

theorem game_update_spawns_pending_witness:
  "\<not> paused (new_game_state 0 \<lparr>draws = \<lambda>_. 0.5, rpos = 0\<rparr>) \<and> \<not> game_over (new_game_state 0 \<lparr>draws = \<lambda>_. 0.5, rpos = 0\<rparr>)
   \<and> map ent_id (pending_entities (game_update (new_game_state 0 \<lparr>draws = \<lambda>_. 0.5, rpos = 0\<rparr>)))
       = [0..<next_id (game_update (new_game_state 0 \<lparr>draws = \<lambda>_. 0.5, rpos = 0\<rparr>))]"
proof -
  have h: "\<not> paused (new_game_state 0 \<lparr>draws = \<lambda>_. 0.5, rpos = 0\<rparr>)" "\<not> game_over (new_game_state 0 \<lparr>draws = \<lambda>_. 0.5, rpos = 0\<rparr>)"
    by (simp_all add: new_game_state_def)
  from h game_update_spawns_pending [OF h] show ?thesis by (simp add: new_game_state_def)
qed

text \<open>The grid never changes its dimensions during a frame.\<close>

definition map_dims :: "game_state \<Rightarrow> int \<times> int" where
  "map_dims s = (map_width (game_map s), map_height (game_map s))"

lemma entity_update_dims: "map_dims (entity_update i s) = map_dims s"
  by (simp add: entity_update_def map_dims_def Let_def add_entity_def case_prod_beta
      split: entity.split option.split)

lemma collision_dims:
  "map_dims (shell_vs_tank i s) = map_dims s" "map_dims (shell_vs_pillbox i s) = map_dims s"
  "map_dims (tank_vs_mine i s) = map_dims s" "map_dims (tank_vs_base i s) = map_dims s"
  by (simp_all add: shell_vs_tank_def shell_vs_pillbox_def tank_vs_mine_def tank_vs_base_def
      tank_vs_base_at_def map_dims_def Let_def case_prod_beta fold_eq_invariant
      split: entity.split option.split)

lemma stages_dims:
  "map_dims (update_all s) = map_dims s" "map_dims (process_collisions s) = map_dims s"
  by (simp_all add: update_all_def process_collisions_def collision_pass_def fold_eq_invariant
      entity_update_dims collision_dims)

lemma game_update_dims: "map_dims (game_update s) = map_dims s"
proof -
  have "map_dims (process_collisions (update_all s')) = map_dims s'" for s'
    by (simp add: stages_dims)
  then show ?thesis
    by (simp add: game_update_def Let_def remove_dead_entities_def map_dims_def)
qed

text \<open>
  \<open>_update_camera\<close> clamps the camera to \<open>[0, pixel size - window size]\<close>; with the
  configured 64 by 48 map of 16-pixel tiles the map is exactly the 1024 by 768 window,
  so the clamp pins the camera at the origin.
\<close>

theorem update_camera_bounds:
  assumes "player_tank s \<noteq> None"
  shows "0 \<le> camera_x (update_camera s)
       \<and> camera_x (update_camera s) \<le> max 0 (of_int (pixel_width (game_map s) - WINDOW_WIDTH))
       \<and> 0 \<le> camera_y (update_camera s)
       \<and> camera_y (update_camera s) \<le> max 0 (of_int (pixel_height (game_map s) - WINDOW_HEIGHT))"
  using assms by (auto simp: update_camera_def Let_def)

lemma update_camera_pinned:
  assumes "map_dims s = (MAP_WIDTH, MAP_HEIGHT)" "camera_x s = 0" "camera_y s = 0"
  shows "camera_x (update_camera s) = 0 \<and> camera_y (update_camera s) = 0"
  using assms by (simp add: update_camera_def map_dims_def pixel_width_def pixel_height_def Let_def
      split: option.split)

lemma game_update_camera_pinned:
  assumes "map_dims s = (MAP_WIDTH, MAP_HEIGHT)" "camera_x s = 0" "camera_y s = 0"
  shows "camera_x (game_update s) = 0 \<and> camera_y (game_update s) = 0"
proof (cases "paused s \<or> game_over s")
  case True
  with assms show ?thesis by (simp add: game_update_def)
next
  case False
  let ?s1 = "s\<lparr>entities := entities s @ pending_entities s, pending_entities := []\<rparr>"
  let ?s4 = "remove_dead_entities (process_collisions (update_all ?s1))"
  have "ctrl (process_collisions (update_all ?s1)) = ctrl ?s1" by (simp only: stages_ctrl)
  then have cam: "camera_x ?s4 = 0" "camera_y ?s4 = 0"
    using assms by (simp_all add: ctrl_def remove_dead_entities_def)
  have "map_dims (process_collisions (update_all ?s1)) = map_dims ?s1" by (simp only: stages_dims)
  then have dims: "map_dims ?s4 = (MAP_WIDTH, MAP_HEIGHT)"
    using assms(1) by (simp add: map_dims_def remove_dead_entities_def)
  have "game_update s = (if player_alive ?s4 then update_camera ?s4 else ?s4)"
    using False by (simp add: game_update_def Let_def)
  with update_camera_pinned [OF dims cam] cam show ?thesis by simp
qed

end
