(* ===== verification/Bolo_Game.thy ===== *)
theory Bolo_Game
  imports Game_State
begin

text \<open>
  Class \<open>BoloGame\<close> of \<open>src/src/bolo_engine.py\<close> (lines 980--1145), the controller:
  \<open>_setup_game\<close> builds the arena (random map, the player, three enemies, three bases,
  four pillboxes), \<open>_handle_keydown\<close> handles the single key presses (pause, restart,
  fire, mine), and \<open>_update\<close> applies the held movement keys to the player, runs
  \<open>_simple_enemy_ai\<close> for every tank of team 2 and steps the game state. The window, the
  clock, the font and \<open>_render\<close> are display code and are not modelled; \<open>run\<close> and
  \<open>_handle_events\<close> are the interleaving of key presses and frames that
  \<open>bolo_reachable\<close> describes.
\<close>

section \<open>Setup\<close>

text \<open>
  \<open>_setup_game\<close>: the map is generated first (it may raise), then the entities are
  constructed in the order of the code, each taking the next id.
\<close>

definition setup_game :: "game_state \<Rightarrow> py_error + game_state" where
  "setup_game s =
     py_bind (generate_random (game_map s) (rand s)) (\<lambda>(m, g).
       (let n = next_id s;
            pl = new_tank n (of_int (MAP_WIDTH * TILE_SIZE div 4)) (of_int (MAP_HEIGHT * TILE_SIZE div 2)) TEAM_1;
            enemies = map (\<lambda>i. Tank ((new_tank (n + 1 + i) (of_int (MAP_WIDTH * TILE_SIZE * 3 div 4))
                               (of_int (MAP_HEIGHT * TILE_SIZE div 4 + int i * 100)) TEAM_2)\<lparr>tk_angle := 180\<rparr>))
                        [0..<3];
            bases = [Base (new_base (n + 4) 200 200 TEAM_1),
                     Base (new_base (n + 5) (of_int (MAP_WIDTH * TILE_SIZE - 200)) 200 TEAM_2),
                     Base (new_base (n + 6) (of_int (MAP_WIDTH * TILE_SIZE div 2))
                             (of_int (MAP_HEIGHT * TILE_SIZE div 2)) NEUTRAL)];
            pills = map (\<lambda>i. Pillbox (new_pillbox (n + 7 + i) (150 + of_nat i * 200)
                             (of_int (MAP_HEIGHT * TILE_SIZE - 150)) NEUTRAL)) [0..<4]
        in Inr (s\<lparr>game_map := m, rand := g, player := Some n,
                   entities := entities s @ [Tank pl] @ enemies @ bases @ pills, next_id := n + 11\<rparr>)))"

text \<open>\<open>GameState()\<close> followed by \<open>_setup_game()\<close>: a new game, in \<open>__init__\<close> and on restart.\<close>

definition new_game :: "nat \<Rightarrow> rng \<Rightarrow> py_error + game_state" where
  "new_game nid g = setup_game (new_game_state nid g)"

section \<open>Key presses\<close>

text \<open>A constructed shell or mine goes to the pending list; the counter moves on.\<close>

definition spawn :: "entity option \<Rightarrow> game_state \<Rightarrow> game_state" where
  "spawn eo s = (case eo of None \<Rightarrow> s | Some e \<Rightarrow> add_entity e s)"

definition handle_keydown :: "key \<Rightarrow> game_state \<Rightarrow> py_error + game_state" where
  "handle_keydown k s =
     (if k = K_ESCAPE then Inr (s\<lparr>paused := \<not> paused s\<rparr>)
      else if k = K_r then new_game (next_id s) (rand s)
      else (case player_index s of
              None \<Rightarrow> Inr s
            | Some i \<Rightarrow>
                (case entities s ! i of
                   Tank p \<Rightarrow>
                     (if \<not> alive p then Inr s
                      else if k = K_SPACE
                      then (case fire p (next_id s) of (p', so, n') \<Rightarrow>
                              Inr (spawn (map_option Shell so) ((set_entity i (Tank p') s)\<lparr>next_id := n'\<rparr>)))
                      else if k = K_m
                      then (case place_mine p (next_id s) of (p', mo, n') \<Rightarrow>
                              Inr (spawn (map_option Mine mo) ((set_entity i (Tank p') s)\<lparr>next_id := n'\<rparr>)))
                      else Inr s)
                 | _ \<Rightarrow> Inr s)))"

section \<open>Frame\<close>

text \<open>The held keys of \<open>_update\<close>, applied in the order of the code.\<close>

definition held_moves :: "(key \<Rightarrow> bool) \<Rightarrow> game_map \<Rightarrow> tank \<Rightarrow> tank" where
  "held_moves keys m p =
     (let p1 = (if keys K_w \<or> keys K_UP then move_forward p m else p);
          p2 = (if keys K_s \<or> keys K_DOWN then move_backward p1 m else p1);
          p3 = (if keys K_a \<or> keys K_LEFT then rotate_left p2 else p2)
      in if keys K_d \<or> keys K_RIGHT then rotate_right p3 else p3)"

definition player_moves :: "(key \<Rightarrow> bool) \<Rightarrow> game_state \<Rightarrow> game_state" where
  "player_moves keys s =
     (case player_index s of
        None \<Rightarrow> s
      | Some i \<Rightarrow> (case entities s ! i of
                    Tank p \<Rightarrow> if alive p then set_entity i (Tank (held_moves keys (game_map s) p)) s else s
                  | _ \<Rightarrow> s))"

text \<open>
  \<open>_simple_enemy_ai\<close> for the tank at index \<open>i\<close>: turn towards the player, drive on when
  facing it and far, and fire with probability 3/100 when facing it and near. The draw
  of \<open>random.random()\<close> happens only when the tank is within 300 pixels.
\<close>

definition simple_enemy_ai :: "nat \<Rightarrow> game_state \<Rightarrow> game_state" where
  "simple_enemy_ai i s =
     (case (player_tank s, entities s ! i) of
        (Some p, Tank e) \<Rightarrow>
          (if \<not> alive p then s
           else
            (let dx = ent_x p - ent_x e; dy = ent_y p - ent_y e;
                 target_angle = degrees (atan2 dy dx);
                 angle_diff = py_fmod (target_angle - tk_angle e + 180) 360 - 180;
                 e1 = (if \<bar>angle_diff\<bar> > 5
                       then (if angle_diff > 0 then rotate_right e else rotate_left e) else e);
                 dist = sqrt (dx * dx + dy * dy)
             in if \<bar>angle_diff\<bar> < 30
                then (let e2 = (if dist > 150 then move_forward e1 (game_map s) else e1)
                      in if dist < 300
                         then (case random_random (rand s) of (r, g') \<Rightarrow>
                                 if r < 0.03
                                 then (case fire e2 (next_id s) of (e3, so, n') \<Rightarrow>
                                         spawn (map_option Shell so)
                                           ((set_entity i (Tank e3) s)\<lparr>rand := g', next_id := n'\<rparr>))
                                 else (set_entity i (Tank e2) s)\<lparr>rand := g'\<rparr>)
                         else set_entity i (Tank e2) s)
                else set_entity i (Tank e1) s))
      | _ \<Rightarrow> s)"

definition enemy_ai :: "nat \<Rightarrow> game_state \<Rightarrow> game_state" where
  "enemy_ai i s =
     (case entities s ! i of
        Tank e \<Rightarrow> if tk_team e = TEAM_2 then simple_enemy_ai i s else s
      | _ \<Rightarrow> s)"

definition bolo_update :: "(key \<Rightarrow> bool) \<Rightarrow> game_state \<Rightarrow> game_state" where
  "bolo_update keys s =
     (if paused s then s
      else (let s1 = player_moves keys s;
                s2 = fold enemy_ai [0..<length (entities s1)] s1
            in game_update s2))"

section \<open>Runs of the controller\<close>

text \<open>
  The states the program can be in: the game built by \<open>BoloGame.__init__\<close> when the
  id counter is still 0, then any interleaving of key presses and frames.
\<close>

inductive bolo_reachable :: "game_state \<Rightarrow> bool" where
  start: "new_game 0 g = Inr s \<Longrightarrow> bolo_reachable s"
| keydown: "bolo_reachable s \<Longrightarrow> handle_keydown k s = Inr s' \<Longrightarrow> bolo_reachable s'"
| frame: "bolo_reachable s \<Longrightarrow> bolo_reachable (bolo_update keys s)"

section \<open>Entity ids\<close>

lemma ids_ok_set_entity:
  assumes "ids_ok s" "ent_id e = ent_id (entities s ! i)"
  shows "ids_ok (set_entity i e s)"
proof (cases "i < length (entities s)")
  case True
  then have "map ent_id ((entities s)[i := e]) = map ent_id (entities s)"
    using assms(2) by (metis length_map list_update_id map_update nth_map)
  with assms(1) show ?thesis by (simp add: ids_ok_def)
next
  case False
  with assms(1) show ?thesis by (simp add: ids_ok_def list_update_beyond)
qed

lemma ids_ok_spawn:
  assumes "ids_ok s"
    and "(eo = None \<and> n' = next_id s) \<or> (\<exists>e. eo = Some e \<and> ent_id e = next_id s \<and> n' = Suc (next_id s))"
  shows "ids_ok (spawn eo (s\<lparr>next_id := n'\<rparr>))"
  using assms(2)
proof
  assume "eo = None \<and> n' = next_id s"
  with assms(1) show ?thesis by (simp add: ids_ok_def spawn_def)
next
  assume "\<exists>e. eo = Some e \<and> ent_id e = next_id s \<and> n' = Suc (next_id s)"
  then obtain e where e: "eo = Some e" "ent_id e = next_id s" "n' = Suc (next_id s)" by blast
  let ?ids = "map ent_id (entities s @ pending_entities s)"
  have ids: "map ent_id (entities s @ pending_entities s @ [e]) = ?ids @ [next_id s]"
    using e(2) by simp
  from assms(1) have "distinct ?ids" "list_all (\<lambda>x. x < next_id s) ?ids"
    by (simp_all add: ids_ok_def)
  then have "distinct (?ids @ [next_id s])" "list_all (\<lambda>x. x < Suc (next_id s)) (?ids @ [next_id s])"
    by (auto simp: list_all_iff less_SucI)
  with e ids show ?thesis by (simp add: ids_ok_def spawn_def add_entity_def)
qed

lemma held_moves_fields [simp]:
  "eid (held_moves keys m p) = eid p" "alive (held_moves keys m p) = alive p"
  "tk_team (held_moves keys m p) = tk_team p"
  by (simp_all add: held_moves_def Let_def)

lemma setup_game_Inr:
  assumes "setup_game s = Inr s'"
  shows "map ent_id (entities s') = map ent_id (entities s) @ [next_id s..<next_id s + 11]
       \<and> next_id s' = next_id s + 11 \<and> pending_entities s' = pending_entities s
       \<and> player s' = Some (next_id s) \<and> paused s' = paused s \<and> game_over s' = game_over s
       \<and> (\<exists>g. generate_random (game_map s) (rand s) = Inr (game_map s', g))"
  using assms
  by (auto simp: setup_game_def py_bind_def Let_def upt_rec new_tank_def new_base_def new_pillbox_def
      split: sum.splits)

lemma new_game_Inr:
  assumes "new_game nid g = Inr s"
  shows "ids_ok s \<and> next_id s = nid + 11 \<and> player s = Some nid \<and> \<not> paused s \<and> \<not> game_over s"
proof -
  from assms have s: "map ent_id (entities s) = [nid..<nid + 11]" "next_id s = nid + 11"
      "pending_entities s = []" "player s = Some nid" "\<not> paused s" "\<not> game_over s"
    using setup_game_Inr [of "new_game_state nid g" s] by (simp_all add: new_game_def new_game_state_def)
  then show ?thesis by (simp add: ids_ok_def list_all_iff)
qed

lemma new_game_total: "\<exists>s. new_game nid g = Inr s"
proof -
  let ?m = "new_game_map MAP_WIDTH MAP_HEIGHT"
  have "map_wf ?m" by (rule new_game_map_wf)
  moreover have "1 \<le> map_width ?m" "1 \<le> map_height ?m" by (simp_all add: new_game_map_def)
  ultimately obtain m' g' where "generate_random ?m g = Inr (m', g')"
    using generate_random_total by blast
  then show ?thesis by (simp add: new_game_def setup_game_def new_game_state_def)
qed

lemma ids_ok_fire:
  assumes "ids_ok s" "eid t = ent_id (entities s ! i)" "fire t (next_id s) = (t', so, n')"
  shows "ids_ok (spawn (map_option Shell so) ((set_entity i (Tank t') s)\<lparr>next_id := n'\<rparr>))"
proof (rule ids_ok_spawn)
  have "eid t' = eid t" using assms(3) tank_moves_fields(13) [of t "next_id s"] by simp
  with assms(1,2) show "ids_ok (set_entity i (Tank t') s)" by (simp add: ids_ok_set_entity)
  show "(map_option Shell so = None \<and> n' = next_id (set_entity i (Tank t') s))
    \<or> (\<exists>e. map_option Shell so = Some e \<and> ent_id e = next_id (set_entity i (Tank t') s)
         \<and> n' = Suc (next_id (set_entity i (Tank t') s)))"
    using fire_new_id [of t "next_id s"] assms(3) by auto
qed

lemma ids_ok_place_mine:
  assumes "ids_ok s" "eid t = ent_id (entities s ! i)" "place_mine t (next_id s) = (t', mo, n')"
  shows "ids_ok (spawn (map_option Mine mo) ((set_entity i (Tank t') s)\<lparr>next_id := n'\<rparr>))"
proof (rule ids_ok_spawn)
  have "eid t' = eid t" using assms(3) tank_moves_fields(16) [of t "next_id s"] by simp
  with assms(1,2) show "ids_ok (set_entity i (Tank t') s)" by (simp add: ids_ok_set_entity)
  show "(map_option Mine mo = None \<and> n' = next_id (set_entity i (Tank t') s))
    \<or> (\<exists>e. map_option Mine mo = Some e \<and> ent_id e = next_id (set_entity i (Tank t') s)
         \<and> n' = Suc (next_id (set_entity i (Tank t') s)))"
    using place_mine_new_id [of t "next_id s"] assms(3) by auto
qed

lemma handle_keydown_ids_ok:
  assumes "ids_ok s" "handle_keydown k s = Inr s'"
  shows "ids_ok s'"
proof (cases "k = K_ESCAPE \<or> k = K_r")
  case True
  then show ?thesis
  proof
    assume "k = K_ESCAPE"
    with assms(2) have "s' = s\<lparr>paused := \<not> paused s\<rparr>" by (simp add: handle_keydown_def)
    with assms(1) show ?thesis by (simp add: ids_ok_def)
  next
    assume "k = K_r"
    with assms show ?thesis by (simp add: handle_keydown_def new_game_Inr)
  qed
next
  case False
  show ?thesis
  proof (cases "player_index s")
    case None
    with False assms show ?thesis by (simp add: handle_keydown_def)
  next
    case (Some i)
    with False assms show ?thesis
      by (auto simp: handle_keydown_def ids_ok_fire ids_ok_place_mine
          split: entity.splits if_splits prod.splits)
  qed
qed

lemma ids_ok_rand [simp]: "ids_ok (s\<lparr>rand := g\<rparr>) = ids_ok s"
  by (simp add: ids_ok_def)

lemma set_entity_rand: "(set_entity i e s)\<lparr>rand := g\<rparr> = set_entity i e (s\<lparr>rand := g\<rparr>)"
  by (simp add: set_entity_def)

lemma simple_enemy_ai_ids_ok:
  assumes "ids_ok s"
  shows "ids_ok (simple_enemy_ai i s)"
proof (cases "\<exists>p e. player_tank s = Some p \<and> entities s ! i = Tank e \<and> alive p")
  case False
  then show ?thesis using assms
    by (auto simp: simple_enemy_ai_def split: option.split entity.split)
next
  case True
  then obtain p e where pe: "player_tank s = Some p" "entities s ! i = Tank e" "alive p" by blast
  have fire_step: "ids_ok (spawn (map_option Shell so) ((set_entity i (Tank e3) (s\<lparr>rand := g'\<rparr>))\<lparr>next_id := n'\<rparr>))"
    if "fire e2 (next_id s) = (e3, so, n')" "eid e2 = eid e" for e2 e3 so n' g'
    using ids_ok_fire [of "s\<lparr>rand := g'\<rparr>" e2 i e3 so n'] assms pe(2) that by simp
  show ?thesis using assms pe
    by (auto simp: simple_enemy_ai_def Let_def ids_ok_set_entity set_entity_rand fire_step
        split: prod.split)
qed

lemma enemy_ai_ids_ok: "ids_ok s \<Longrightarrow> ids_ok (enemy_ai i s)"
  by (simp add: enemy_ai_def simple_enemy_ai_ids_ok split: entity.split)

lemma fold_enemy_ai_ids_ok: "ids_ok s \<Longrightarrow> ids_ok (fold enemy_ai is s)"
  by (induction "is" arbitrary: s) (simp_all add: enemy_ai_ids_ok)

lemma player_moves_ids_ok: "ids_ok s \<Longrightarrow> ids_ok (player_moves keys s)"
  by (simp add: player_moves_def ids_ok_set_entity split: option.split entity.split)

lemma bolo_update_ids_ok: "ids_ok s \<Longrightarrow> ids_ok (bolo_update keys s)"
  by (simp add: bolo_update_def Let_def game_update_ids_ok fold_enemy_ai_ids_ok player_moves_ids_ok)

section \<open>The game-over flag\<close>

lemma game_update_game_over: "game_over (game_update s) = game_over s"
  using game_update_parts [of s] by (auto simp: game_update_def)

lemma spawn_fields [simp]:
  "game_over (spawn eo s) = game_over s" "paused (spawn eo s) = paused s"
  "entities (spawn eo s) = entities s" "player (spawn eo s) = player s"
  "next_id (spawn eo s) = next_id s" "rand (spawn eo s) = rand s" "game_map (spawn eo s) = game_map s"
  "camera_x (spawn eo s) = camera_x s" "camera_y (spawn eo s) = camera_y s"
  by (simp_all add: spawn_def add_entity_def split: option.split)

lemma simple_enemy_ai_frame:
  "game_over (simple_enemy_ai i s) = game_over s \<and> paused (simple_enemy_ai i s) = paused s
   \<and> player (simple_enemy_ai i s) = player s \<and> game_map (simple_enemy_ai i s) = game_map s
   \<and> camera_x (simple_enemy_ai i s) = camera_x s \<and> camera_y (simple_enemy_ai i s) = camera_y s"
  by (simp add: simple_enemy_ai_def Let_def split: option.split entity.split prod.split)

lemma fold_enemy_ai_frame:
  "game_over (fold enemy_ai is s) = game_over s \<and> paused (fold enemy_ai is s) = paused s
   \<and> player (fold enemy_ai is s) = player s \<and> game_map (fold enemy_ai is s) = game_map s
   \<and> camera_x (fold enemy_ai is s) = camera_x s \<and> camera_y (fold enemy_ai is s) = camera_y s"
  by (induction "is" arbitrary: s) (simp_all add: enemy_ai_def simple_enemy_ai_frame split: entity.split)

lemma player_moves_frame [simp]:
  "game_over (player_moves keys s) = game_over s" "paused (player_moves keys s) = paused s"
  "player (player_moves keys s) = player s" "game_map (player_moves keys s) = game_map s"
  "camera_x (player_moves keys s) = camera_x s" "camera_y (player_moves keys s) = camera_y s"
  by (simp_all add: player_moves_def split: option.split entity.split)

lemma bolo_update_game_over: "game_over (bolo_update keys s) = game_over s"
  by (simp add: bolo_update_def Let_def game_update_game_over fold_enemy_ai_frame)

lemma handle_keydown_game_over:
  assumes "handle_keydown k s = Inr s'" "\<not> game_over s"
  shows "\<not> game_over s'"
  using assms new_game_Inr [of "next_id s" "rand s" s']
  by (auto simp: handle_keydown_def split: if_splits option.splits entity.splits prod.splits)

section \<open>Properties of the controller\<close>

text \<open>C1: In every state the program can reach (a new game, then any interleaving of key presses and frames, restarts included) entity ids are distinct across the live and pending lists and below the id counter Entity._next_id, so every entity constructed gets a fresh id.\<close>

theorem bolo_reachable_ids_ok: "bolo_reachable s \<Longrightarrow> ids_ok s"
proof (induction rule: bolo_reachable.induct)
  case (start g s)
  then show ?case by (simp add: new_game_Inr)
next
  case (keydown s k s')
  then show ?case using handle_keydown_ids_ok by blast
next
  case (frame s keys)
  then show ?case by (simp add: bolo_update_ids_ok)
qed

theorem bolo_reachable_ids_ok_witness:
  "\<exists>s. new_game 0 \<lparr>draws = \<lambda>_. 0.5, rpos = 0\<rparr> = Inr s \<and> bolo_reachable s \<and> ids_ok s"
proof -
  obtain s where s: "new_game 0 \<lparr>draws = \<lambda>_. 0.5, rpos = 0\<rparr> = Inr s" using new_game_total by blast
  then have "bolo_reachable s" by (rule bolo_reachable.start)
  with s bolo_reachable_ids_ok [OF this] show ?thesis by blast
qed

text \<open>C14: No reachable state has game_over set: nothing in the program sets the flag, so the game-over branch of GameState.update never skips a frame.\<close>

theorem bolo_reachable_never_game_over: "bolo_reachable s \<Longrightarrow> \<not> game_over s"
proof (induction rule: bolo_reachable.induct)
  case (start g s)
  then show ?case by (simp add: new_game_Inr)
next
  case (keydown s k s')
  then show ?case using handle_keydown_game_over by blast
next
  case (frame s keys)
  then show ?case by (simp add: bolo_update_game_over)
qed

theorem bolo_reachable_never_game_over_witness:
  "\<exists>s. new_game 0 \<lparr>draws = \<lambda>_. 0.5, rpos = 0\<rparr> = Inr s \<and> bolo_reachable s
       \<and> \<not> game_over (bolo_update (\<lambda>_. False) s)"
proof -
  obtain s where s: "new_game 0 \<lparr>draws = \<lambda>_. 0.5, rpos = 0\<rparr> = Inr s" using new_game_total by blast
  then have r: "bolo_reachable s" by (rule bolo_reachable.start)
  then have "bolo_reachable (bolo_update (\<lambda>_. False) s)" by (rule bolo_reachable.frame)
  with s r bolo_reachable_never_game_over [OF this] show ?thesis by blast
qed

text \<open>C12: No key press raises: _handle_keydown returns a state for every key and every state, restart included, because the new map is 64 by 48 and GameMap.generate_random cannot raise on it.\<close>

theorem handle_keydown_total: "\<exists>s'. handle_keydown k s = Inr s'"
  using new_game_total [of "next_id s" "rand s"]
  by (auto simp: handle_keydown_def split: option.split entity.split prod.split)

text \<open>C15: While the game is paused a frame leaves the state unchanged, yet the SPACE key still makes an alive player with a loaded gun fire and adds a shell to the pending list.\<close>

theorem paused_fire_spawns_shell:
  assumes "paused s" "player_index s = Some i" "entities s ! i = Tank p" "alive p"
    and "tk_fire_cooldown p \<le> 0" "0 < shells (tk_res p)"
  shows "bolo_update keys s = s
         \<and> (\<exists>s'. handle_keydown K_SPACE s = Inr s' \<and> paused s'
                 \<and> length (pending_entities s') = Suc (length (pending_entities s)))"
proof -
  obtain sh where "fst (snd (fire p (next_id s))) = Some sh"
    using fire_spawns_shell [OF assms(5,6), of "next_id s"] by auto
  with assms show ?thesis
    by (auto simp: bolo_update_def handle_keydown_def spawn_def add_entity_def split: prod.split)
qed

theorem paused_fire_spawns_shell_witness:
  "paused ((new_game_state 1 \<lparr>draws = \<lambda>_. 0.5, rpos = 0\<rparr>)\<lparr>entities := [Tank (new_tank 0 256 384 TEAM_1)],
             player := Some 0, paused := True\<rparr>)
   \<and> (\<exists>s'. handle_keydown K_SPACE ((new_game_state 1 \<lparr>draws = \<lambda>_. 0.5, rpos = 0\<rparr>)\<lparr>entities := [Tank (new_tank 0 256 384 TEAM_1)],
             player := Some 0, paused := True\<rparr>) = Inr s' \<and> paused s' \<and> length (pending_entities s') = 1)"
proof -
  let ?s = "(new_game_state 1 \<lparr>draws = \<lambda>_. 0.5, rpos = 0\<rparr>)\<lparr>entities := [Tank (new_tank 0 256 384 TEAM_1)],
             player := Some 0, paused := True\<rparr>"
  have h: "paused ?s" "player_index ?s = Some 0" "entities ?s ! 0 = Tank (new_tank 0 256 384 TEAM_1)"
    "alive (new_tank 0 256 384 TEAM_1)" "tk_fire_cooldown (new_tank 0 256 384 TEAM_1) \<le> 0"
    "0 < shells (tk_res (new_tank 0 256 384 TEAM_1))"
    by (simp_all add: player_index_def first_index_def new_tank_def default_resources_def)
  from paused_fire_spawns_shell [OF h, of "\<lambda>_. False"] h(1) show ?thesis
    by (simp add: new_game_state_def)
qed

lemma new_game_map_ok:
  assumes "new_game nid g = Inr s"
  shows "map_wf (game_map s) \<and> map_dims s = (MAP_WIDTH, MAP_HEIGHT)
         \<and> camera_x s = 0 \<and> camera_y s = 0"
proof -
  let ?m = "new_game_map MAP_WIDTH MAP_HEIGHT"
  from assms obtain g' where gen: "generate_random ?m g = Inr (game_map s, g')"
    using setup_game_Inr [of "new_game_state nid g" s] by (auto simp: new_game_def new_game_state_def)
  have "map_wf ?m" by (rule new_game_map_wf)
  moreover have "1 \<le> map_width ?m" "1 \<le> map_height ?m" by (simp_all add: new_game_map_def)
  ultimately have "map_wf (game_map s) \<and> map_width (game_map s) = 64 \<and> map_height (game_map s) = 48"
    using generate_random_total [of ?m g] gen by (auto simp: new_game_map_def)
  moreover have "camera_x s = 0 \<and> camera_y s = 0"
    using assms by (auto simp: new_game_def setup_game_def new_game_state_def py_bind_def Let_def
        split: sum.splits)
  ultimately show ?thesis by (simp add: map_dims_def)
qed

text \<open>C16: _setup_game on a fresh GameState builds a well-formed 64 by 48 map and the entity list player tank, three enemy tanks, three bases, four pillboxes, the player being the team-1 tank at (256, 384).\<close>

theorem new_game_arena:
  assumes "new_game nid g = Inr s"
  shows "map ent_kind (entities s) =
           [KTank, KTank, KTank, KTank, KBase, KBase, KBase, KPillbox, KPillbox, KPillbox, KPillbox]
         \<and> player_tank s = Some (new_tank nid 256 384 TEAM_1)
         \<and> map_wf (game_map s) \<and> map_width (game_map s) = 64 \<and> map_height (game_map s) = 48"
proof -
  from assms obtain m' g' where gen: "generate_random (new_game_map MAP_WIDTH MAP_HEIGHT) g = Inr (m', g')"
    by (auto simp: new_game_def setup_game_def new_game_state_def py_bind_def split: sum.splits)
  from assms gen have s: "s = (new_game_state nid g)\<lparr>game_map := m', rand := g', player := Some nid,
      entities := [Tank (new_tank nid 256 384 TEAM_1)]
        @ map (\<lambda>i. Tank ((new_tank (nid + 1 + i) 768 (192 + int i * 100) TEAM_2)\<lparr>tk_angle := 180\<rparr>)) [0..<3]
        @ [Base (new_base (nid + 4) 200 200 TEAM_1), Base (new_base (nid + 5) 824 200 TEAM_2),
           Base (new_base (nid + 6) 512 384 NEUTRAL)]
        @ map (\<lambda>i. Pillbox (new_pillbox (nid + 7 + i) (150 + of_nat i * 200) 618 NEUTRAL)) [0..<4],
      next_id := nid + 11\<rparr>"
    by (simp add: new_game_def setup_game_def new_game_state_def Let_def)
  have "map_wf (game_map s) \<and> map_width (game_map s) = 64 \<and> map_height (game_map s) = 48"
    using new_game_map_ok [OF assms] by (simp add: map_dims_def)
  then show ?thesis
    by (simp add: s player_tank_def player_index_def first_index_def new_game_state_def
        upt_rec new_tank_def)
qed

theorem new_game_arena_witness:
  "\<exists>s. new_game 0 \<lparr>draws = \<lambda>_. 0.5, rpos = 0\<rparr> = Inr s
       \<and> player_tank s = Some (new_tank 0 256 384 TEAM_1) \<and> map_width (game_map s) = 64"
proof -
  obtain s where s: "new_game 0 \<lparr>draws = \<lambda>_. 0.5, rpos = 0\<rparr> = Inr s" using new_game_total by blast
  with new_game_arena [OF s] show ?thesis by blast
qed

section \<open>The camera\<close>

lemma handle_keydown_camera:
  assumes "handle_keydown k s = Inr s'" "map_dims s = (MAP_WIDTH, MAP_HEIGHT)"
    and "camera_x s = 0" "camera_y s = 0"
  shows "map_dims s' = (MAP_WIDTH, MAP_HEIGHT) \<and> camera_x s' = 0 \<and> camera_y s' = 0"
proof (cases "k = K_r")
  case True
  with assms(1) show ?thesis by (simp add: handle_keydown_def new_game_map_ok)
next
  case False
  with assms show ?thesis
    by (auto simp: handle_keydown_def map_dims_def split: if_splits option.splits entity.splits prod.splits)
qed

lemma bolo_update_camera:
  assumes "map_dims s = (MAP_WIDTH, MAP_HEIGHT)" "camera_x s = 0" "camera_y s = 0"
  shows "map_dims (bolo_update keys s) = (MAP_WIDTH, MAP_HEIGHT)
         \<and> camera_x (bolo_update keys s) = 0 \<and> camera_y (bolo_update keys s) = 0"
proof (cases "paused s")
  case True
  with assms show ?thesis by (simp add: bolo_update_def)
next
  case False
  let ?s2 = "fold enemy_ai [0..<length (entities (player_moves keys s))] (player_moves keys s)"
  have s2: "map_dims ?s2 = (MAP_WIDTH, MAP_HEIGHT)" "camera_x ?s2 = 0" "camera_y ?s2 = 0"
    using assms fold_enemy_ai_frame [of _ "player_moves keys s"] by (simp_all add: map_dims_def)
  have "bolo_update keys s = game_update ?s2" using False by (simp add: bolo_update_def Let_def)
  with s2 game_update_dims [of ?s2] game_update_camera_pinned [OF s2] show ?thesis by simp
qed

text \<open>C13: In every reachable state the map is 64 by 48 tiles and the camera is at (0, 0): the map is exactly the 1024 by 768 window, so _update_camera always clamps the camera back to the origin.\<close>

theorem bolo_reachable_camera_fixed:
  "bolo_reachable s \<Longrightarrow> camera_x s = 0 \<and> camera_y s = 0 \<and> map_dims s = (MAP_WIDTH, MAP_HEIGHT)"
proof (induction rule: bolo_reachable.induct)
  case (start g s)
  then show ?case by (simp add: new_game_map_ok)
next
  case (keydown s k s')
  then show ?case using handle_keydown_camera by blast
next
  case (frame s keys)
  then show ?case using bolo_update_camera by blast
qed

theorem bolo_reachable_camera_fixed_witness:
  "\<exists>s. new_game 0 \<lparr>draws = \<lambda>_. 0.5, rpos = 0\<rparr> = Inr s \<and> bolo_reachable (bolo_update (\<lambda>k. k = K_w) s)
       \<and> camera_x (bolo_update (\<lambda>k. k = K_w) s) = 0"
proof -
  obtain s where s: "new_game 0 \<lparr>draws = \<lambda>_. 0.5, rpos = 0\<rparr> = Inr s" using new_game_total by blast
  then have "bolo_reachable (bolo_update (\<lambda>k. k = K_w) s)"
    by (blast intro: bolo_reachable.start bolo_reachable.frame)
  with s bolo_reachable_camera_fixed [OF this] show ?thesis by blast
qed

end
