(* ===== verification/Collisions.thy ===== *)
theory Collisions
  imports Game_State
begin

text \<open>
  Properties of the four collision passes of \<open>GameState._process_collisions\<close>
  (\<open>src/src/bolo_engine.py\<close>, lines 893--953) and of the frame around them: what a
  shell hit does to its target, and that contact with a base captures only a neutral
  one, so a base held by a team keeps its team through any frame.
\<close>

section \<open>Bases held by a team\<close>

text \<open>
  Every slot of the first list that holds a base of a team holds, in the second list, a
  base with the same id, team and liveness.
\<close>

definition keeps_bases :: "entity list \<Rightarrow> entity list \<Rightarrow> bool" where
  "keeps_bases xs ys \<longleftrightarrow> length xs \<le> length ys
     \<and> (\<forall>j < length xs. \<forall>b. xs ! j = Base b \<and> bs_team b \<noteq> NEUTRAL \<longrightarrow>
          (\<exists>b'. ys ! j = Base b' \<and> eid b' = eid b \<and> bs_team b' = bs_team b \<and> alive b' = alive b))"

lemma keeps_bases_refl [simp]: "keeps_bases xs xs"
  by (auto simp: keeps_bases_def)

lemma keeps_bases_trans:
  assumes "keeps_bases xs ys" "keeps_bases ys zs"
  shows "keeps_bases xs zs"
  unfolding keeps_bases_def
proof (intro conjI allI impI)
  show "length xs \<le> length zs" using assms by (simp add: keeps_bases_def)
next
  fix j b assume j: "j < length xs" and b: "xs ! j = Base b \<and> bs_team b \<noteq> NEUTRAL"
  from assms(1) j b obtain b' where b': "ys ! j = Base b'" "eid b' = eid b" "bs_team b' = bs_team b"
      "alive b' = alive b"
    by (auto simp: keeps_bases_def)
  from assms(1) j have "j < length ys" by (simp add: keeps_bases_def)
  with assms(2) b b' show "\<exists>b''. zs ! j = Base b'' \<and> eid b'' = eid b \<and> bs_team b'' = bs_team b
      \<and> alive b'' = alive b"
    by (auto simp: keeps_bases_def)
qed

lemma keeps_bases_update:
  assumes "keeps_bases xs ys"
    and "\<And>b. ys ! i = Base b \<Longrightarrow> bs_team b \<noteq> NEUTRAL \<Longrightarrow>
           \<exists>b'. e = Base b' \<and> eid b' = eid b \<and> bs_team b' = bs_team b \<and> alive b' = alive b"
  shows "keeps_bases xs (ys[i := e])"
  unfolding keeps_bases_def
proof (intro conjI allI impI)
  show "length xs \<le> length (ys[i := e])" using assms(1) by (simp add: keeps_bases_def)
next
  fix j b assume j: "j < length xs" and b: "xs ! j = Base b \<and> bs_team b \<noteq> NEUTRAL"
  from assms(1) j b obtain b' where b': "ys ! j = Base b'" "eid b' = eid b" "bs_team b' = bs_team b"
      "alive b' = alive b"
    by (auto simp: keeps_bases_def)
  from assms(1) j have jl: "j < length ys" by (simp add: keeps_bases_def)
  show "\<exists>b''. ys[i := e] ! j = Base b'' \<and> eid b'' = eid b \<and> bs_team b'' = bs_team b
      \<and> alive b'' = alive b"
  proof (cases "j = i")
    case True
    with b b' assms(2) [of b'] jl show ?thesis by auto
  next
    case False
    with b' show ?thesis by auto
  qed
qed

lemma keeps_bases_fold:
  assumes "\<And>i s. keeps_bases (entities s) (entities (f i s))"
  shows "keeps_bases (entities s) (entities (fold f is s))"
proof (induction "is" arbitrary: s)
  case Nil
  then show ?case by simp
next
  case (Cons i "is")
  show ?case using keeps_bases_trans [OF assms Cons.IH] by simp
qed

lemma keeps_bases_nonbase:
  "keeps_bases xs ys \<Longrightarrow> ent_kind (ys ! i) \<noteq> KBase \<Longrightarrow> keeps_bases xs (ys[i := e])"
  by (rule keeps_bases_update) auto

lemma keeps_bases_base:
  "keeps_bases xs ys \<Longrightarrow> ys ! i = Base b \<Longrightarrow> eid b' = eid b \<Longrightarrow> bs_team b' = bs_team b
   \<Longrightarrow> alive b' = alive b \<Longrightarrow> keeps_bases xs (ys[i := Base b'])"
  by (rule keeps_bases_update) auto

lemma kind_update_nonbase:
  "ent_kind (xs ! i) \<noteq> KBase \<Longrightarrow> ent_kind e \<noteq> KBase \<Longrightarrow> ent_kind (xs[j := e] ! i) \<noteq> KBase"
  by (cases "i = j"; cases "j < length xs") (simp_all add: nth_list_update list_update_beyond)

lemma entity_update_keeps_bases: "keeps_bases (entities s) (entities (entity_update i s))"
  by (auto simp: entity_update_def keeps_bases_nonbase keeps_bases_base Let_def add_entity_def
      case_prod_beta split: entity.split option.split)

lemma shell_vs_tank_keeps_bases: "keeps_bases (entities s) (entities (shell_vs_tank i s))"
  by (simp add: shell_vs_tank_def keeps_bases_nonbase kind_update_nonbase split: entity.split option.split)

lemma shell_vs_pillbox_keeps_bases: "keeps_bases (entities s) (entities (shell_vs_pillbox i s))"
  by (simp add: shell_vs_pillbox_def keeps_bases_nonbase kind_update_nonbase split: entity.split option.split)

lemma tank_vs_mine_keeps_bases: "keeps_bases (entities s) (entities (tank_vs_mine i s))"
  by (simp add: tank_vs_mine_def Let_def case_prod_beta keeps_bases_nonbase kind_update_nonbase
      split: entity.split option.split)

lemma tank_vs_base_at_keeps_bases: "keeps_bases (entities s) (entities (tank_vs_base_at i j s))"
proof (cases "\<exists>t b. entities s ! i = Tank t \<and> entities s ! j = Base b")
  case False
  then show ?thesis by (auto simp: tank_vs_base_at_def split: entity.split)
next
  case True
  then obtain t b where tb: "entities s ! i = Tank t" "entities s ! j = Base b" by blast
  then have ij: "i \<noteq> j" by auto
  let ?r = "resupply_tank b t"
  have k1: "keeps_bases (entities s) ((entities s)[j := Base (fst ?r)])"
    by (rule keeps_bases_base [OF keeps_bases_refl tb(2)]) simp_all
  then have k2: "keeps_bases (entities s) ((entities s)[j := Base (fst ?r), i := Tank (fst (snd ?r))])"
    using ij tb(1) by (simp add: keeps_bases_nonbase)
  have k3: "bs_team b = NEUTRAL \<Longrightarrow>
      keeps_bases (entities s) ((entities s)[j := Base (base_capture b (tk_team t))])"
    by (rule keeps_bases_update [OF keeps_bases_refl]) (simp add: tb(2))
  show ?thesis
    using k2 k3 by (simp add: tank_vs_base_at_def tb case_prod_beta)
qed

lemma tank_vs_base_keeps_bases: "keeps_bases (entities s) (entities (tank_vs_base i s))"
  by (simp add: tank_vs_base_def keeps_bases_fold tank_vs_base_at_keeps_bases split: entity.split)

lemma process_collisions_keeps_bases:
  "keeps_bases (entities s) (entities (process_collisions s))"
proof -
  have p: "keeps_bases (entities s') (entities (collision_pass f s'))"
    if "\<And>i s. keeps_bases (entities s) (entities (f i s))" for f s'
    unfolding collision_pass_def by (rule keeps_bases_fold [OF that])
  let ?s1 = "collision_pass shell_vs_tank s"
  let ?s2 = "collision_pass shell_vs_pillbox ?s1"
  let ?s3 = "collision_pass tank_vs_mine ?s2"
  have "keeps_bases (entities s) (entities ?s1)" by (rule p) (rule shell_vs_tank_keeps_bases)
  moreover have "keeps_bases (entities ?s1) (entities ?s2)" by (rule p) (rule shell_vs_pillbox_keeps_bases)
  moreover have "keeps_bases (entities ?s2) (entities ?s3)" by (rule p) (rule tank_vs_mine_keeps_bases)
  moreover have "keeps_bases (entities ?s3) (entities (collision_pass tank_vs_base ?s3))"
    by (rule p) (rule tank_vs_base_keeps_bases)
  ultimately show ?thesis unfolding process_collisions_def by (blast intro: keeps_bases_trans)
qed

lemma update_all_keeps_bases: "keeps_bases (entities s) (entities (update_all s))"
  unfolding update_all_def by (rule keeps_bases_fold) (rule entity_update_keeps_bases)

text \<open>
  No frame changes the team of a base held by a team: contact captures only neutral bases,
  and \<open>Base.take_damage\<close>, the one method that could make a base neutral again, has no
  caller. A base taken by a team stays with it for the rest of the game.
\<close>

text \<open>C10: A live base held by a team is still in the live list after a frame, with the same id and team: contact captures only neutral bases, so an enemy-owned base can never be taken.\<close>

theorem game_update_keeps_team_bases:
  assumes "Base b \<in> set (entities s)" "alive b" "bs_team b \<noteq> NEUTRAL"
  shows "\<exists>b'. Base b' \<in> set (entities (game_update s)) \<and> eid b' = eid b \<and> bs_team b' = bs_team b"
proof (cases "paused s \<or> game_over s")
  case True
  with assms show ?thesis by (auto simp: game_update_def)
next
  case False
  let ?s1 = "s\<lparr>entities := entities s @ pending_entities s, pending_entities := []\<rparr>"
  let ?s3 = "process_collisions (update_all ?s1)"
  from assms(1) obtain j where j: "j < length (entities s)" "entities s ! j = Base b"
    by (auto simp: in_set_conv_nth)
  have "keeps_bases (entities ?s1) (entities ?s3)"
    using keeps_bases_trans [OF update_all_keeps_bases process_collisions_keeps_bases] .
  moreover have "j < length (entities ?s1)" "entities ?s1 ! j = Base b"
    using j by (simp_all add: nth_append)
  ultimately obtain b' where b': "entities ?s3 ! j = Base b'" "eid b' = eid b" "bs_team b' = bs_team b"
      "alive b' = alive b" "j < length (entities ?s3)"
    using assms(3) unfolding keeps_bases_def by fastforce
  then have "Base b' \<in> set (filter ent_alive (entities ?s3))"
    using assms(2) nth_mem [OF b'(5)] by (simp add: b'(1,4))
  moreover have "entities (game_update s) = filter ent_alive (entities ?s3)"
    using False game_update_parts [of s] by blast
  ultimately show ?thesis using b' by auto
qed

theorem game_update_keeps_team_bases_witness:
  "Base (new_base 0 200 200 TEAM_2) \<in> set (entities ((new_game_state 1 \<lparr>draws = \<lambda>_. 0.5, rpos = 0\<rparr>)
        \<lparr>entities := [Base (new_base 0 200 200 TEAM_2)]\<rparr>))
   \<and> alive (new_base 0 200 200 TEAM_2) \<and> bs_team (new_base 0 200 200 TEAM_2) \<noteq> NEUTRAL
   \<and> (\<exists>b'. Base b' \<in> set (entities (game_update ((new_game_state 1 \<lparr>draws = \<lambda>_. 0.5, rpos = 0\<rparr>)
        \<lparr>entities := [Base (new_base 0 200 200 TEAM_2)]\<rparr>))) \<and> bs_team b' = TEAM_2)"
proof -
  let ?s = "(new_game_state 1 \<lparr>draws = \<lambda>_. 0.5, rpos = 0\<rparr>)\<lparr>entities := [Base (new_base 0 200 200 TEAM_2)]\<rparr>"
  have h: "Base (new_base 0 200 200 TEAM_2) \<in> set (entities ?s)" "alive (new_base 0 200 200 TEAM_2)"
    "bs_team (new_base 0 200 200 TEAM_2) \<noteq> NEUTRAL"
    by (simp_all add: new_base_def)
  from h game_update_keeps_team_bases [OF h] show ?thesis by (auto simp: new_base_def)
qed

section \<open>Shell hits\<close>

text \<open>
  In the Shell vs Tank pass, a live shell damages the first tank of the list that it hits
  (alive, not its owner, of another team, closer than the sum of the radii) and is
  destroyed; nothing else of the list changes.
\<close>

text \<open>C4: In the Shell vs Tank pass a live shell damages exactly the first tank of the list it hits (alive, not its owner, of another team, closer than the sum of the radii), loses its life, and leaves every other entity unchanged.\<close>

theorem shell_vs_tank_first_hit:
  assumes "entities s ! i = Shell sh" "alive sh" "j < length (entities s)" "entities s ! j = Tank t"
    and "shell_hits_tank sh (Tank t)" "\<forall>k < j. \<not> shell_hits_tank sh (entities s ! k)"
  shows "entities (shell_vs_tank i s) =
           (entities s)[j := Tank (tank_take_damage t (sh_damage sh)), i := Shell (destroy sh)]
         \<and> armor (tk_res (tank_take_damage t (sh_damage sh))) = armor (tk_res t) - sh_damage sh
         \<and> \<not> alive (destroy sh)"
proof -
  have "first_index (\<lambda>j. shell_hits_tank sh (entities s ! j)) (length (entities s)) = Some j"
    using assms(3-6) by (simp add: first_index_Some)
  with assms(1,2,4) show ?thesis by (simp add: shell_vs_tank_def tank_take_damage_armor)
qed

theorem shell_vs_tank_first_hit_witness:
  "entities ((new_game_state 3 \<lparr>draws = \<lambda>_. 0.5, rpos = 0\<rparr>)\<lparr>entities :=
      [Tank (new_tank 0 10 100 TEAM_1), Tank (new_tank 1 30 100 TEAM_2), Shell (new_shell 2 25 100 0 TEAM_1 0)]\<rparr>)
      ! 2 = Shell (new_shell 2 25 100 0 TEAM_1 0)
   \<and> shell_hits_tank (new_shell 2 25 100 0 TEAM_1 0) (Tank (new_tank 1 30 100 TEAM_2))
   \<and> armor (tk_res (tank_take_damage (new_tank 1 30 100 TEAM_2) (sh_damage (new_shell 2 25 100 0 TEAM_1 0)))) = 7
   \<and> \<not> alive (destroy (new_shell 2 25 100 0 TEAM_1 0))"
proof -
  let ?s = "(new_game_state 3 \<lparr>draws = \<lambda>_. 0.5, rpos = 0\<rparr>)\<lparr>entities :=
      [Tank (new_tank 0 10 100 TEAM_1), Tank (new_tank 1 30 100 TEAM_2), Shell (new_shell 2 25 100 0 TEAM_1 0)]\<rparr>"
  have h: "entities ?s ! 2 = Shell (new_shell 2 25 100 0 TEAM_1 0)" "alive (new_shell 2 25 100 0 TEAM_1 0)"
    "1 < length (entities ?s)" "entities ?s ! 1 = Tank (new_tank 1 30 100 TEAM_2)"
    "shell_hits_tank (new_shell 2 25 100 0 TEAM_1 0) (Tank (new_tank 1 30 100 TEAM_2))"
    "\<forall>k < 1. \<not> shell_hits_tank (new_shell 2 25 100 0 TEAM_1 0) (entities ?s ! k)"
    by (simp_all add: shell_hits_tank_def new_shell_def new_tank_def)
  from h shell_vs_tank_first_hit [OF h] show ?thesis
    by (simp add: new_tank_def new_shell_def default_resources_def)
qed

end
