(* ===== verification/Enums.thy ===== *)
theory Enums
  imports Bolo_Config
begin

text \<open>
  \<open>src/src/enums.py\<close>, the enumerations of the modular package: \<open>TileType\<close> and \<open>Team\<close>
  with the values of the engine's copies (the model reuses \<^typ>\<open>tile_type\<close> and
  \<^typ>\<open>team\<close>), and \<open>GamePhase\<close>, \<open>EntityType\<close>, \<open>AIState\<close> and \<open>LGMTask\<close>, whose
  members take the values \<open>1, 2, \<dots>\<close> of \<open>auto()\<close>. Each enumeration has its member
  list in definition order and the value of each member. No code of the repository
  looks a member up by value or relies on the values beyond the engine's own copies,
  so this theory holds data only.
\<close>

section \<open>The enumerations\<close>

definition tile_types :: "tile_type list" where
  "tile_types = [DEEP_WATER, RIVER, SWAMP, CRATER, ROAD, FOREST, RUBBLE, GRASS, WALL, DAMAGED_WALL, BOAT]"

fun tile_value :: "tile_type \<Rightarrow> int" where
  "tile_value DEEP_WATER = 0" | "tile_value RIVER = 1" | "tile_value SWAMP = 2"
| "tile_value CRATER = 3" | "tile_value ROAD = 4" | "tile_value FOREST = 5"
| "tile_value RUBBLE = 6" | "tile_value GRASS = 7" | "tile_value WALL = 8"
| "tile_value DAMAGED_WALL = 9" | "tile_value BOAT = 10"

definition teams :: "team list" where
  "teams = [NEUTRAL, TEAM_1, TEAM_2, TEAM_3, TEAM_4]"

fun team_value :: "team \<Rightarrow> int" where
  "team_value NEUTRAL = 0" | "team_value TEAM_1 = 1" | "team_value TEAM_2 = 2"
| "team_value TEAM_3 = 3" | "team_value TEAM_4 = 4"

datatype game_phase = MENU | PLAYING | PAUSED | GAME_OVER

definition game_phases :: "game_phase list" where
  "game_phases = [MENU, PLAYING, PAUSED, GAME_OVER]"

text \<open>The constructors of \<open>EntityType\<close> and \<open>AIState.IDLE\<close>, \<open>LGMTask.IDLE\<close> carry a suffix:
  their bare names are taken by other constants of the development.\<close>

datatype entity_type = TANK_et | SHELL_et | MINE_et | PILLBOX_et | BASE_et | LGM_et

definition entity_types :: "entity_type list" where
  "entity_types = [TANK_et, SHELL_et, MINE_et, PILLBOX_et, BASE_et, LGM_et]"

datatype ai_state = IDLE_ai | PATROL | CHASE | ATTACK | FLEE | CAPTURE

definition ai_states :: "ai_state list" where
  "ai_states = [IDLE_ai, PATROL, CHASE, ATTACK, FLEE, CAPTURE]"

datatype lgm_task = IDLE_lgm | HARVEST | BUILD_ROAD | BUILD_WALL | BUILD_BOAT | PLACE_MINE
  | DRILL_MINE | CAPTURE_PILL | PLACE_PILL

definition lgm_tasks :: "lgm_task list" where
  "lgm_tasks = [IDLE_lgm, HARVEST, BUILD_ROAD, BUILD_WALL, BUILD_BOAT, PLACE_MINE, DRILL_MINE,
     CAPTURE_PILL, PLACE_PILL]"

text \<open>\<open>auto()\<close> numbers the members from 1 in definition order.\<close>

definition auto_value :: "'a list \<Rightarrow> 'a \<Rightarrow> int" where
  "auto_value members m = int (Suc (the (find (\<lambda>i. members ! i = m) [0..<length members])))"

definition game_phase_value :: "game_phase \<Rightarrow> int" where
  "game_phase_value = auto_value game_phases"

definition entity_type_value :: "entity_type \<Rightarrow> int" where
  "entity_type_value = auto_value entity_types"

definition ai_state_value :: "ai_state \<Rightarrow> int" where
  "ai_state_value = auto_value ai_states"

definition lgm_task_value :: "lgm_task \<Rightarrow> int" where
  "lgm_task_value = auto_value lgm_tasks"

end
