(* ===== verification/Modular_Config.thy ===== *)
theory Modular_Config
  imports Game_State Enums
begin

text \<open>
  \<open>src/src/config.py\<close>, the configuration module of the modular package: frozen
  dataclasses of settings with one default instance each, the colour palette and the
  terrain table \<open>TERRAIN\<close>. The engine \<open>bolo_engine.py\<close> does not import it and keeps
  its own \<open>Config\<close> and \<open>TERRAIN_DATA\<close>. The one theorem ties the engine's
  \<open>Base.resupply_tank\<close> to the \<open>RESUPPLY_\<close> amounts of \<open>STRUCTURE\<close>.
\<close>

section \<open>Settings\<close>

record display_config =
  disp_WINDOW_WIDTH :: int
  disp_WINDOW_HEIGHT :: int
  disp_FPS :: int
  disp_TILE_SIZE :: int
  disp_TITLE :: string
  disp_HUD_HEIGHT :: int
  disp_MINIMAP_SIZE :: int

record map_config =
  map_DEFAULT_WIDTH :: int
  map_DEFAULT_HEIGHT :: int
  map_MAX_WIDTH :: int
  map_MAX_HEIGHT :: int
  map_BORDER_WALL_THICKNESS :: int
  map_FOREST_CLUSTER_SIZE :: int
  map_WATER_FEATURE_SIZE :: int

record tank_config =
  tank_MAX_ARMOR :: int
  tank_MAX_SHELLS :: int
  tank_MAX_MINES :: int
  tank_MAX_WOOD :: int
  tank_BASE_SPEED :: real
  tank_ROTATION_SPEED :: real
  tank_SIZE :: int
  tank_FIRE_COOLDOWN :: int
  tank_MINE_PLACE_COOLDOWN :: int
  tank_START_ARMOR :: int
  tank_START_SHELLS :: int
  tank_START_MINES :: int
  tank_START_WOOD :: int

record combat_config =
  combat_SHELL_DAMAGE :: int
  combat_SHELL_SPEED :: real
  combat_SHELL_LIFETIME :: int
  combat_SHELL_SIZE :: int
  combat_MINE_DAMAGE :: int
  combat_MINE_BLAST_RADIUS :: real
  combat_MINE_SIZE :: int
  combat_PILLBOX_DAMAGE :: int

record structure_config =
  str_PILLBOX_MAX_HEALTH :: int
  str_PILLBOX_BASE_FIRE_RATE :: int
  str_PILLBOX_MIN_FIRE_RATE :: int
  str_PILLBOX_RANGE :: real
  str_PILLBOX_SIZE :: int
  str_PILLBOX_ANGER_DECAY :: int
  str_BASE_RESUPPLY_INTERVAL :: int
  str_BASE_SIZE :: int
  str_BASE_CAPTURE_RANGE :: real
  str_RESUPPLY_ARMOR :: int
  str_RESUPPLY_SHELLS :: int
  str_RESUPPLY_MINES :: int
  str_RESUPPLY_WOOD :: int

record lgm_config =
  lgm_SPEED :: real
  lgm_SIZE :: int
  lgm_HEALTH :: int
  lgm_RESPAWN_TIME :: int
  lgm_ROAD_COST :: int
  lgm_WALL_COST :: int
  lgm_BOAT_COST :: int
  lgm_HARVEST_TIME :: int
  lgm_BUILD_TIME :: int
  lgm_MINE_DRILL_TIME :: int
  lgm_WOOD_PER_TREE :: int

record ai_config =
  ai_PATROL_CHANGE_INTERVAL :: int
  ai_CHASE_RANGE :: real
  ai_ATTACK_RANGE :: real
  ai_FLEE_HEALTH_THRESHOLD :: int
  ai_FLEE_DURATION :: int
  ai_AIM_ERROR :: real
  ai_PRIORITY_PLAYER :: real
  ai_PRIORITY_DAMAGED :: real
  ai_PRIORITY_NEARBY :: real

text \<open>The module's singleton instances, each the dataclass with its defaults.\<close>

definition DISPLAY :: display_config where
  "DISPLAY = \<lparr>disp_WINDOW_WIDTH = 1024, disp_WINDOW_HEIGHT = 768, disp_FPS = 60, disp_TILE_SIZE = 16,
     disp_TITLE = ''bring-back-BOLO'', disp_HUD_HEIGHT = 40, disp_MINIMAP_SIZE = 200\<rparr>"

definition MAP :: map_config where
  "MAP = \<lparr>map_DEFAULT_WIDTH = 64, map_DEFAULT_HEIGHT = 48, map_MAX_WIDTH = 256, map_MAX_HEIGHT = 256,
     map_BORDER_WALL_THICKNESS = 2, map_FOREST_CLUSTER_SIZE = 8, map_WATER_FEATURE_SIZE = 12\<rparr>"

definition TANK :: tank_config where
  "TANK = \<lparr>tank_MAX_ARMOR = 8, tank_MAX_SHELLS = 40, tank_MAX_MINES = 40, tank_MAX_WOOD = 40,
     tank_BASE_SPEED = 2.0, tank_ROTATION_SPEED = 4.0, tank_SIZE = 12, tank_FIRE_COOLDOWN = 10,
     tank_MINE_PLACE_COOLDOWN = 30, tank_START_ARMOR = 8, tank_START_SHELLS = 40,
     tank_START_MINES = 10, tank_START_WOOD = 0\<rparr>"

definition COMBAT :: combat_config where
  "COMBAT = \<lparr>combat_SHELL_DAMAGE = 1, combat_SHELL_SPEED = 6.0, combat_SHELL_LIFETIME = 90,
     combat_SHELL_SIZE = 3, combat_MINE_DAMAGE = 4, combat_MINE_BLAST_RADIUS = 30.0,
     combat_MINE_SIZE = 4, combat_PILLBOX_DAMAGE = 1\<rparr>"

definition STRUCTURE :: structure_config where
  "STRUCTURE = \<lparr>str_PILLBOX_MAX_HEALTH = 16, str_PILLBOX_BASE_FIRE_RATE = 30,
     str_PILLBOX_MIN_FIRE_RATE = 5, str_PILLBOX_RANGE = 150.0, str_PILLBOX_SIZE = 10,
     str_PILLBOX_ANGER_DECAY = 60, str_BASE_RESUPPLY_INTERVAL = 1200, str_BASE_SIZE = 15,
     str_BASE_CAPTURE_RANGE = 30.0, str_RESUPPLY_ARMOR = 1, str_RESUPPLY_SHELLS = 5,
     str_RESUPPLY_MINES = 2, str_RESUPPLY_WOOD = 0\<rparr>"

definition LGM :: lgm_config where
  "LGM = \<lparr>lgm_SPEED = 1.5, lgm_SIZE = 6, lgm_HEALTH = 1, lgm_RESPAWN_TIME = 3600, lgm_ROAD_COST = 2,
     lgm_WALL_COST = 2, lgm_BOAT_COST = 5, lgm_HARVEST_TIME = 120, lgm_BUILD_TIME = 180,
     lgm_MINE_DRILL_TIME = 240, lgm_WOOD_PER_TREE = 8\<rparr>"

definition AI :: ai_config where
  "AI = \<lparr>ai_PATROL_CHANGE_INTERVAL = 120, ai_CHASE_RANGE = 200.0, ai_ATTACK_RANGE = 150.0,
     ai_FLEE_HEALTH_THRESHOLD = 2, ai_FLEE_DURATION = 300, ai_AIM_ERROR = 0.1,
     ai_PRIORITY_PLAYER = 2.0, ai_PRIORITY_DAMAGED = 1.5, ai_PRIORITY_NEARBY = 1.2\<rparr>"

section \<open>Colours\<close>

record palette =
  col_BLACK :: color
  col_WHITE :: color
  col_GRAY :: color
  col_DARK_GRAY :: color
  col_NEUTRAL :: color
  col_TEAM_1 :: color
  col_TEAM_2 :: color
  col_TEAM_3 :: color
  col_TEAM_4 :: color
  col_DEEP_WATER :: color
  col_RIVER :: color
  col_SWAMP :: color
  col_CRATER :: color
  col_ROAD :: color
  col_FOREST :: color
  col_RUBBLE :: color
  col_GRASS :: color
  col_WALL :: color
  col_DAMAGED_WALL :: color
  col_BOAT :: color
  col_UI_BACKGROUND :: color
  col_UI_TEXT :: color
  col_UI_TEXT_DIM :: color
  col_UI_HEALTH_GOOD :: color
  col_UI_HEALTH_LOW :: color
  col_UI_HEALTH_CRITICAL :: color
  col_EXPLOSION :: color
  col_MUZZLE_FLASH :: color
  col_DAMAGE_INDICATOR :: color

definition Colors :: palette where
  "Colors = \<lparr>col_BLACK = (0, 0, 0), col_WHITE = (255, 255, 255), col_GRAY = (128, 128, 128),
     col_DARK_GRAY = (64, 64, 64), col_NEUTRAL = (128, 128, 128), col_TEAM_1 = (34, 139, 34),
     col_TEAM_2 = (178, 34, 34), col_TEAM_3 = (65, 105, 225), col_TEAM_4 = (218, 165, 32),
     col_DEEP_WATER = (20, 60, 120), col_RIVER = (40, 100, 160), col_SWAMP = (60, 80, 40),
     col_CRATER = (80, 70, 50), col_ROAD = (60, 60, 60), col_FOREST = (20, 80, 20),
     col_RUBBLE = (90, 85, 75), col_GRASS = (50, 120, 50), col_WALL = (100, 100, 100),
     col_DAMAGED_WALL = (120, 110, 100), col_BOAT = (120, 80, 40),
     col_UI_BACKGROUND = (30, 30, 30), col_UI_TEXT = (255, 255, 255),
     col_UI_TEXT_DIM = (180, 180, 180), col_UI_HEALTH_GOOD = (34, 139, 34),
     col_UI_HEALTH_LOW = (255, 165, 0), col_UI_HEALTH_CRITICAL = (255, 0, 0),
     col_EXPLOSION = (255, 128, 0), col_MUZZLE_FLASH = (255, 255, 0),
     col_DAMAGE_INDICATOR = (255, 50, 50)\<rparr>"

section \<open>The terrain table\<close>

text \<open>
  \<open>TerrainInfo\<close> of \<open>config.py\<close>: the engine's fields and the forest fields, with their
  defaults. The table is keyed by \<open>TileType\<close> of \<open>src/src/enums.py\<close>, whose members and
  values are those of the engine's \<^typ>\<open>tile_type\<close>.
\<close>

record terrain_cfg =
  cfg_name :: string
  cfg_speed_multiplier :: real
  cfg_passable :: bool
  cfg_blocks_shots :: bool
  cfg_destructible :: bool
  cfg_color :: color
  cfg_regrows :: bool
  cfg_regrow_time :: int
  cfg_provides_wood :: bool
  cfg_wood_amount :: int

definition terrain_entry :: "string \<Rightarrow> real \<Rightarrow> bool \<Rightarrow> bool \<Rightarrow> bool \<Rightarrow> color \<Rightarrow> terrain_cfg" where
  "terrain_entry n s p b d c =
     \<lparr>cfg_name = n, cfg_speed_multiplier = s, cfg_passable = p, cfg_blocks_shots = b,
      cfg_destructible = d, cfg_color = c, cfg_regrows = False, cfg_regrow_time = 0,
      cfg_provides_wood = False, cfg_wood_amount = 0\<rparr>"

fun TERRAIN :: "tile_type \<Rightarrow> terrain_cfg" where
  "TERRAIN DEEP_WATER = terrain_entry ''Deep Water'' 0.0 False False False (col_DEEP_WATER Colors)"
| "TERRAIN RIVER = terrain_entry ''River'' 0.3 True False False (col_RIVER Colors)"
| "TERRAIN SWAMP = terrain_entry ''Swamp'' 0.25 True False True (col_SWAMP Colors)"
| "TERRAIN CRATER = terrain_entry ''Crater'' 0.5 True False False (col_CRATER Colors)"
| "TERRAIN ROAD = terrain_entry ''Road'' 1.2 True False False (col_ROAD Colors)"
| "TERRAIN FOREST = (terrain_entry ''Forest'' 0.4 True False True (col_FOREST Colors))
     \<lparr>cfg_regrows := True, cfg_regrow_time := 18000, cfg_provides_wood := True,
      cfg_wood_amount := lgm_WOOD_PER_TREE LGM\<rparr>"
| "TERRAIN RUBBLE = terrain_entry ''Rubble'' 0.6 True False False (col_RUBBLE Colors)"
| "TERRAIN GRASS = terrain_entry ''Grass'' 0.8 True False False (col_GRASS Colors)"
| "TERRAIN WALL = terrain_entry ''Wall'' 0.0 False True True (col_WALL Colors)"
| "TERRAIN DAMAGED_WALL = terrain_entry ''Damaged Wall'' 0.0 False True True (col_DAMAGED_WALL Colors)"
| "TERRAIN BOAT = terrain_entry ''Boat'' 0.8 True False True (col_BOAT Colors)"

section \<open>Resupply amounts\<close>

text \<open>
  The amounts \<open>Base.resupply_tank\<close> moves in one contact are the \<open>RESUPPLY_\<close> settings of
  the configuration, whenever the tank has room and the base has stock for them.
\<close>

text \<open>C31: When the tank has room and the base has stock, Base.resupply_tank moves exactly the RESUPPLY_ARMOR, RESUPPLY_SHELLS, RESUPPLY_MINES and RESUPPLY_WOOD amounts of config.py's STRUCTURE.\<close>

theorem resupply_tank_moves_config_amounts:
  assumes "resupply_tank b t = (b', t', r)" "tk_team t = bs_team b"
    and "armor (tk_res t) + 1 \<le> TANK_MAX_ARMOR" "shells (tk_res t) + 5 \<le> TANK_MAX_SHELLS"
    and "mines (tk_res t) + 2 \<le> TANK_MAX_MINES"
    and "1 \<le> bs_armor b" "5 \<le> bs_shells b" "2 \<le> bs_mines b"
  shows "armor (tk_res t') = armor (tk_res t) + str_RESUPPLY_ARMOR STRUCTURE
       \<and> shells (tk_res t') = shells (tk_res t) + str_RESUPPLY_SHELLS STRUCTURE
       \<and> mines (tk_res t') = mines (tk_res t) + str_RESUPPLY_MINES STRUCTURE
       \<and> wood (tk_res t') = wood (tk_res t) + str_RESUPPLY_WOOD STRUCTURE \<and> r"
  using resupply_tank_amounts [OF assms(1,2)] resupply_tank_frame [OF assms(1)] assms(3-)
  by (simp add: STRUCTURE_def)

theorem resupply_tank_moves_config_amounts_witness:
  "resupply_tank (new_base 0 200 200 TEAM_1)
     ((new_tank 1 200 200 TEAM_1)\<lparr>tk_res := \<lparr>armor = 5, shells = 30, mines = 30, wood = 0\<rparr>\<rparr>)
   = ((new_base 0 200 200 TEAM_1)\<lparr>bs_shells := 15, bs_mines := 8, bs_armor := 7\<rparr>,
      (new_tank 1 200 200 TEAM_1)\<lparr>tk_res := \<lparr>armor = 6, shells = 35, mines = 32, wood = 0\<rparr>\<rparr>, True)
   \<and> (6::int) = 5 + str_RESUPPLY_ARMOR STRUCTURE"
proof -
  let ?b = "new_base 0 200 200 TEAM_1"
  let ?t = "(new_tank 1 200 200 TEAM_1)\<lparr>tk_res := \<lparr>armor = 5, shells = 30, mines = 30, wood = 0\<rparr>\<rparr>"
  have h: "resupply_tank ?b ?t = (?b\<lparr>bs_shells := 15, bs_mines := 8, bs_armor := 7\<rparr>,
      (new_tank 1 200 200 TEAM_1)\<lparr>tk_res := \<lparr>armor = 6, shells = 35, mines = 32, wood = 0\<rparr>\<rparr>, True)"
    by (simp add: resupply_tank_def new_base_def new_tank_def)
  have c: "tk_team ?t = bs_team ?b" "armor (tk_res ?t) + 1 \<le> TANK_MAX_ARMOR"
    "shells (tk_res ?t) + 5 \<le> TANK_MAX_SHELLS" "mines (tk_res ?t) + 2 \<le> TANK_MAX_MINES"
    "1 \<le> bs_armor ?b" "5 \<le> bs_shells ?b" "2 \<le> bs_mines ?b"
    by (simp_all add: new_base_def new_tank_def)
  from h resupply_tank_moves_config_amounts [OF h c] show ?thesis by simp
qed

end
