(* ===== verification/Entity_Base.thy ===== *)
theory Entity_Base
  imports Modular_Config
begin

text \<open>
  The dataclass \<open>Entity\<close> of \<open>src/src/entities/base_entity.py\<close>, the base class of the
  modular package that the engine \<open>bolo_engine.py\<close> does not import: ids drawn from a
  class-wide counter (with a reset), position and tile, distance and heading to another
  entity or a point, movement towards a point, the on-screen test, and equality by id.
  The lemmas show that \<open>move_towards\<close> moves exactly \<open>speed\<close> pixels straight at the
  target, that consecutive constructions get consecutive ids, and that
  \<open>reset_id_counter\<close> hands out an id again. Headings are exact reals: CPython's float
  \<open>angle_deg % 360\<close> can round to \<open>360.0\<close> for a tiny negative angle, which the model
  does not reproduce; the cosine and sine of the heading, all the lemmas use, are the
  same either way.
\<close>


section \<open>The dataclass and its methods\<close>

text \<open>
  The fields of the dataclass: \<open>x\<close>, \<open>y\<close>, \<open>_id\<close> (from the class counter, not an
  argument of \<open>__init__\<close>) and \<open>alive\<close>. The class variable \<open>_next_id\<close> is passed
  and returned explicitly as the counter.
\<close>

record base_entity =
  be_x :: real
  be_y :: real
  be_id :: nat
  be_alive :: bool

text \<open>\<open>Entity._generate_id\<close>: the current counter, and the counter incremented.\<close>

definition generate_id :: "nat \<Rightarrow> nat \<times> nat" where
  "generate_id c = (c, Suc c)"

definition reset_id_counter :: "nat \<Rightarrow> nat" where
  "reset_id_counter c = 0"

text \<open>The dataclass \<open>__init__\<close>: the two coordinates, an id from the counter, alive.\<close>

definition new_base_entity :: "real \<Rightarrow> real \<Rightarrow> nat \<Rightarrow> base_entity \<times> nat" where
  "new_base_entity x y c =
     (case generate_id c of (i, c') \<Rightarrow> (\<lparr>be_x = x, be_y = y, be_id = i, be_alive = True\<rparr>, c'))"

definition be_position :: "base_entity \<Rightarrow> real \<times> real" where
  "be_position e = (be_x e, be_y e)"

definition be_tile_position :: "base_entity \<Rightarrow> int \<times> int" where
  "be_tile_position e =
     (\<lfloor>be_x e / of_int (disp_TILE_SIZE DISPLAY)\<rfloor>, \<lfloor>be_y e / of_int (disp_TILE_SIZE DISPLAY)\<rfloor>)"

definition be_destroy :: "base_entity \<Rightarrow> base_entity" where
  "be_destroy e = e\<lparr>be_alive := False\<rparr>"

text \<open>The argument of \<open>distance_to\<close> and \<open>angle_to\<close>: another entity or a point.\<close>

datatype other = Other_Entity base_entity | Other_Point "real \<times> real"

definition other_xy :: "other \<Rightarrow> real \<times> real" where
  "other_xy ot = (case ot of Other_Entity e \<Rightarrow> (be_x e, be_y e) | Other_Point p \<Rightarrow> p)"

definition distance_to :: "base_entity \<Rightarrow> other \<Rightarrow> real" where
  "distance_to e ot = (case other_xy ot of (ox, oy) \<Rightarrow> sqrt ((be_x e - ox)\<^sup>2 + (be_y e - oy)\<^sup>2))"

definition angle_to :: "base_entity \<Rightarrow> other \<Rightarrow> real" where
  "angle_to e ot =
     (case other_xy ot of (ox, oy) \<Rightarrow>
        (let dx = ox - be_x e; dy = oy - be_y e; angle_rad = atan2 dy dx; angle_deg = degrees angle_rad
         in py_fmod angle_deg 360))"

definition move_towards :: "base_entity \<Rightarrow> real \<times> real \<Rightarrow> real \<Rightarrow> base_entity" where
  "move_towards e target speed =
     (let angle = angle_to e (Other_Point target); angle_rad = radians angle
      in e\<lparr>be_x := be_x e + cos angle_rad * speed, be_y := be_y e + sin angle_rad * speed\<rparr>)"

definition is_on_screen :: "base_entity \<Rightarrow> real \<times> real \<Rightarrow> int \<times> int \<Rightarrow> int \<Rightarrow> bool" where
  "is_on_screen e cam screen margin =
     (case (cam, screen) of ((cam_x, cam_y), (screen_w, screen_h)) \<Rightarrow>
        (let screen_x = be_x e - cam_x; screen_y = be_y e - cam_y
         in - of_int margin \<le> screen_x \<and> screen_x \<le> of_int (screen_w + margin)
            \<and> - of_int margin \<le> screen_y \<and> screen_y \<le> of_int (screen_h + margin)))"

text \<open>\<open>__eq__\<close> and \<open>__hash__\<close>: by id.\<close>

definition be_eq :: "base_entity \<Rightarrow> base_entity \<Rightarrow> bool" where
  "be_eq a b \<longleftrightarrow> be_id a = be_id b"

definition be_hash :: "base_entity \<Rightarrow> nat" where
  "be_hash e = be_id e"

section \<open>Geometry of \<open>atan2\<close>\<close>

lemma arctan_ratio:
  assumes "x \<noteq> 0"
  shows "cos (arctan (y / x)) = \<bar>x\<bar> / sqrt (x\<^sup>2 + y\<^sup>2) \<and> sin (arctan (y / x)) = y * sgn x / sqrt (x\<^sup>2 + y\<^sup>2)"
proof -
  have px: "0 < x\<^sup>2" using assms by simp
  have "1 + (y / x)\<^sup>2 = (x\<^sup>2 + y\<^sup>2) / x\<^sup>2" using assms by (simp add: field_simps power2_eq_square)
  then have s: "sqrt (1 + (y / x)\<^sup>2) = sqrt (x\<^sup>2 + y\<^sup>2) / \<bar>x\<bar>"
    by (simp add: real_sqrt_divide)
  have "cos (arctan (y / x)) = 1 / (sqrt (x\<^sup>2 + y\<^sup>2) / \<bar>x\<bar>)"
    by (simp only: cos_arctan s)
  then have c: "cos (arctan (y / x)) = \<bar>x\<bar> / sqrt (x\<^sup>2 + y\<^sup>2)" by simp
  have "sin (arctan (y / x)) = (y / x) / (sqrt (x\<^sup>2 + y\<^sup>2) / \<bar>x\<bar>)"
    by (simp only: sin_arctan s)
  then have "sin (arctan (y / x)) = (y / x) * \<bar>x\<bar> / sqrt (x\<^sup>2 + y\<^sup>2)" by simp
  moreover have "(y / x) * \<bar>x\<bar> = y * sgn x"
    using assms by (cases "0 < x") (simp_all add: abs_if sgn_if)
  ultimately show ?thesis using c by (simp only:)
qed

lemma atan2_cos_sin:
  assumes "x \<noteq> 0 \<or> y \<noteq> 0"
  shows "cos (atan2 y x) = x / sqrt (x\<^sup>2 + y\<^sup>2) \<and> sin (atan2 y x) = y / sqrt (x\<^sup>2 + y\<^sup>2)"
proof (cases "x = 0")
  case True
  with assms have "y \<noteq> 0" by simp
  with True show ?thesis by (auto simp: atan2_def abs_if)
next
  case False
  then show ?thesis
    using arctan_ratio [OF False, of y] by (auto simp: atan2_def abs_if sgn_if)
qed

lemma radians_degrees [simp]: "radians (degrees r) = r"
  by (simp add: radians_def degrees_def)

text \<open>Reducing a heading modulo 360 degrees does not change its cosine and sine.\<close>

lemma cos_sin_radians_fmod:
  "cos (radians (py_fmod a 360)) = cos (radians a) \<and> sin (radians (py_fmod a 360)) = sin (radians a)"
proof -
  have r: "radians (py_fmod a 360) = radians a - 2 * pi * of_int \<lfloor>a / 360\<rfloor>"
    by (simp add: radians_def py_fmod_def field_simps)
  show ?thesis
    unfolding r by (simp add: cos_diff sin_diff)
qed

section \<open>Headings and movement\<close>

lemma heading_to_point:
  assumes "(tx, ty) \<noteq> (be_x e, be_y e)"
  defines "d \<equiv> sqrt ((tx - be_x e)\<^sup>2 + (ty - be_y e)\<^sup>2)"
  shows "cos (radians (angle_to e (Other_Point (tx, ty)))) = (tx - be_x e) / d
       \<and> sin (radians (angle_to e (Other_Point (tx, ty)))) = (ty - be_y e) / d"
proof -
  have "tx - be_x e \<noteq> 0 \<or> ty - be_y e \<noteq> 0" using assms(1) by auto
  from atan2_cos_sin [OF this] cos_sin_radians_fmod [of "degrees (atan2 (ty - be_y e) (tx - be_x e))"]
  show ?thesis by (simp add: angle_to_def other_xy_def d_def Let_def)
qed

text \<open>
  \<open>move_towards\<close> moves the entity \<open>speed\<close> pixels along the straight line to the target:
  the step has length \<open>|speed|\<close> and the distance to the target becomes
  \<open>|distance - speed|\<close> (it overshoots when \<open>speed\<close> exceeds the distance).
\<close>

lemma along_sq:
  assumes "0 < (d::real)" "d\<^sup>2 = a\<^sup>2 + b\<^sup>2"
  shows "(a / d * v - a)\<^sup>2 + (b / d * v - b)\<^sup>2 = (d - v)\<^sup>2"
    and "(a / d * v)\<^sup>2 + (b / d * v)\<^sup>2 = v\<^sup>2"
proof -
  have nz: "d \<noteq> 0" using assms(1) by simp
  have q1: "a / d * v - a = a * ((v - d) / d)" using nz by (simp add: field_simps)
  have q2: "b / d * v - b = b * ((v - d) / d)" using nz by (simp add: field_simps)
  have "(a / d * v - a)\<^sup>2 + (b / d * v - b)\<^sup>2 = (a\<^sup>2 + b\<^sup>2) * ((v - d) / d)\<^sup>2"
    unfolding q1 q2 power_mult_distrib by (rule distrib_right [symmetric])
  also have "\<dots> = d\<^sup>2 * ((v - d) / d)\<^sup>2" using assms(2) by simp
  also have "\<dots> = (d - v)\<^sup>2" using nz by (simp add: power_divide power2_commute)
  finally show "(a / d * v - a)\<^sup>2 + (b / d * v - b)\<^sup>2 = (d - v)\<^sup>2" .
  have r1: "a / d * v = a * (v / d)" "b / d * v = b * (v / d)" by simp_all
  have "(a / d * v)\<^sup>2 + (b / d * v)\<^sup>2 = (a\<^sup>2 + b\<^sup>2) * (v / d)\<^sup>2"
    unfolding r1 power_mult_distrib by (rule distrib_right [symmetric])
  also have "\<dots> = d\<^sup>2 * (v / d)\<^sup>2" using assms(2) by simp
  also have "\<dots> = v\<^sup>2" using nz by (simp add: power_divide)
  finally show "(a / d * v)\<^sup>2 + (b / d * v)\<^sup>2 = v\<^sup>2" .
qed

text \<open>C32: Entity.move_towards moves the entity by exactly |speed| along the straight line to the target: the distance to the target changes from d to |d - speed|.\<close>

theorem move_towards_straight:
  assumes "(tx, ty) \<noteq> (be_x e, be_y e)"
  shows "distance_to (move_towards e (tx, ty) v) (Other_Point (tx, ty))
           = \<bar>distance_to e (Other_Point (tx, ty)) - v\<bar>
         \<and> distance_to (move_towards e (tx, ty) v) (Other_Entity e) = \<bar>v\<bar>"
proof -
  let ?dx = "tx - be_x e" and ?dy = "ty - be_y e"
  let ?d = "sqrt (?dx\<^sup>2 + ?dy\<^sup>2)"
  have "?dx \<noteq> 0 \<or> ?dy \<noteq> 0" using assms by auto
  then have "0 < ?dx\<^sup>2 + ?dy\<^sup>2" by (auto simp: add_pos_nonneg add_nonneg_pos)
  then have d: "0 < ?d" "?d\<^sup>2 = ?dx\<^sup>2 + ?dy\<^sup>2" by simp_all
  from heading_to_point [OF assms] have h:
      "cos (radians (angle_to e (Other_Point (tx, ty)))) = ?dx / ?d"
      "sin (radians (angle_to e (Other_Point (tx, ty)))) = ?dy / ?d" by simp_all
  have mv: "move_towards e (tx, ty) v = e\<lparr>be_x := be_x e + ?dx / ?d * v, be_y := be_y e + ?dy / ?d * v\<rparr>"
    by (simp add: move_towards_def h Let_def)
  have sel: "be_x (e\<lparr>be_x := p, be_y := q\<rparr>) = p" "be_y (e\<lparr>be_x := p, be_y := q\<rparr>) = q" for p q
    by simp_all
  have x: "be_x e + ?dx / ?d * v - tx = ?dx / ?d * v - ?dx" "be_x e + ?dx / ?d * v - be_x e = ?dx / ?d * v"
    and y: "be_y e + ?dy / ?d * v - ty = ?dy / ?d * v - ?dy" "be_y e + ?dy / ?d * v - be_y e = ?dy / ?d * v"
    by simp_all
  have d0: "distance_to e (Other_Point (tx, ty)) = ?d"
    by (simp add: distance_to_def other_xy_def power2_commute [of "be_x e"] power2_commute [of "be_y e"])
  have "distance_to (move_towards e (tx, ty) v) (Other_Point (tx, ty))
        = sqrt ((?dx / ?d * v - ?dx)\<^sup>2 + (?dy / ?d * v - ?dy)\<^sup>2)"
    by (simp only: mv distance_to_def other_xy_def other.case prod.case sel x y)
  moreover have "distance_to (move_towards e (tx, ty) v) (Other_Entity e)
        = sqrt ((?dx / ?d * v)\<^sup>2 + (?dy / ?d * v)\<^sup>2)"
    by (simp only: mv distance_to_def other_xy_def other.case prod.case sel x y)
  ultimately show ?thesis
    unfolding d0 along_sq [OF d] by simp
qed

theorem move_towards_straight_witness:
  "(30, 40) \<noteq> (be_x (fst (new_base_entity 0 0 0)), be_y (fst (new_base_entity 0 0 0)))
   \<and> distance_to (move_towards (fst (new_base_entity 0 0 0)) (30, 40) 10) (Other_Point (30, 40)) = 40"
proof -
  have h: "(30, 40) \<noteq> (be_x (fst (new_base_entity 0 0 0)), be_y (fst (new_base_entity 0 0 0)))"
    by (simp add: new_base_entity_def generate_id_def)
  have d: "distance_to (fst (new_base_entity 0 0 0)) (Other_Point (30, 40)) = 50"
  proof -
    have "(0 - 30)\<^sup>2 + (0 - 40)\<^sup>2 = (50::real)\<^sup>2" by simp
    then show ?thesis
      by (simp add: distance_to_def other_xy_def new_base_entity_def generate_id_def del: real_sqrt_eq_iff)
  qed
  from h move_towards_straight [OF h, of 10] d show ?thesis by simp
qed

section \<open>Ids\<close>

text \<open>
  Constructing an entity keeps the ids of the entities constructed so far distinct and
  below the counter, the invariant the class counter exists for.
\<close>

text \<open>C33: Constructing an entity keeps the ids of all entities constructed so far distinct and below the class counter, and advances the counter by one.\<close>

theorem new_base_entity_fresh:
  assumes "distinct (map be_id es)" "\<forall>e \<in> set es. be_id e < c" "new_base_entity x y c = (e, c')"
  shows "distinct (map be_id (es @ [e])) \<and> (\<forall>e' \<in> set (es @ [e]). be_id e' < c') \<and> c' = Suc c"
  using assms by (auto simp: new_base_entity_def generate_id_def)

theorem new_base_entity_fresh_witness:
  "distinct (map be_id [fst (new_base_entity 0 0 0)]) \<and> be_id (fst (new_base_entity 0 0 0)) < 1
   \<and> distinct (map be_id [fst (new_base_entity 0 0 0), fst (new_base_entity 5 5 1)])"
proof -
  have h: "distinct (map be_id [fst (new_base_entity 0 0 0)])" "\<forall>e \<in> set [fst (new_base_entity 0 0 0)]. be_id e < 1"
    "new_base_entity 5 5 1 = (fst (new_base_entity 5 5 1), 2)"
    by (simp_all add: new_base_entity_def generate_id_def)
  from h new_base_entity_fresh [OF h] show ?thesis by simp
qed

text \<open>
  \<open>reset_id_counter\<close> breaks it: the next entity constructed after a reset has the id of
  the first entity ever constructed, so the two are equal for \<open>__eq__\<close> and hash alike.
\<close>

text \<open>C34: After Entity.reset_id_counter the next entity constructed gets id 0 again, so it is equal (by __eq__) to the first entity ever constructed and hashes alike.\<close>

theorem reset_id_counter_reuses_id:
  assumes "new_base_entity x y 0 = (e1, c1)" "new_base_entity x' y' (reset_id_counter c) = (e2, c2)"
  shows "be_eq e1 e2 \<and> be_hash e1 = be_hash e2"
  using assms by (auto simp: new_base_entity_def generate_id_def reset_id_counter_def be_eq_def be_hash_def)

theorem reset_id_counter_reuses_id_witness:
  "new_base_entity 1 2 0 = (fst (new_base_entity 1 2 0), 1)
   \<and> new_base_entity 3 4 (reset_id_counter 7) = (fst (new_base_entity 3 4 0), 1)
   \<and> be_eq (fst (new_base_entity 1 2 0)) (fst (new_base_entity 3 4 0))"
proof -
  have h: "new_base_entity 1 2 0 = (fst (new_base_entity 1 2 0), 1)"
    "new_base_entity 3 4 (reset_id_counter 7) = (fst (new_base_entity 3 4 0), 1)"
    by (simp_all add: new_base_entity_def generate_id_def reset_id_counter_def)
  from h reset_id_counter_reuses_id [OF h] show ?thesis by simp
qed

end
