(* ===== verification/Lesson_Game.thy ===== *)
theory Lesson_Game
  imports Bolo_Config
begin

text \<open>
  \<open>src/lesson/tank_game.py\<close>, the teaching game that ships beside the engine: a player
  tank kept inside an 800 by 600 window, bullets, patrolling enemies that bounce off the
  window edges and respawn in threes, rectangular obstacles, and the main loop with its
  score and game-over flag. The window, drawing and text are not modelled. The lemmas
  show that the tank and the enemies stay inside the window, that the circle/rectangle
  test decides whether the circle meets the rectangle, which bullets survive a frame,
  that the arena always has enemies, how the score counts hits, and that the score
  stays a non-negative multiple of 100.
\<close>

section \<open>Constants\<close>

definition WINDOW_WIDTH_tg :: int where "WINDOW_WIDTH_tg = 800"
definition WINDOW_HEIGHT_tg :: int where "WINDOW_HEIGHT_tg = 600"
definition PLAYER_SPEED :: int where "PLAYER_SPEED = 4"
definition PLAYER_ROTATION_SPEED :: int where "PLAYER_ROTATION_SPEED = 5"
definition BULLET_SPEED :: int where "BULLET_SPEED = 8"
definition ENEMY_SPEED :: int where "ENEMY_SPEED = 2"
definition GREEN :: color where "GREEN = (34, 139, 34)"
definition RED :: color where "RED = (178, 34, 34)"
definition GRAY :: color where "GRAY = (128, 128, 128)"
definition YELLOW :: color where "YELLOW = (255, 215, 0)"

lemmas lesson_consts [simp] = WINDOW_WIDTH_tg_def WINDOW_HEIGHT_tg_def PLAYER_SPEED_def
  PLAYER_ROTATION_SPEED_def BULLET_SPEED_def ENEMY_SPEED_def

section \<open>The player's tank\<close>

record ltank =
  lt_x :: real
  lt_y :: real
  lt_angle :: real
  lt_speed :: int
  lt_rotation_speed :: int
  lt_size :: int
  lt_color :: color

definition new_ltank :: "int \<Rightarrow> int \<Rightarrow> color \<Rightarrow> ltank" where
  "new_ltank x y c = \<lparr>lt_x = of_int x, lt_y = of_int y, lt_angle = 0, lt_speed = PLAYER_SPEED,
     lt_rotation_speed = PLAYER_ROTATION_SPEED, lt_size = 20, lt_color = c\<rparr>"

definition keep_on_screen :: "ltank \<Rightarrow> ltank" where
  "keep_on_screen t =
     t\<lparr>lt_x := max (of_int (lt_size t)) (min (of_int (WINDOW_WIDTH_tg - lt_size t)) (lt_x t)),
       lt_y := max (of_int (lt_size t)) (min (of_int (WINDOW_HEIGHT_tg - lt_size t)) (lt_y t))\<rparr>"

definition lt_move_forward :: "ltank \<Rightarrow> ltank" where
  "lt_move_forward t =
     keep_on_screen (t\<lparr>lt_x := lt_x t + cos (radians (lt_angle t)) * of_int (lt_speed t),
                       lt_y := lt_y t + sin (radians (lt_angle t)) * of_int (lt_speed t)\<rparr>)"

definition lt_move_backward :: "ltank \<Rightarrow> ltank" where
  "lt_move_backward t =
     keep_on_screen (t\<lparr>lt_x := lt_x t - cos (radians (lt_angle t)) * of_int (lt_speed t),
                       lt_y := lt_y t - sin (radians (lt_angle t)) * of_int (lt_speed t)\<rparr>)"

definition lt_rotate_left :: "ltank \<Rightarrow> ltank" where
  "lt_rotate_left t = t\<lparr>lt_angle := lt_angle t - of_int (lt_rotation_speed t)\<rparr>"

definition lt_rotate_right :: "ltank \<Rightarrow> ltank" where
  "lt_rotate_right t = t\<lparr>lt_angle := lt_angle t + of_int (lt_rotation_speed t)\<rparr>"

section \<open>Bullets, obstacles and enemies\<close>

record bullet =
  bl_x :: real
  bl_y :: real
  bl_angle :: real
  bl_speed :: int
  bl_radius :: int
  bl_color :: color

definition new_bullet :: "real \<Rightarrow> real \<Rightarrow> real \<Rightarrow> bullet" where
  "new_bullet x y a = \<lparr>bl_x = x, bl_y = y, bl_angle = a, bl_speed = BULLET_SPEED, bl_radius = 5,
     bl_color = YELLOW\<rparr>"

definition shoot :: "ltank \<Rightarrow> bullet" where
  "shoot t =
     (let cannon_length = lt_size t + 15;
          start_x = lt_x t + cos (radians (lt_angle t)) * of_int cannon_length;
          start_y = lt_y t + sin (radians (lt_angle t)) * of_int cannon_length
      in new_bullet start_x start_y (lt_angle t))"

definition bullet_update :: "bullet \<Rightarrow> bullet" where
  "bullet_update b =
     b\<lparr>bl_x := bl_x b + cos (radians (bl_angle b)) * of_int (bl_speed b),
       bl_y := bl_y b + sin (radians (bl_angle b)) * of_int (bl_speed b)\<rparr>"

definition is_off_screen :: "bullet \<Rightarrow> bool" where
  "is_off_screen b \<longleftrightarrow> bl_x b < 0 \<or> bl_x b > of_int WINDOW_WIDTH_tg \<or> bl_y b < 0
     \<or> bl_y b > of_int WINDOW_HEIGHT_tg"

text \<open>\<open>pygame.Rect(x, y, width, height)\<close>: \<open>right = x + width\<close>, \<open>bottom = y + height\<close>.\<close>

record obstacle =
  ob_left :: int
  ob_top :: int
  ob_width :: int
  ob_height :: int
  ob_color :: color

definition new_obstacle :: "int \<Rightarrow> int \<Rightarrow> int \<Rightarrow> int \<Rightarrow> obstacle" where
  "new_obstacle x y w h = \<lparr>ob_left = x, ob_top = y, ob_width = w, ob_height = h, ob_color = GRAY\<rparr>"

definition ob_right :: "obstacle \<Rightarrow> int" where "ob_right r = ob_left r + ob_width r"
definition ob_bottom :: "obstacle \<Rightarrow> int" where "ob_bottom r = ob_top r + ob_height r"

record enemy =
  en_x :: real
  en_y :: real
  en_size :: int
  en_color :: color
  en_speed :: int
  en_direction :: int
  en_move_timer :: int

text \<open>\<open>Enemy(x, y)\<close>: the constructor draws the first direction.\<close>

definition new_enemy :: "int \<Rightarrow> int \<Rightarrow> rng \<Rightarrow> enemy \<times> rng" where
  "new_enemy x y g =
     (case py_choice g [0, 90, 180, 270] of (d, g') \<Rightarrow>
        (\<lparr>en_x = of_int x, en_y = of_int y, en_size = 18, en_color = RED, en_speed = ENEMY_SPEED,
          en_direction = d, en_move_timer = 0\<rparr>, g'))"

text \<open>
  \<open>Enemy.update\<close>: a new bound on the timer is drawn every frame; when the timer passes it
  a new direction is drawn. The enemy moves along its direction, then bounces off the
  vertical and the horizontal edges, clamped back inside the window.
\<close>

definition en_advance :: "enemy \<Rightarrow> enemy" where
  "en_advance e =
     e\<lparr>en_x := en_x e + cos (radians (of_int (en_direction e))) * of_int (en_speed e),
       en_y := en_y e + sin (radians (of_int (en_direction e))) * of_int (en_speed e)\<rparr>"

definition en_bounce_x :: "enemy \<Rightarrow> enemy" where
  "en_bounce_x e =
     (if en_x e < of_int (en_size e) \<or> en_x e > of_int (WINDOW_WIDTH_tg - en_size e)
      then e\<lparr>en_direction := 180 - en_direction e,
             en_x := max (of_int (en_size e)) (min (of_int (WINDOW_WIDTH_tg - en_size e)) (en_x e))\<rparr>
      else e)"

definition en_bounce_y :: "enemy \<Rightarrow> enemy" where
  "en_bounce_y e =
     (if en_y e < of_int (en_size e) \<or> en_y e > of_int (WINDOW_HEIGHT_tg - en_size e)
      then e\<lparr>en_direction := - en_direction e,
             en_y := max (of_int (en_size e)) (min (of_int (WINDOW_HEIGHT_tg - en_size e)) (en_y e))\<rparr>
      else e)"

definition enemy_update :: "enemy \<Rightarrow> rng \<Rightarrow> enemy \<times> rng" where
  "enemy_update e g =
     (let e1 = e\<lparr>en_move_timer := en_move_timer e + 1\<rparr> in
      case py_randint g 60 120 of (k, g1) \<Rightarrow>
      case (if en_move_timer e1 > k
            then (case py_choice g1 [0, 90, 180, 270] of (d, g2) \<Rightarrow>
                    (e1\<lparr>en_direction := d, en_move_timer := 0\<rparr>, g2))
            else (e1, g1)) of (e2, g2) \<Rightarrow>
      (en_bounce_y (en_bounce_x (en_advance e2)), g2))"

section \<open>Collision tests\<close>

definition check_circle_collision :: "real \<Rightarrow> real \<Rightarrow> int \<Rightarrow> real \<Rightarrow> real \<Rightarrow> int \<Rightarrow> bool" where
  "check_circle_collision x1 y1 r1 x2 y2 r2 \<longleftrightarrow> sqrt ((x2 - x1)\<^sup>2 + (y2 - y1)\<^sup>2) < of_int (r1 + r2)"

definition check_circle_rect_collision :: "real \<Rightarrow> real \<Rightarrow> int \<Rightarrow> obstacle \<Rightarrow> bool" where
  "check_circle_rect_collision cx cy radius r \<longleftrightarrow>
     (let closest_x = max (of_int (ob_left r)) (min cx (of_int (ob_right r)));
          closest_y = max (of_int (ob_top r)) (min cy (of_int (ob_bottom r)))
      in sqrt ((cx - closest_x)\<^sup>2 + (cy - closest_y)\<^sup>2) < of_int radius)"

section \<open>The main loop\<close>

text \<open>
  The local variables of \<open>main()\<close>: \<open>running\<close>, \<open>game_over\<close>, \<open>score\<close>, the player,
  the three lists, and the random stream the loop draws from.
\<close>

record lesson =
  ls_running :: bool
  ls_game_over :: bool
  ls_score :: int
  ls_player :: ltank
  ls_bullets :: "bullet list"
  ls_enemies :: "enemy list"
  ls_obstacles :: "obstacle list"
  ls_rand :: rng

text \<open>\<open>for _ in range(n): enemies.append(Enemy(randint(50, W - 50), randint(50, 150)))\<close>\<close>

fun spawn_enemies :: "nat \<Rightarrow> rng \<Rightarrow> enemy list \<Rightarrow> enemy list \<times> rng" where
  "spawn_enemies 0 g es = (es, g)"
| "spawn_enemies (Suc n) g es =
     (case py_randint g 50 (WINDOW_WIDTH_tg - 50) of (x, g1) \<Rightarrow>
      case py_randint g1 50 150 of (y, g2) \<Rightarrow>
      case new_enemy x y g2 of (e, g3) \<Rightarrow> spawn_enemies n g3 (es @ [e]))"

definition lesson_obstacles :: "obstacle list" where
  "lesson_obstacles = [new_obstacle 150 200 100 20, new_obstacle 550 200 100 20,
     new_obstacle 300 350 20 150, new_obstacle 480 350 20 150]"

definition lesson_main :: "rng \<Rightarrow> lesson" where
  "lesson_main g =
     (case spawn_enemies 3 g [] of (es, g') \<Rightarrow>
        \<lparr>ls_running = True, ls_game_over = False, ls_score = 0,
         ls_player = new_ltank (WINDOW_WIDTH_tg div 2) (WINDOW_HEIGHT_tg div 2) GREEN,
         ls_bullets = [], ls_enemies = es, ls_obstacles = lesson_obstacles, ls_rand = g'\<rparr>)"

text \<open>The held-key block of the loop.\<close>

definition lesson_held_moves :: "(key \<Rightarrow> bool) \<Rightarrow> ltank \<Rightarrow> ltank" where
  "lesson_held_moves keys p =
     (let p1 = (if keys K_w \<or> keys K_UP then lt_move_forward p else p);
          p2 = (if keys K_s \<or> keys K_DOWN then lt_move_backward p1 else p1);
          p3 = (if keys K_a \<or> keys K_LEFT then lt_rotate_left p2 else p2)
      in if keys K_d \<or> keys K_RIGHT then lt_rotate_right p3 else p3)"

text \<open>\<open>for enemy in enemies: enemy.update()\<close>, threading the random stream.\<close>

fun enemies_update :: "enemy list \<Rightarrow> rng \<Rightarrow> enemy list \<times> rng" where
  "enemies_update [] g = ([], g)"
| "enemies_update (e # es) g =
     (case enemy_update e g of (e', g1) \<Rightarrow>
      case enemies_update es g1 of (es', g2) \<Rightarrow> (e' # es', g2))"

definition bullet_hits_enemy :: "bullet \<Rightarrow> enemy \<Rightarrow> bool" where
  "bullet_hits_enemy b e \<longleftrightarrow>
     check_circle_collision (bl_x b) (bl_y b) (bl_radius b) (en_x e) (en_y e) (en_size e)"

text \<open>
  The nested collision loop. Python compares list members by identity, so the
  removal lists hold positions; every colliding pair appends both positions and adds
  100 to the score.
\<close>

definition collect_hits :: "bullet list \<Rightarrow> enemy list \<Rightarrow> nat list \<times> nat list \<times> int" where
  "collect_hits bs es =
     fold (\<lambda>i. fold (\<lambda>j (rb, re, sc).
                 if bullet_hits_enemy (bs ! i) (es ! j) then (rb @ [i], re @ [j], sc + 100)
                 else (rb, re, sc)) [0..<length es]) [0..<length bs] ([], [], 0)"

text \<open>\<open>for x in to_remove: if x in xs: xs.remove(x)\<close> with identity comparison.\<close>

definition remove_positions :: "'a list \<Rightarrow> nat list \<Rightarrow> 'a list" where
  "remove_positions xs ps = map snd (filter (\<lambda>(k, _). k \<notin> set ps) (enumerate 0 xs))"

definition bullet_blocked :: "obstacle list \<Rightarrow> bullet \<Rightarrow> bool" where
  "bullet_blocked obs b \<longleftrightarrow>
     list_ex (\<lambda>ob. check_circle_rect_collision (bl_x b) (bl_y b) (bl_radius b) ob) obs"

definition enemy_touches_player :: "ltank \<Rightarrow> enemy \<Rightarrow> bool" where
  "enemy_touches_player p e \<longleftrightarrow>
     check_circle_collision (lt_x p) (lt_y p) (lt_size p) (en_x e) (en_y e) (en_size e)"

text \<open>The \<open>if not game_over:\<close> block of one frame.\<close>

definition lesson_update :: "(key \<Rightarrow> bool) \<Rightarrow> lesson \<Rightarrow> lesson" where
  "lesson_update keys s =
     (if ls_game_over s then s else
      let p = lesson_held_moves keys (ls_player s);
          bs = map bullet_update (ls_bullets s)
      in case enemies_update (ls_enemies s) (ls_rand s) of (es, g) \<Rightarrow>
      case collect_hits bs es of (rb, re, sc) \<Rightarrow>
      let bs1 = remove_positions bs rb;
          es1 = remove_positions es re;
          bs2 = filter (\<lambda>b. \<not> bullet_blocked (ls_obstacles s) b \<and> \<not> is_off_screen b) bs1;
          over = list_ex (enemy_touches_player p) es1
      in case (if es1 = [] then spawn_enemies 3 g [] else (es1, g)) of (es2, g2) \<Rightarrow>
         s\<lparr>ls_game_over := over, ls_score := ls_score s + sc, ls_player := p,
           ls_bullets := bs2, ls_enemies := es2, ls_rand := g2\<rparr>)"

datatype lesson_event = QUIT | KEYDOWN key

text \<open>
  The event loop of one frame. \<open>return main()\<close> on \<open>R\<close> after a game over abandons the
  remaining events and starts a fresh game; its result is \<open>Inl\<close> of the fresh state.
\<close>

fun lesson_events :: "lesson_event list \<Rightarrow> lesson \<Rightarrow> lesson + lesson" where
  "lesson_events [] s = Inr s"
| "lesson_events (QUIT # evs) s = lesson_events evs (s\<lparr>ls_running := False\<rparr>)"
| "lesson_events (KEYDOWN k # evs) s =
     (let s1 = (if k = K_SPACE \<and> \<not> ls_game_over s
                then s\<lparr>ls_bullets := ls_bullets s @ [shoot (ls_player s)]\<rparr> else s)
      in if k = K_r \<and> ls_game_over s1 then Inl (lesson_main (ls_rand s1))
         else lesson_events evs s1)"

definition lesson_frame :: "lesson_event list \<Rightarrow> (key \<Rightarrow> bool) \<Rightarrow> lesson \<Rightarrow> lesson" where
  "lesson_frame evs keys s =
     (case lesson_events evs s of Inl s' \<Rightarrow> s' | Inr s' \<Rightarrow> lesson_update keys s')"

text \<open>The states the loop reaches: a fresh game, then frames while \<open>running\<close> holds.\<close>

inductive lesson_reachable :: "lesson \<Rightarrow> bool" where
  start: "lesson_reachable (lesson_main g)"
| frame: "lesson_reachable s \<Longrightarrow> ls_running s \<Longrightarrow> lesson_reachable (lesson_frame evs keys s)"

section \<open>Specifications and witness inputs\<close>

text \<open>The window bound of the player and of the enemies, and the invariant of the loop.\<close>

definition ltank_in_window :: "ltank \<Rightarrow> bool" where
  "ltank_in_window t \<longleftrightarrow>
     of_int (lt_size t) \<le> lt_x t \<and> lt_x t \<le> of_int (WINDOW_WIDTH_tg - lt_size t) \<and>
     of_int (lt_size t) \<le> lt_y t \<and> lt_y t \<le> of_int (WINDOW_HEIGHT_tg - lt_size t)"

definition enemy_in_window :: "enemy \<Rightarrow> bool" where
  "enemy_in_window e \<longleftrightarrow>
     of_int (en_size e) \<le> en_x e \<and> en_x e \<le> of_int (WINDOW_WIDTH_tg - en_size e) \<and>
     of_int (en_size e) \<le> en_y e \<and> en_y e \<le> of_int (WINDOW_HEIGHT_tg - en_size e)"

definition lesson_inv :: "lesson \<Rightarrow> bool" where
  "lesson_inv s \<longleftrightarrow> lt_size (ls_player s) = 20 \<and> ltank_in_window (ls_player s) \<and> ls_enemies s \<noteq> []"

text \<open>The pairs of positions the collision loop visits and finds overlapping, in its order.\<close>

definition hit_pairs :: "bullet list \<Rightarrow> enemy list \<Rightarrow> (nat \<times> nat) list" where
  "hit_pairs bs es =
     concat (map (\<lambda>i. map (Pair i) (filter (\<lambda>j. bullet_hits_enemy (bs ! i) (es ! j)) [0..<length es]))
       [0..<length bs])"

text \<open>Geometric meaning of the circle/rectangle test: some point of the closed rectangle
  lies closer to the centre than the radius.\<close>

definition circle_meets_rect :: "real \<Rightarrow> real \<Rightarrow> int \<Rightarrow> obstacle \<Rightarrow> bool" where
  "circle_meets_rect cx cy radius r \<longleftrightarrow>
     (\<exists>px py. of_int (ob_left r) \<le> px \<and> px \<le> of_int (ob_right r) \<and>
              of_int (ob_top r) \<le> py \<and> py \<le> of_int (ob_bottom r) \<and>
              sqrt ((cx - px)\<^sup>2 + (cy - py)\<^sup>2) < of_int radius)"

text \<open>Concrete inputs for the witnesses: the stream of zero draws, a bullet heading east,
  an enemy heading east, and a running game with no obstacles.\<close>

definition wg0 :: rng where "wg0 = \<lparr>draws = (\<lambda>_. 0), rpos = 0\<rparr>"

definition wb :: "real \<Rightarrow> real \<Rightarrow> bullet" where "wb x y = new_bullet x y 0"

definition we :: "real \<Rightarrow> real \<Rightarrow> enemy" where
  "we x y = \<lparr>en_x = x, en_y = y, en_size = 18, en_color = RED, en_speed = ENEMY_SPEED,
     en_direction = 0, en_move_timer = 0\<rparr>"

definition ws :: "bullet list \<Rightarrow> enemy list \<Rightarrow> lesson" where
  "ws bs es = \<lparr>ls_running = True, ls_game_over = False, ls_score = 0,
     ls_player = new_ltank 400 300 GREEN, ls_bullets = bs, ls_enemies = es, ls_obstacles = [],
     ls_rand = wg0\<rparr>"

section \<open>The player stays in the window and the arena is never empty\<close>

lemma keep_on_screen_in_window:
  assumes "2 * lt_size t \<le> 600"
  shows "ltank_in_window (keep_on_screen t)"
  using assms by (simp add: ltank_in_window_def keep_on_screen_def)

lemma keep_on_screen_size [simp]: "lt_size (keep_on_screen t) = lt_size t"
  by (simp add: keep_on_screen_def)

lemma lesson_held_moves_size [simp]: "lt_size (lesson_held_moves keys p) = lt_size p"
  by (simp add: lesson_held_moves_def Let_def lt_move_forward_def lt_move_backward_def
      lt_rotate_left_def lt_rotate_right_def)

lemma lesson_held_moves_in_window:
  assumes "ltank_in_window p" "2 * lt_size p \<le> 600"
  shows "ltank_in_window (lesson_held_moves keys p)"
proof -
  have mv: "ltank_in_window (lt_move_forward q)" "ltank_in_window (lt_move_backward q)"
    if "lt_size q = lt_size p" for q
    using keep_on_screen_in_window [of "q\<lparr>lt_x := _, lt_y := _\<rparr>"] that assms(2)
    by (simp_all add: lt_move_forward_def lt_move_backward_def)
  have rot: "ltank_in_window (lt_rotate_left q) = ltank_in_window q"
    "ltank_in_window (lt_rotate_right q) = ltank_in_window q" for q
    by (simp_all add: ltank_in_window_def lt_rotate_left_def lt_rotate_right_def)
  have sz: "lt_size (lt_move_forward q) = lt_size q" "lt_size (lt_move_backward q) = lt_size q" for q
    by (simp_all add: lt_move_forward_def lt_move_backward_def)
  show ?thesis
    using assms(1) by (simp add: lesson_held_moves_def Let_def mv rot sz)
qed

lemma spawn_enemies_length:
  "spawn_enemies n g es = (es', g') \<Longrightarrow> length es' = length es + n"
  by (induction n g es arbitrary: es' g' rule: spawn_enemies.induct) (auto split: prod.splits)

lemma lesson_main_fields [simp]:
  "ls_player (lesson_main g) = new_ltank 400 300 GREEN"
  "length (ls_enemies (lesson_main g)) = 3"
  "ls_score (lesson_main g) = 0" "ls_game_over (lesson_main g) = False"
  "ls_bullets (lesson_main g) = []" "ls_running (lesson_main g) = True"
  "ls_obstacles (lesson_main g) = lesson_obstacles"
  by (simp_all add: lesson_main_def spawn_enemies_length split: prod.splits)

lemma lesson_events_cases:
  "(\<exists>g. lesson_events evs s = Inl (lesson_main g)) \<or>
   (\<exists>s'. lesson_events evs s = Inr s' \<and> ls_player s' = ls_player s \<and> ls_enemies s' = ls_enemies s
      \<and> ls_game_over s' = ls_game_over s \<and> ls_score s' = ls_score s \<and> ls_rand s' = ls_rand s
      \<and> ls_obstacles s' = ls_obstacles s)"
  by (induction evs s rule: lesson_events.induct) (auto simp: Let_def)

lemma spawn_enemies_nonempty [simp]: "spawn_enemies (Suc n) g es \<noteq> ([], g')"
  using spawn_enemies_length [of "Suc n" g es "[]" g'] by auto

lemma lesson_update_enemies_nonempty: "ls_enemies s \<noteq> [] \<Longrightarrow> ls_enemies (lesson_update keys s) \<noteq> []"
  unfolding lesson_update_def Let_def
  by (auto split: prod.split simp: numeral_3_eq_3)

lemma lesson_update_player:
  "ls_player (lesson_update keys s) =
     (if ls_game_over s then ls_player s else lesson_held_moves keys (ls_player s))"
  unfolding lesson_update_def Let_def by (simp split: prod.split)

lemma lesson_inv_main: "lesson_inv (lesson_main g)"
proof -
  have "ls_enemies (lesson_main g) \<noteq> []"
    using lesson_main_fields(2) [of g] by (auto simp del: lesson_main_fields)
  then show ?thesis
    by (simp add: lesson_inv_def ltank_in_window_def new_ltank_def)
qed

lemma lesson_inv_update: "lesson_inv s \<Longrightarrow> lesson_inv (lesson_update keys s)"
  unfolding lesson_inv_def
  using lesson_held_moves_in_window [of "ls_player s" keys] lesson_update_enemies_nonempty [of s keys]
  by (simp add: lesson_update_player)

lemma lesson_inv_frame: "lesson_inv s \<Longrightarrow> lesson_inv (lesson_frame evs keys s)"
  using lesson_events_cases [of evs s]
proof (elim disjE exE conjE)
  fix g assume "lesson_events evs s = Inl (lesson_main g)"
  then show ?thesis by (simp add: lesson_frame_def lesson_inv_main)
next
  fix s' assume "lesson_inv s" "lesson_events evs s = Inr s'" "ls_player s' = ls_player s"
    "ls_enemies s' = ls_enemies s"
  then have "lesson_inv s'" by (simp add: lesson_inv_def)
  with \<open>lesson_events evs s = Inr s'\<close> show ?thesis
    by (simp add: lesson_frame_def lesson_inv_update)
qed

text \<open>C21: In every state the lesson game's loop reaches (a fresh main(), then frames while running, restarts included) the player's tank lies inside the window at its radius from each edge, and the enemy list is not empty.\<close>

theorem lesson_reachable_player_in_window:
  "lesson_reachable s \<Longrightarrow> ltank_in_window (ls_player s) \<and> ls_enemies s \<noteq> []"
proof -
  assume "lesson_reachable s"
  then have "lesson_inv s"
    by (induction rule: lesson_reachable.induct) (simp_all add: lesson_inv_main lesson_inv_frame)
  then show ?thesis by (simp add: lesson_inv_def)
qed

section \<open>Collisions between bullets and enemies\<close>

lemma collect_hits_inner:
  "fold (\<lambda>j (rb, re, sc). if P j then (rb @ [i], re @ [j], sc + 100) else (rb, re, sc)) js (rb, re, sc)
   = (rb @ map fst (map (Pair i) (filter P js)), re @ map snd (map (Pair i) (filter P js)),
      sc + 100 * int (length (filter P js)))"
  by (induction js arbitrary: rb re sc) (simp_all add: algebra_simps)

lemma collect_hits_outer:
  "fold (\<lambda>i. fold (\<lambda>j (rb, re, sc). if P i j then (rb @ [i], re @ [j], sc + 100) else (rb, re, sc)) js)
     is (rb, re, sc)
   = (let Q = concat (map (\<lambda>i. map (Pair i) (filter (P i) js)) is)
      in (rb @ map fst Q, re @ map snd Q, sc + 100 * int (length Q)))"
  by (induction "is" arbitrary: rb re sc) (simp_all add: collect_hits_inner algebra_simps Let_def)

lemma collect_hits_pairs:
  "collect_hits bs es =
     (map fst (hit_pairs bs es), map snd (hit_pairs bs es), 100 * int (length (hit_pairs bs es)))"
  unfolding collect_hits_def hit_pairs_def
  using collect_hits_outer [where P = "\<lambda>i j. bullet_hits_enemy (bs ! i) (es ! j)" and rb = "[]"
      and re = "[]" and sc = 0]
  by (simp add: Let_def)

lemma set_remove_positions:
  "x \<in> set (remove_positions xs ps) \<longleftrightarrow> (\<exists>k < length xs. k \<notin> set ps \<and> xs ! k = x)"
  by (auto simp: remove_positions_def in_set_enumerate_eq image_iff)

lemma hit_pairs_iff:
  "(i, j) \<in> set (hit_pairs bs es) \<longleftrightarrow>
     i < length bs \<and> j < length es \<and> bullet_hits_enemy (bs ! i) (es ! j)"
  by (auto simp: hit_pairs_def)

lemma distinct_concat_pairs:
  "distinct is \<Longrightarrow> distinct js \<Longrightarrow> distinct (concat (map (\<lambda>i. map (Pair i) (filter (P i) js)) is))"
  by (induction "is") (auto simp: distinct_map inj_on_def)

lemma hit_pairs_distinct: "distinct (hit_pairs bs es)"
  unfolding hit_pairs_def by (rule distinct_concat_pairs) simp_all

text \<open>C23: The nested bullet/enemy collision loop of main() adds 100 to the score for every overlapping (bullet, enemy) pair, so one bullet over two enemies scores 200 and an enemy hit by two bullets scores twice.\<close>

theorem collect_hits_counts_pairs:
  "snd (snd (collect_hits bs es)) =
     100 * int (card {(i, j). i < length bs \<and> j < length es \<and> bullet_hits_enemy (bs ! i) (es ! j)})"
proof -
  have "set (hit_pairs bs es) =
      {(i, j). i < length bs \<and> j < length es \<and> bullet_hits_enemy (bs ! i) (es ! j)}"
    by (auto simp: hit_pairs_iff)
  then show ?thesis
    using distinct_card [OF hit_pairs_distinct [of bs es]] by (simp add: collect_hits_pairs)
qed

text \<open>C24: After the removal of the bullets and enemies the collision loop collected, no remaining bullet overlaps a remaining enemy.\<close>

theorem removal_no_overlap:
  assumes "collect_hits bs es = (rb, re, sc)"
    and "b \<in> set (remove_positions bs rb)"
    and "e \<in> set (remove_positions es re)"
  shows "\<not> bullet_hits_enemy b e"
proof
  assume hit: "bullet_hits_enemy b e"
  have rb: "rb = map fst (hit_pairs bs es)" and re: "re = map snd (hit_pairs bs es)"
    using assms(1) by (simp_all add: collect_hits_pairs)
  obtain i where i: "i < length bs" "i \<notin> fst ` set (hit_pairs bs es)" "bs ! i = b"
    using assms(2) by (auto simp: set_remove_positions rb)
  obtain j where j: "j < length es" "es ! j = e"
    using assms(3) by (auto simp: set_remove_positions re)
  have "(i, j) \<in> set (hit_pairs bs es)"
    using i j hit by (simp add: hit_pairs_iff)
  with i(2) show False by force
qed

section \<open>The circle/rectangle test\<close>

lemma clamp_closest:
  fixes c l h p :: real
  assumes "l \<le> p" "p \<le> h"
  shows "(c - max l (min c h))\<^sup>2 \<le> (c - p)\<^sup>2"
proof (cases "c < l")
  case True
  then have "0 \<le> l - c" "l - c \<le> p - c" using assms by auto
  then have "(l - c)\<^sup>2 \<le> (p - c)\<^sup>2" by (simp add: power_mono)
  then show ?thesis using True assms by (simp add: max_def min_def power2_commute)
next
  case False
  show ?thesis
  proof (cases "h < c")
    case True
    then have "0 \<le> c - h" "c - h \<le> c - p" using assms by auto
    then show ?thesis using True False by (simp add: max_def min_def power_mono)
  next
    case False
    with \<open>\<not> c < l\<close> show ?thesis by (simp add: max_def min_def)
  qed
qed

text \<open>C25: For a rectangle of non-negative size, check_circle_rect_collision holds exactly when some point of the closed rectangle lies closer to the circle's centre than the radius: the clamped point is the nearest point.\<close>

theorem check_circle_rect_collision_iff:
  assumes "0 \<le> ob_width r" "0 \<le> ob_height r"
  shows "check_circle_rect_collision cx cy radius r \<longleftrightarrow> circle_meets_rect cx cy radius r"
proof
  assume "check_circle_rect_collision cx cy radius r"
  then show "circle_meets_rect cx cy radius r"
    using assms unfolding check_circle_rect_collision_def circle_meets_rect_def ob_right_def ob_bottom_def Let_def
    by (intro exI [of _ "max (of_int (ob_left r)) (min cx (of_int (ob_left r + ob_width r)))"]
        exI [of _ "max (of_int (ob_top r)) (min cy (of_int (ob_top r + ob_height r)))"]) auto
next
  assume "circle_meets_rect cx cy radius r"
  then obtain px py where p: "of_int (ob_left r) \<le> px" "px \<le> of_int (ob_right r)"
    "of_int (ob_top r) \<le> py" "py \<le> of_int (ob_bottom r)"
    "sqrt ((cx - px)\<^sup>2 + (cy - py)\<^sup>2) < of_int radius"
    unfolding circle_meets_rect_def by blast
  let ?qx = "max (of_int (ob_left r)) (min cx (of_int (ob_right r)))"
  let ?qy = "max (of_int (ob_top r)) (min cy (of_int (ob_bottom r)))"
  have "(cx - ?qx)\<^sup>2 + (cy - ?qy)\<^sup>2 \<le> (cx - px)\<^sup>2 + (cy - py)\<^sup>2"
    using clamp_closest [OF p(1,2), of cx] clamp_closest [OF p(3,4), of cy] by linarith
  then have "sqrt ((cx - ?qx)\<^sup>2 + (cy - ?qy)\<^sup>2) \<le> sqrt ((cx - px)\<^sup>2 + (cy - py)\<^sup>2)"
    by (rule real_sqrt_le_mono)
  with p(5) show "check_circle_rect_collision cx cy radius r"
    unfolding check_circle_rect_collision_def Let_def by linarith
qed

section \<open>One frame\<close>

lemma lesson_update_unfold:
  assumes "\<not> ls_game_over s"
    and "enemies_update (ls_enemies s) (ls_rand s) = (es, g)"
  shows "\<exists>g2. lesson_update keys s =
     s\<lparr>ls_game_over := list_ex (enemy_touches_player (lesson_held_moves keys (ls_player s)))
                        (remove_positions es (map snd (hit_pairs (map bullet_update (ls_bullets s)) es))),
       ls_score := ls_score s + 100 * int (length (hit_pairs (map bullet_update (ls_bullets s)) es)),
       ls_player := lesson_held_moves keys (ls_player s),
       ls_bullets := filter (\<lambda>b. \<not> bullet_blocked (ls_obstacles s) b \<and> \<not> is_off_screen b)
          (remove_positions (map bullet_update (ls_bullets s))
             (map fst (hit_pairs (map bullet_update (ls_bullets s)) es))),
       ls_enemies := fst (if remove_positions es (map snd (hit_pairs (map bullet_update (ls_bullets s)) es)) = []
                          then spawn_enemies 3 g []
                          else (remove_positions es (map snd (hit_pairs (map bullet_update (ls_bullets s)) es)), g)),
       ls_rand := g2\<rparr>"
  using assms unfolding lesson_update_def Let_def
  by (auto simp: collect_hits_pairs split: prod.split)

text \<open>C26: A frame of play raises the score by 100 times the number of overlapping (bullet, enemy) pairs after the bullets and enemies have moved.\<close>

theorem lesson_update_score:
  assumes "\<not> ls_game_over s"
  shows "ls_score (lesson_update keys s) =
    ls_score s + 100 * int (length (hit_pairs (map bullet_update (ls_bullets s))
                                             (fst (enemies_update (ls_enemies s) (ls_rand s)))))"
  using lesson_update_unfold [OF assms, of _ _ keys] by (cases "enemies_update (ls_enemies s) (ls_rand s)") auto

lemma lesson_update_score_step: "\<exists>k. ls_score (lesson_update keys s) = ls_score s + 100 * int k"
proof (cases "ls_game_over s")
  case True
  then show ?thesis by (rule_tac x = 0 in exI) (simp add: lesson_update_def)
next
  case False
  obtain es g where "enemies_update (ls_enemies s) (ls_rand s) = (es, g)" by fastforce
  from lesson_update_unfold [OF False this, of keys] show ?thesis by auto
qed

lemma lesson_frame_score:
  "ls_score (lesson_frame evs keys s) = 0 \<or> (\<exists>k. ls_score (lesson_frame evs keys s) = ls_score s + 100 * int k)"
  using lesson_events_cases [of evs s]
proof (elim disjE exE conjE)
  fix g assume "lesson_events evs s = Inl (lesson_main g)"
  then show ?thesis by (simp add: lesson_frame_def)
next
  fix s' assume "lesson_events evs s = Inr s'" "ls_score s' = ls_score s"
  then show ?thesis using lesson_update_score_step [of keys s'] by (simp add: lesson_frame_def)
qed

text \<open>C22: In every state the lesson game's loop reaches the score is non-negative and a multiple of 100: restarts reset it to 0 and a frame of play only adds 100 per hit.\<close>

theorem lesson_reachable_score:
  "lesson_reachable s \<Longrightarrow> 0 \<le> ls_score s \<and> 100 dvd ls_score s"
proof (induction rule: lesson_reachable.induct)
  case (start g)
  then show ?case by simp
next
  case (frame s evs keys)
  then show ?case using lesson_frame_score [of evs keys s] by auto
qed

text \<open>C27: Every bullet left after a frame of play is inside the window and touches no obstacle.\<close>

theorem lesson_update_bullets_clear:
  assumes "\<not> ls_game_over s" and "b \<in> set (ls_bullets (lesson_update keys s))"
  shows "0 \<le> bl_x b \<and> bl_x b \<le> 800 \<and> 0 \<le> bl_y b \<and> bl_y b \<le> 600 \<and>
         \<not> bullet_blocked (ls_obstacles s) b"
proof -
  obtain es g where "enemies_update (ls_enemies s) (ls_rand s) = (es, g)" by fastforce
  from lesson_update_unfold [OF assms(1) this, of keys] assms(2)
  show ?thesis by (auto simp: is_off_screen_def)
qed

text \<open>C29: From game over the R key always restarts: the frame returns a fresh main() state, with score 0 and a new player, whatever events follow.\<close>

theorem lesson_restart:
  "ls_game_over s \<Longrightarrow> lesson_frame (KEYDOWN K_r # evs) keys s = lesson_main (ls_rand s)"
  by (simp add: lesson_frame_def)

text \<open>C30: The obstacles never affect where the player and the enemies move nor whether the game ends in a frame, although Obstacle's docstring says obstacles block movement.\<close>

theorem lesson_update_ignores_obstacles:
  "ls_player (lesson_update keys (s\<lparr>ls_obstacles := obs\<rparr>)) = ls_player (lesson_update keys s)
   \<and> ls_enemies (lesson_update keys (s\<lparr>ls_obstacles := obs\<rparr>)) = ls_enemies (lesson_update keys s)
   \<and> ls_game_over (lesson_update keys (s\<lparr>ls_obstacles := obs\<rparr>)) = ls_game_over (lesson_update keys s)"
proof (cases "ls_game_over s")
  case True
  then show ?thesis by (simp add: lesson_update_def)
next
  case False
  obtain es g where e: "enemies_update (ls_enemies s) (ls_rand s) = (es, g)" by fastforce
  then have e': "enemies_update (ls_enemies (s\<lparr>ls_obstacles := obs\<rparr>)) (ls_rand (s\<lparr>ls_obstacles := obs\<rparr>)) = (es, g)"
    by simp
  from False have "\<not> ls_game_over (s\<lparr>ls_obstacles := obs\<rparr>)" by simp
  from lesson_update_unfold [OF this e', of keys] lesson_update_unfold [OF False e, of keys]
  show ?thesis by auto
qed

section \<open>Enemies stay in the window\<close>

lemma en_bounce_fields [simp]:
  "en_size (en_advance e) = en_size e" "en_size (en_bounce_x e) = en_size e"
  "en_size (en_bounce_y e) = en_size e" "en_x (en_bounce_y e) = en_x e"
  by (simp_all add: en_advance_def en_bounce_x_def en_bounce_y_def)

lemma en_bounce_x_in: "2 * en_size e \<le> 800 \<Longrightarrow>
  of_int (en_size e) \<le> en_x (en_bounce_x e) \<and> en_x (en_bounce_x e) \<le> of_int (WINDOW_WIDTH_tg - en_size e)"
  by (simp add: en_bounce_x_def)

lemma en_bounce_y_in: "2 * en_size e \<le> 600 \<Longrightarrow>
  of_int (en_size e) \<le> en_y (en_bounce_y e) \<and> en_y (en_bounce_y e) \<le> of_int (WINDOW_HEIGHT_tg - en_size e)"
  by (simp add: en_bounce_y_def)

lemma enemy_update_shape:
  "\<exists>e2 g2. en_size e2 = en_size e \<and> enemy_update e g = (en_bounce_y (en_bounce_x (en_advance e2)), g2)"
  unfolding enemy_update_def Let_def
  by (auto split: prod.split) (rule exI, rule conjI [rotated], rule refl, simp)+

text \<open>C28: Enemy.update leaves an enemy (of radius at most 300) inside the window at its radius from each edge, whatever the random draws.\<close>

theorem enemy_update_in_window:
  assumes "2 * en_size e \<le> 600"
  shows "enemy_in_window (fst (enemy_update e g))"
proof -
  obtain e2 g2 where e2: "en_size e2 = en_size e"
    "enemy_update e g = (en_bounce_y (en_bounce_x (en_advance e2)), g2)"
    using enemy_update_shape by blast
  show ?thesis
    using en_bounce_x_in [of "en_advance e2"] en_bounce_y_in [of "en_bounce_x (en_advance e2)"] assms e2
    by (simp add: enemy_in_window_def)
qed

section \<open>Witnesses\<close>

lemma sqrt_less_of_int:
  fixes r :: real
  assumes "0 \<le> r" shows "sqrt x < r \<longleftrightarrow> x < r\<^sup>2"
proof -
  have "r = sqrt (r\<^sup>2)" using assms by simp
  then have "sqrt x < r \<longleftrightarrow> sqrt x < sqrt (r\<^sup>2)" by simp
  then show ?thesis by (simp only: real_sqrt_less_iff)
qed

theorem lesson_reachable_player_in_window_witness:
  "lesson_reachable (lesson_main wg0) \<and> ltank_in_window (ls_player (lesson_main wg0))
   \<and> ls_enemies (lesson_main wg0) \<noteq> []"
  using lesson_reachable_player_in_window [OF lesson_reachable.start [of wg0]]
  by (simp add: lesson_reachable.start)

theorem lesson_reachable_score_witness:
  "lesson_reachable (lesson_main wg0) \<and> 0 \<le> ls_score (lesson_main wg0) \<and> 100 dvd ls_score (lesson_main wg0)"
  using lesson_reachable_score [OF lesson_reachable.start [of wg0]]
  by (simp add: lesson_reachable.start)

lemma one_bullet_two_enemies:
  "collect_hits [wb 100 100] [we 100 100, we 110 100] = ([0, 0], [0, 1], 200)"
  by (simp add: collect_hits_def bullet_hits_enemy_def check_circle_collision_def wb_def we_def
      new_bullet_def sqrt_less_of_int upt_rec)

lemma hp0: "hit_pairs [wb 0 0] [we 100 0] = []"
  by (simp add: hit_pairs_def bullet_hits_enemy_def check_circle_collision_def wb_def we_def
      new_bullet_def sqrt_less_of_int)

theorem removal_no_overlap_witness:
  "collect_hits [wb 0 0] [we 100 0] = ([], [], 0)
   \<and> wb 0 0 \<in> set (remove_positions [wb 0 0] [])
   \<and> we 100 0 \<in> set (remove_positions [we 100 0] [])
   \<and> \<not> bullet_hits_enemy (wb 0 0) (we 100 0)"
proof -
  have c: "collect_hits [wb 0 0] [we 100 0] = ([], [], 0)"
    by (simp add: collect_hits_pairs hp0)
  have m: "wb 0 0 \<in> set (remove_positions [wb 0 0] [])"
    "we 100 0 \<in> set (remove_positions [we 100 0] [])"
    by (simp_all add: remove_positions_def)
  show ?thesis using removal_no_overlap [OF c m] c m by blast
qed

lemma py_randint_wg0: "py_randint \<lparr>draws = (\<lambda>_. 0), rpos = n\<rparr> a b = (a, \<lparr>draws = (\<lambda>_. 0), rpos = Suc n\<rparr>)"
  by (simp add: py_randint_def random_random_def)

lemma enemy_update_we:
  "enemy_update (we 98 100) \<lparr>draws = (\<lambda>_. 0), rpos = n\<rparr> = ((we 100 100)\<lparr>en_move_timer := 1\<rparr>, \<lparr>draws = (\<lambda>_. 0), rpos = Suc n\<rparr>)"
  by (simp add: enemy_update_def py_randint_wg0 en_advance_def en_bounce_x_def
      en_bounce_y_def we_def radians_def)

lemma bullet_update_wb: "bullet_update (wb x y) = wb (x + 8) y"
  by (simp add: bullet_update_def wb_def new_bullet_def radians_def)

lemma hit_pairs_double:
  "hit_pairs [wb 100 100] [(we 100 100)\<lparr>en_move_timer := 1\<rparr>, (we 100 100)\<lparr>en_move_timer := 1\<rparr>] = [(0, 0), (0, 1)]"
  by (simp add: hit_pairs_def bullet_hits_enemy_def check_circle_collision_def wb_def we_def
      new_bullet_def upt_rec)

theorem lesson_update_score_witness:
  "\<not> ls_game_over (ws [wb 92 100] [we 98 100, we 98 100])
   \<and> ls_score (lesson_update (\<lambda>_. False) (ws [wb 92 100] [we 98 100, we 98 100])) = 200"
  using lesson_update_score [of "ws [wb 92 100] [we 98 100, we 98 100]" "\<lambda>_. False"]
  by (simp add: ws_def wg0_def enemy_update_we bullet_update_wb hit_pairs_double)

lemma enemy_update_we_far:
  "enemy_update (we 790 100) \<lparr>draws = (\<lambda>_. 0), rpos = n\<rparr> =
     ((we 782 100)\<lparr>en_move_timer := 1, en_direction := 180\<rparr>, \<lparr>draws = (\<lambda>_. 0), rpos = Suc n\<rparr>)"
  by (simp add: enemy_update_def py_randint_wg0 en_advance_def en_bounce_x_def
      en_bounce_y_def we_def radians_def)

lemma we_sel [simp]: "en_size (we x y) = 18" "en_x (we x y) = x" "en_y (we x y) = y"
  by (simp_all add: we_def)

theorem enemy_update_in_window_witness:
  "2 * en_size (we 790 100) \<le> 600 \<and> enemy_in_window (fst (enemy_update (we 790 100) wg0))
   \<and> en_x (fst (enemy_update (we 790 100) wg0)) = 782"
  using enemy_update_in_window [of "we 790 100" wg0]
  by (simp add: wg0_def enemy_update_we_far)

theorem check_circle_rect_collision_iff_witness:
  "0 \<le> ob_width (new_obstacle 300 350 20 150) \<and> 0 \<le> ob_height (new_obstacle 300 350 20 150)
   \<and> check_circle_rect_collision 310 347 5 (new_obstacle 300 350 20 150)
   \<and> circle_meets_rect 310 347 5 (new_obstacle 300 350 20 150)"
proof -
  have c: "check_circle_rect_collision 310 347 5 (new_obstacle 300 350 20 150)"
    by (simp add: check_circle_rect_collision_def new_obstacle_def ob_right_def ob_bottom_def
        sqrt_less_of_int)
  have "0 \<le> ob_width (new_obstacle 300 350 20 150)" "0 \<le> ob_height (new_obstacle 300 350 20 150)"
    by (simp_all add: new_obstacle_def)
  with c show ?thesis using check_circle_rect_collision_iff [of "new_obstacle 300 350 20 150" 310 347 5]
    by simp
qed

theorem lesson_restart_witness:
  "ls_game_over ((lesson_main wg0)\<lparr>ls_game_over := True\<rparr>)
   \<and> lesson_frame [KEYDOWN K_r] (\<lambda>_. False) ((lesson_main wg0)\<lparr>ls_game_over := True\<rparr>)
       = lesson_main (ls_rand (lesson_main wg0))"
  using lesson_restart [of "(lesson_main wg0)\<lparr>ls_game_over := True\<rparr>" "[]" "\<lambda>_. False"]
  by simp

lemma bullet_hits_far: "\<not> bullet_hits_enemy (wb 400 100) ((we 100 100)\<lparr>en_move_timer := 1\<rparr>)"
  by (simp add: bullet_hits_enemy_def check_circle_collision_def wb_def we_def new_bullet_def
      sqrt_less_of_int)

lemma ws_sel [simp]:
  "ls_game_over (ws bs es) = False" "ls_bullets (ws bs es) = bs" "ls_enemies (ws bs es) = es"
  "ls_obstacles (ws bs es) = []" "ls_rand (ws bs es) = wg0" "ls_player (ws bs es) = new_ltank 400 300 GREEN"
  by (simp_all add: ws_def)

lemma lesson_update_ws_far:
  "ls_bullets (lesson_update (\<lambda>_. False) (ws [wb 392 100] [we 98 100])) = [wb 400 100]"
proof -
  have e: "enemies_update (ls_enemies (ws [wb 392 100] [we 98 100])) (ls_rand (ws [wb 392 100] [we 98 100]))
      = ([(we 100 100)\<lparr>en_move_timer := 1\<rparr>], \<lparr>draws = (\<lambda>_. 0), rpos = 1\<rparr>)"
    by (simp add: wg0_def enemy_update_we)
  have h: "hit_pairs [wb 400 100] [(we 100 100)\<lparr>en_move_timer := 1\<rparr>] = []"
    using bullet_hits_far by (simp add: hit_pairs_def)
  have "\<not> bullet_blocked [] (wb 400 100)" "\<not> is_off_screen (wb 400 100)"
    by (simp_all add: bullet_blocked_def is_off_screen_def wb_def new_bullet_def)
  with lesson_update_unfold [OF _ e, of "\<lambda>_. False"] show ?thesis
    by (auto simp: bullet_update_wb h remove_positions_def)
qed

theorem lesson_update_bullets_clear_witness:
  "\<not> ls_game_over (ws [wb 392 100] [we 98 100])
   \<and> wb 400 100 \<in> set (ls_bullets (lesson_update (\<lambda>_. False) (ws [wb 392 100] [we 98 100])))
   \<and> \<not> bullet_blocked (ls_obstacles (ws [wb 392 100] [we 98 100])) (wb 400 100)"
proof -
  have "\<not> ls_game_over (ws [wb 392 100] [we 98 100])" "ls_obstacles (ws [wb 392 100] [we 98 100]) = []"
    by (simp_all add: ws_def)
  moreover have "wb 400 100 \<in> set (ls_bullets (lesson_update (\<lambda>_. False) (ws [wb 392 100] [we 98 100])))"
    by (simp only: lesson_update_ws_far) simp
  ultimately show ?thesis
    using lesson_update_bullets_clear [of "ws [wb 392 100] [we 98 100]" "wb 400 100" "\<lambda>_. False"]
    by blast
qed

end
