(* ===== verification/Rendering.thy ===== *)
theory Rendering
  imports Bolo_Game "HOL-Library.Product_Lexorder" "HOL-Library.Multiset"
begin

text \<open>
  The computations inside the engine's drawing code (\<open>src/src/bolo_engine.py\<close>): the
  team colours, the pillbox health square and the base supply disc, the visible tile
  range and the cached terrain surface of \<open>GameMap.render\<close>, the layering order of
  \<open>BoloGame._render\<close> and the overlay choice of \<open>_render_ui\<close>. The pixels themselves
  (pygame surfaces, fonts, blits) are not modelled: each definition returns what the
  code would hand to pygame.
\<close>

section \<open>Colours\<close>

text \<open>\<open>TEAM_COLORS.get(team, (100, 100, 100))\<close>: the dictionary has every team, so the
  default is never used.\<close>

fun team_color :: "team \<Rightarrow> color" where
  "team_color NEUTRAL = (128, 128, 128)"
| "team_color TEAM_1 = (34, 139, 34)"
| "team_color TEAM_2 = (178, 34, 34)"
| "team_color TEAM_3 = (65, 105, 225)"
| "team_color TEAM_4 = (218, 165, 32)"

text \<open>pygame accepts a colour whose three components lie in \<open>0..255\<close> and raises
  \<open>ValueError\<close> otherwise.\<close>

definition valid_rgb :: "int \<times> int \<times> int \<Rightarrow> bool" where
  "valid_rgb c \<longleftrightarrow> (case c of (r, g, b) \<Rightarrow> 0 \<le> r \<and> r \<le> 255 \<and> 0 \<le> g \<and> g \<le> 255 \<and> 0 \<le> b \<and> b \<le> 255)"

definition rgb :: "color \<Rightarrow> int \<times> int \<times> int" where
  "rgb c = (case c of (r, g, b) \<Rightarrow> (int r, int g, int b))"

section \<open>Entity drawing\<close>

text \<open>
  \<open>Pillbox.draw\<close>: nothing for an inactive pillbox; otherwise the inner square of
  half-width \<open>int(size * health / PILLBOX_MAX_HEALTH)\<close>, drawn when positive.
\<close>

definition pillbox_inner_size :: "pillbox \<Rightarrow> int option" where
  "pillbox_inner_size p =
     (if \<not> pb_active p then None
      else (let health_ratio = of_int (pb_health p) / of_int PILLBOX_MAX_HEALTH;
                inner_size = py_int (of_int (pb_size p) * health_ratio)
            in if inner_size > 0 then Some inner_size else None))"

text \<open>
  \<open>Base.draw\<close>: the supply disc of radius \<open>int(size * 0.5 * supply_level)\<close>, where
  \<open>supply_level = (shells + mines + armor) / 68\<close> (the code's comment calls 68 the
  maximum total), drawn when positive.
\<close>

definition base_indicator_size :: "base \<Rightarrow> int option" where
  "base_indicator_size b =
     (let supply_level = of_int (bs_shells b + bs_mines b + bs_armor b) / 68;
          indicator_size = py_int (of_int (bs_size b) * 0.5 * supply_level)
      in if indicator_size > 0 then Some indicator_size else None)"

section \<open>The map\<close>

text \<open>
  \<open>GameMap.render\<close>: the range of tile columns and rows it computes for the viewport
  (\<open>start\<close> inclusive, \<open>end\<close> exclusive). The blit that follows copies the viewport
  rectangle of the cached surface and does not read these bounds.
\<close>

definition visible_tiles :: "game_map \<Rightarrow> real \<times> real \<Rightarrow> int \<times> int \<Rightarrow> (int \<times> int) \<times> (int \<times> int)" where
  "visible_tiles m cam vp =
     (let start_x = max 0 (py_int (of_int \<lfloor>fst cam / of_int TILE_SIZE\<rfloor>));
          start_y = max 0 (py_int (of_int \<lfloor>snd cam / of_int TILE_SIZE\<rfloor>));
          end_x = min (map_width m) (start_x + fst vp div TILE_SIZE + 2);
          end_y = min (map_height m) (start_y + snd vp div TILE_SIZE + 2)
      in ((start_x, end_x), (start_y, end_y)))"

text \<open>
  \<open>_rebuild_terrain_surface\<close>: every tile is filled with its terrain colour and outlined
  with that colour darkened by 10 in each component, row by row.
\<close>

definition grid_line_color :: "color \<Rightarrow> int \<times> int \<times> int" where
  "grid_line_color c = (case c of (r, g, b) \<Rightarrow> (int r - 10, int g - 10, int b - 10))"

definition terrain_surface :: "game_map \<Rightarrow> ((int \<times> int \<times> int) \<times> (int \<times> int \<times> int)) list" where
  "terrain_surface m =
     concat (map (\<lambda>y. map (\<lambda>x. let terrain = terrain_data (tiles m ! y ! x)
                               in (rgb (tcolor terrain), grid_line_color (tcolor terrain)))
                    [0..<nat (map_width m)])
               [0..<nat (map_height m)])"

section \<open>The frame\<close>

text \<open>
  \<open>BoloGame._render\<close> draws the entities in the order of
  \<open>sorted(entities, key=lambda e: (isinstance(e, Tank), isinstance(e, Shell)))\<close>.
  Python's \<open>sorted\<close> is stable and compares the key pairs lexicographically with
  \<open>False < True\<close>; \<^const>\<open>sort_key\<close> is a stable sort, so it gives the same list.
\<close>

fun is_tank :: "entity \<Rightarrow> bool" where
  "is_tank (Tank _) = True"
| "is_tank _ = False"

fun is_shell :: "entity \<Rightarrow> bool" where
  "is_shell (Shell _) = True"
| "is_shell _ = False"

definition render_key :: "entity \<Rightarrow> bool \<times> bool" where
  "render_key e = (is_tank e, is_shell e)"

definition render_order :: "game_state \<Rightarrow> entity list" where
  "render_order s = sort_key render_key (entities s)"

text \<open>The reference order: other entities, then shells, then tanks, each in list order.\<close>

definition render_layers :: "entity list \<Rightarrow> entity list" where
  "render_layers xs = filter (\<lambda>e. \<not> is_tank e \<and> \<not> is_shell e) xs @ filter is_shell xs @ filter is_tank xs"

text \<open>
  \<open>_render_ui\<close>: nothing without a player; the resource line when the player is
  alive; the game-over overlay when the player is dead, else the pause overlay when
  paused.
\<close>

datatype overlay = No_Overlay | Game_Over_Overlay | Pause_Overlay

definition render_ui :: "game_state \<Rightarrow> (resources option \<times> overlay) option" where
  "render_ui s =
     (case player_tank s of
        None \<Rightarrow> None
      | Some p \<Rightarrow> Some (if alive p then Some (tk_res p) else None,
                        if \<not> alive p then Game_Over_Overlay
                        else if paused s then Pause_Overlay else No_Overlay))"

text \<open>
  The stock invariant every base keeps: within the regeneration caps, of size 16.
  \<open>bases_ok\<close> asks it of every base of the live and the pending list.
\<close>

definition base_inv :: "entity \<Rightarrow> bool" where
  "base_inv e = (case e of Base b \<Rightarrow> base_ok b \<and> bs_size b = 16 | _ \<Rightarrow> True)"

definition bases_ok :: "game_state \<Rightarrow> bool" where
  "bases_ok s \<longleftrightarrow> list_all base_inv (entities s) \<and> list_all base_inv (pending_entities s)"

section \<open>Layering\<close>

lemma render_key_cases:
  "render_key e = (False, False) \<longleftrightarrow> \<not> is_tank e \<and> \<not> is_shell e"
  "render_key e = (False, True) \<longleftrightarrow> is_shell e"
  "render_key e = (True, False) \<longleftrightarrow> is_tank e"
  "render_key e \<noteq> (True, True)"
  by (cases e; simp add: render_key_def)+

lemma shell_not_tank: "is_shell e \<Longrightarrow> \<not> is_tank e"
  by (cases e) simp_all

lemma render_layers_mset: "mset (render_layers xs) = mset xs"
  by (induction xs) (auto simp: render_layers_def dest: shell_not_tank)

lemma render_layers_keys:
  "render_layers xs = filter (\<lambda>x. render_key x = (False, False)) xs
     @ filter (\<lambda>x. render_key x = (False, True)) xs @ filter (\<lambda>x. render_key x = (True, False)) xs"
  by (simp add: render_layers_def render_key_cases)

lemma filter_three_keys:
  assumes "\<forall>x. f x \<in> {d1, d2, d3}" "distinct [d1, d2, d3]"
  shows "filter (\<lambda>x. f k = f x) (filter (\<lambda>x. f x = d1) xs @ filter (\<lambda>x. f x = d2) xs @ filter (\<lambda>x. f x = d3) xs)
         = filter (\<lambda>x. f k = f x) xs"
proof -
  have one: "filter (\<lambda>x. f x = a \<and> b = f x) ys = (if a = b then filter (\<lambda>x. b = f x) ys else [])"
    for a b ys by (induction ys) auto
  have "f k = d1 \<or> f k = d2 \<or> f k = d3" using assms(1) by blast
  then show ?thesis using assms(2) by (elim disjE) (auto simp: filter_filter one)
qed

lemma render_layers_filter:
  "filter (\<lambda>x. render_key k = render_key x) (render_layers xs) = filter (\<lambda>x. render_key k = render_key x) xs"
proof -
  have "\<forall>x. render_key x \<in> {(False, False), (False, True), (True, False)}"
  proof
    fix x show "render_key x \<in> {(False, False), (False, True), (True, False)}"
      by (cases x) (simp_all add: render_key_def)
  qed
  then show ?thesis unfolding render_layers_keys by (rule filter_three_keys) simp
qed

lemma render_layers_sorted: "sorted (map render_key (render_layers xs))"
proof -
  have r: "map f (filter (\<lambda>x. f x = c) ys) = replicate (length (filter (\<lambda>x. f x = c) ys)) c"
    for f :: "entity \<Rightarrow> bool \<times> bool" and c ys by (induction ys) auto
  show ?thesis unfolding render_layers_keys
    by (auto simp: r sorted_append set_replicate_conv_if less_eq_prod_def)
qed

text \<open>C35: BoloGame._render draws the entities sorted stably by (isinstance Tank, isinstance Shell): first every other entity, then the shells, then the tanks, each group in list order.\<close>

theorem render_order_layers:
  "render_order s =
     filter (\<lambda>e. \<not> is_tank e \<and> \<not> is_shell e) (entities s)
     @ filter is_shell (entities s) @ filter is_tank (entities s)"
proof -
  have "sort_key render_key (entities s) = render_layers (entities s)"
    by (rule properties_for_sort_key) (simp_all add: render_layers_mset render_layers_filter render_layers_sorted)
  then show ?thesis by (simp add: render_order_def render_layers_def)
qed

section \<open>Indicators and colours\<close>

lemma base_indicator_bounded:
  assumes "base_ok b" "bs_size b = 16"
  shows "bs_shells b + bs_mines b + bs_armor b \<le> 76
    \<and> (\<forall>n. base_indicator_size b = Some n \<longrightarrow> 1 \<le> n \<and> n \<le> 8)"
proof -
  let ?t = "bs_shells b + bs_mines b + bs_armor b"
  have t: "0 \<le> ?t" "?t \<le> 76" using assms(1) by (auto simp: base_ok_def)
  let ?v = "of_int (bs_size b) * 0.5 * (of_int ?t / 68) :: real"
  have v: "0 \<le> ?v" "?v < 9" using t assms(2) by (simp_all add: divide_simps)
  have "\<lfloor>?v\<rfloor> \<le> 8" using v(2) by (simp add: floor_le_iff)
  then show ?thesis using t v(1) by (auto simp: base_indicator_size_def Let_def)
qed

text \<open>C37: GameMap._rebuild_terrain_surface only hands pygame valid colours: every fill colour and every grid colour (the terrain colour darkened by 10) has components in 0..255, so the rebuild cannot raise ValueError on any map.\<close>

theorem terrain_surface_colors_valid:
  "(c, g) \<in> set (terrain_surface m) \<Longrightarrow> valid_rgb c \<and> valid_rgb g"
proof -
  have "valid_rgb (rgb (tcolor (terrain_data t))) \<and> valid_rgb (grid_line_color (tcolor (terrain_data t)))" for t
    by (cases t) (simp_all add: valid_rgb_def rgb_def grid_line_color_def)
  then show "(c, g) \<in> set (terrain_surface m) \<Longrightarrow> valid_rgb c \<and> valid_rgb g"
    by (auto simp: terrain_surface_def Let_def)
qed

theorem terrain_surface_colors_valid_witness:
  "(((50, 120, 50), (40, 110, 40)) :: (int \<times> int \<times> int) \<times> (int \<times> int \<times> int))
      \<in> set (terrain_surface (new_game_map 1 1))
   \<and> valid_rgb (50, 120, 50) \<and> valid_rgb (40, 110, 40)"
proof -
  have h: "(((50, 120, 50), (40, 110, 40)) :: (int \<times> int \<times> int) \<times> (int \<times> int \<times> int))
      \<in> set (terrain_surface (new_game_map 1 1))"
    by (simp add: terrain_surface_def new_game_map_def rgb_def grid_line_color_def)
  from h terrain_surface_colors_valid [OF h] show ?thesis by simp
qed

lemma pillbox_inner_size_bounded:
  assumes "pb_ok p" "0 \<le> pb_size p" "pillbox_inner_size p = Some n"
  shows "1 \<le> n \<and> n \<le> pb_size p"
proof -
  have h: "0 \<le> pb_health p" "pb_health p \<le> 16" using assms(1) by (simp_all add: pb_ok_def)
  let ?v = "of_int (pb_size p) * (of_int (pb_health p) / of_int PILLBOX_MAX_HEALTH) :: real"
  have "real_of_int (pb_size p) * real_of_int (pb_health p) \<le> real_of_int (pb_size p) * 16"
    using h assms(2) by (intro mult_left_mono) simp_all
  then have "0 \<le> ?v" "?v \<le> of_int (pb_size p)"
    using h assms(2) by (simp_all add: divide_simps)
  then show ?thesis using assms(3) by (auto simp: pillbox_inner_size_def Let_def split: if_splits
      intro: floor_le_iff [THEN iffD2])
qed

section \<open>Regeneration fills a base past the drawn maximum\<close>

lemma base_update_funpow_ok: "base_ok b \<Longrightarrow> base_ok ((base_update ^^ n) b)"
  by (induction n) (simp_all add: base_update_ok)

lemma base_regen_cycles:
  assumes "bs_regen_timer b = BASE_RESUPPLY_RATE" "base_ok b"
  shows "(base_update ^^ (m * nat BASE_RESUPPLY_RATE)) b =
     b\<lparr>bs_shells := min 40 (bs_shells b + int m), bs_mines := min 20 (bs_mines b + int m),
       bs_armor := min 16 (bs_armor b + int m)\<rparr>"
  using assms
proof (induction m arbitrary: b)
  case 0
  then show ?case by (simp add: base_ok_def)
next
  case (Suc m)
  have r: "nat BASE_RESUPPLY_RATE = Suc 1199" by simp
  have one: "(base_update ^^ nat BASE_RESUPPLY_RATE) b =
      b\<lparr>bs_regen_timer := BASE_RESUPPLY_RATE, bs_shells := min 40 (bs_shells b + 1),
        bs_mines := min 20 (bs_mines b + 1), bs_armor := min 16 (bs_armor b + 1)\<rparr>"
    unfolding r by (rule base_regenerates_on_expiry) (use Suc.prems(1) in simp)
  have ok1: "base_ok ((base_update ^^ nat BASE_RESUPPLY_RATE) b)"
    by (rule base_update_funpow_ok [OF Suc.prems(2)])
  have "(base_update ^^ (Suc m * nat BASE_RESUPPLY_RATE)) b =
      (base_update ^^ (m * nat BASE_RESUPPLY_RATE)) ((base_update ^^ nat BASE_RESUPPLY_RATE) b)"
  proof -
    have "Suc m * nat BASE_RESUPPLY_RATE = m * nat BASE_RESUPPLY_RATE + nat BASE_RESUPPLY_RATE" by simp
    then show ?thesis by (simp only: funpow_add o_apply)
  qed
  also have "\<dots> = (b\<lparr>bs_regen_timer := BASE_RESUPPLY_RATE, bs_shells := min 40 (bs_shells b + 1),
        bs_mines := min 20 (bs_mines b + 1), bs_armor := min 16 (bs_armor b + 1)\<rparr>)
      \<lparr>bs_shells := min 40 (min 40 (bs_shells b + 1) + int m), bs_mines := min 20 (min 20 (bs_mines b + 1) + int m),
       bs_armor := min 16 (min 16 (bs_armor b + 1) + int m)\<rparr>"
    using ok1 unfolding one by (subst Suc.IH) simp_all
  finally show ?case using Suc.prems by (simp add: min_def)
qed

lemma base_full_stock:
  "(base_update ^^ (20 * nat BASE_RESUPPLY_RATE)) (new_base nid x y tm) =
     (new_base nid x y tm)\<lparr>bs_shells := 40, bs_mines := 20, bs_armor := 16\<rparr>"
  using base_regen_cycles [of "new_base nid x y tm" 20] new_base_ok [of nid x y tm]
  by (simp add: new_base_def)

lemma full_base_indicator:
  "base_ok ((base_update ^^ (20 * nat BASE_RESUPPLY_RATE)) (new_base 0 0 0 TEAM_1))
   \<and> bs_size ((base_update ^^ (20 * nat BASE_RESUPPLY_RATE)) (new_base 0 0 0 TEAM_1)) = 16
   \<and> bs_shells ((base_update ^^ (20 * nat BASE_RESUPPLY_RATE)) (new_base 0 0 0 TEAM_1))
     + bs_mines ((base_update ^^ (20 * nat BASE_RESUPPLY_RATE)) (new_base 0 0 0 TEAM_1))
     + bs_armor ((base_update ^^ (20 * nat BASE_RESUPPLY_RATE)) (new_base 0 0 0 TEAM_1)) = 76
   \<and> base_indicator_size ((base_update ^^ (20 * nat BASE_RESUPPLY_RATE)) (new_base 0 0 0 TEAM_1)) = Some 8"
proof -
  let ?b = "(base_update ^^ (20 * nat BASE_RESUPPLY_RATE)) (new_base 0 0 0 TEAM_1)"
  have ok: "base_ok ?b" by (rule base_update_funpow_ok [OF new_base_ok])
  have sz: "bs_size ?b = 16" by (simp only: base_full_stock) (simp add: new_base_def)
  have "bs_shells ?b + bs_mines ?b + bs_armor ?b = 76"
    "base_indicator_size ?b = Some 8"
    by (simp_all only: base_full_stock) (simp_all add: new_base_def base_indicator_size_def)
  with ok sz base_indicator_bounded [OF ok sz] show ?thesis by simp
qed

section \<open>Culling and the overlay\<close>

lemma visible_tiles_cover:
  assumes "visible_tiles m (cx, cy) (vw, vh) = ((sx, ex), (sy, ey))"
    and "0 \<le> tx" "tx < map_width m"
    and "cx < of_int ((tx + 1) * TILE_SIZE)" "of_int (tx * TILE_SIZE) < cx + of_int vw"
  shows "0 \<le> sx \<and> ex \<le> map_width m \<and> sx \<le> tx \<and> tx < ex"
proof -
  have sx: "sx = max 0 \<lfloor>cx / 16\<rfloor>" and ex: "ex = min (map_width m) (sx + vw div 16 + 2)"
    using assms(1) by (auto simp: visible_tiles_def Let_def)
  have "cx / 16 < of_int tx + 1" using assms(4) by (simp add: field_simps)
  then have "\<lfloor>cx / 16\<rfloor> \<le> tx" by linarith
  moreover have "of_int tx < cx / 16 + of_int vw / 16" using assms(5) by (simp add: field_simps)
  moreover have "of_int vw / 16 < of_int (vw div 16) + (1 :: real)"
  proof -
    have "vw < 16 * (vw div 16) + 16" by linarith
    then show ?thesis by (simp add: field_simps)
  qed
  moreover have "cx / 16 < of_int \<lfloor>cx / 16\<rfloor> + 1" by linarith
  ultimately show ?thesis using assms(2,3) sx ex by linarith
qed

lemma render_ui_dead_player:
  "player_tank s = Some p \<Longrightarrow> \<not> alive p \<Longrightarrow> render_ui s = Some (None, Game_Over_Overlay)"
  by (simp add: render_ui_def)

section \<open>Every base of a reachable state keeps its stock invariant\<close>

lemma base_inv_simps [simp]:
  "base_inv (Tank t)" "base_inv (Shell sh)" "base_inv (Mine mn)" "base_inv (Pillbox p)"
  "base_inv (Base b) \<longleftrightarrow> base_ok b \<and> bs_size b = 16"
  by (simp_all add: base_inv_def)

lemma bases_ok_set_entity:
  "bases_ok s \<Longrightarrow> (i < length (entities s) \<Longrightarrow> base_inv e) \<Longrightarrow> bases_ok (set_entity i e s)"
  by (cases "i < length (entities s)")
    (simp_all add: bases_ok_def set_entity_def list_all_list_update list_update_beyond)

lemma bases_ok_set_nonbase [intro]:
  "bases_ok s \<Longrightarrow> base_inv e \<Longrightarrow> bases_ok (set_entity i e s)"
  by (rule bases_ok_set_entity) simp_all

lemma bases_ok_add_entity [intro]: "bases_ok s \<Longrightarrow> base_inv e \<Longrightarrow> bases_ok (add_entity e s)"
  by (simp add: bases_ok_def add_entity_def)

lemma bases_ok_spawn_shell [intro]: "bases_ok s \<Longrightarrow> bases_ok (spawn (map_option Shell so) s)"
  by (cases so) (auto simp: spawn_def)

lemma bases_ok_spawn_mine [intro]: "bases_ok s \<Longrightarrow> bases_ok (spawn (map_option Mine mo) s)"
  by (cases mo) (auto simp: spawn_def)

lemma bases_ok_fields [simp]:
  "bases_ok (s\<lparr>rand := g\<rparr>) = bases_ok s" "bases_ok (s\<lparr>next_id := n\<rparr>) = bases_ok s"
  "bases_ok (s\<lparr>game_map := m\<rparr>) = bases_ok s" "bases_ok (s\<lparr>paused := p\<rparr>) = bases_ok s"
  "bases_ok (s\<lparr>camera_x := cx, camera_y := cy\<rparr>) = bases_ok s"
  by (simp_all add: bases_ok_def)

lemma bases_ok_fold:
  "(\<And>i s. bases_ok s \<Longrightarrow> bases_ok (f i s)) \<Longrightarrow> bases_ok s \<Longrightarrow> bases_ok (fold f is s)"
  by (rule fold_invariant [where Q = "\<lambda>_. True"]) simp_all

lemma resupply_tank_base_ok: "base_ok b \<Longrightarrow> base_ok (fst (resupply_tank b t))"
  by (auto simp: resupply_tank_def base_ok_def Let_def split: if_splits)

lemma base_capture_ok: "base_ok b \<Longrightarrow> base_ok (base_capture b tm)"
  by (simp add: base_capture_def base_ok_def)

lemma entities_nth_base_inv: "bases_ok s \<Longrightarrow> entities s ! i = Base b \<Longrightarrow> i < length (entities s) \<Longrightarrow> base_ok b \<and> bs_size b = 16"
  by (auto simp: bases_ok_def list_all_length)

lemma bases_ok_set_base:
  assumes "bases_ok s" "entities s ! i = Base b" "base_ok b \<Longrightarrow> base_ok b'" "bs_size b' = bs_size b"
  shows "bases_ok (set_entity i (Base b') s)"
  using assms entities_nth_base_inv [OF assms(1,2)] by (intro bases_ok_set_entity) simp_all

lemma entity_update_bases_ok: "bases_ok s \<Longrightarrow> bases_ok (entity_update i s)"
proof (cases "entities s ! i")
  case (Base b)
  assume ok: "bases_ok s"
  have "bases_ok (set_entity i (Base (base_update b)) s)"
    by (rule bases_ok_set_base [OF ok Base]) (simp_all add: base_update_ok)
  with Base show ?thesis by (simp add: entity_update_def)
qed (auto simp: entity_update_def Let_def intro!: bases_ok_set_nonbase bases_ok_add_entity
      split: prod.split option.split)

lemma shell_vs_tank_bases_ok: "bases_ok s \<Longrightarrow> bases_ok (shell_vs_tank i s)"
  by (auto simp: shell_vs_tank_def intro!: bases_ok_set_nonbase split: entity.split option.split)

lemma shell_vs_pillbox_bases_ok: "bases_ok s \<Longrightarrow> bases_ok (shell_vs_pillbox i s)"
  by (auto simp: shell_vs_pillbox_def intro!: bases_ok_set_nonbase split: entity.split option.split)

lemma tank_vs_mine_bases_ok: "bases_ok s \<Longrightarrow> bases_ok (tank_vs_mine i s)"
  by (auto simp: tank_vs_mine_def Let_def intro!: bases_ok_set_nonbase split: entity.split option.split prod.split)

lemma tank_vs_base_at_bases_ok: "bases_ok s \<Longrightarrow> bases_ok (tank_vs_base_at i j s)"
proof -
  assume ok: "bases_ok s"
  show ?thesis
  proof (cases "\<exists>t b. entities s ! i = Tank t \<and> entities s ! j = Base b")
    case False
    with ok show ?thesis by (auto simp: tank_vs_base_at_def split: entity.split)
  next
    case True
    then obtain t b where tb: "entities s ! i = Tank t" "entities s ! j = Base b" by blast
    have r: "bases_ok (set_entity j (Base (fst (resupply_tank b t))) s)"
      by (rule bases_ok_set_base [OF ok tb(2)]) (simp_all add: resupply_tank_base_ok)
    have c: "bases_ok (set_entity j (Base (base_capture b tm)) s)" for tm
      by (rule bases_ok_set_base [OF ok tb(2)]) (simp add: base_capture_ok, simp add: base_capture_def)
    show ?thesis
      using r c tb ok by (auto simp: tank_vs_base_at_def split: prod.split)
  qed
qed

lemma tank_vs_base_bases_ok: "bases_ok s \<Longrightarrow> bases_ok (tank_vs_base i s)"
  by (auto simp: tank_vs_base_def intro: bases_ok_fold tank_vs_base_at_bases_ok split: entity.split)

lemma collision_pass_bases_ok:
  "(\<And>i s. bases_ok s \<Longrightarrow> bases_ok (f i s)) \<Longrightarrow> bases_ok s \<Longrightarrow> bases_ok (collision_pass f s)"
  unfolding collision_pass_def by (rule bases_ok_fold)

lemma game_update_bases_ok: "bases_ok s \<Longrightarrow> bases_ok (game_update s)"
proof -
  assume ok: "bases_ok s"
  let ?s1 = "s\<lparr>entities := entities s @ pending_entities s, pending_entities := []\<rparr>"
  have s1: "bases_ok ?s1" using ok by (simp add: bases_ok_def)
  have s2: "bases_ok (update_all ?s1)"
    unfolding update_all_def by (rule bases_ok_fold [OF entity_update_bases_ok s1])
  have s3: "bases_ok (process_collisions (update_all ?s1))"
    unfolding process_collisions_def
    by (intro collision_pass_bases_ok shell_vs_tank_bases_ok shell_vs_pillbox_bases_ok
        tank_vs_mine_bases_ok tank_vs_base_bases_ok s2)
  then have s4: "bases_ok (remove_dead_entities (process_collisions (update_all ?s1)))"
    by (simp add: bases_ok_def remove_dead_entities_def list_all_iff)
  have cam: "bases_ok (update_camera x) = bases_ok x" for x
    by (simp add: update_camera_def bases_ok_def Let_def split: option.split)
  show ?thesis using ok s4 cam by (simp add: game_update_def Let_def)
qed

lemma setup_game_bases_ok: "bases_ok s \<Longrightarrow> setup_game s = Inr s' \<Longrightarrow> bases_ok s'"
  by (auto simp: setup_game_def py_bind_def Let_def bases_ok_def new_base_ok list_all_iff
      split: sum.splits prod.splits) (simp_all add: new_base_def)

lemma new_game_bases_ok: "new_game nid g = Inr s \<Longrightarrow> bases_ok s"
  by (rule setup_game_bases_ok [of "new_game_state nid g"])
    (simp_all add: new_game_def bases_ok_def new_game_state_def)

lemma handle_keydown_bases_ok: "bases_ok s \<Longrightarrow> handle_keydown k s = Inr s' \<Longrightarrow> bases_ok s'"
  by (auto simp: handle_keydown_def new_game_bases_ok
      intro!: bases_ok_set_nonbase bases_ok_spawn_shell bases_ok_spawn_mine
      split: if_splits option.splits entity.splits prod.splits)

lemma player_moves_bases_ok: "bases_ok s \<Longrightarrow> bases_ok (player_moves keys s)"
  by (auto simp: player_moves_def split: option.split entity.split)

lemma simple_enemy_ai_bases_ok: "bases_ok s \<Longrightarrow> bases_ok (simple_enemy_ai i s)"
  by (auto simp: simple_enemy_ai_def Let_def intro!: bases_ok_set_nonbase bases_ok_spawn_shell
      split: option.split entity.split prod.split)

lemma enemy_ai_bases_ok: "bases_ok s \<Longrightarrow> bases_ok (enemy_ai i s)"
  by (simp add: enemy_ai_def simple_enemy_ai_bases_ok split: entity.split)

lemma bolo_update_bases_ok: "bases_ok s \<Longrightarrow> bases_ok (bolo_update keys s)"
  by (simp add: bolo_update_def Let_def game_update_bases_ok bases_ok_fold enemy_ai_bases_ok
      player_moves_bases_ok)

lemma bolo_reachable_bases_ok: "bolo_reachable s \<Longrightarrow> bases_ok s"
  by (induction rule: bolo_reachable.induct)
    (auto intro: new_game_bases_ok handle_keydown_bases_ok bolo_update_bases_ok)

section \<open>The supply disc of the bases on screen\<close>

lemma new_game_first_base:
  "new_game nid g = Inr s \<Longrightarrow> Base (new_base (nid + 4) 200 200 TEAM_1) \<in> set (entities s)"
  by (auto simp: new_game_def setup_game_def py_bind_def Let_def new_game_state_def
      split: sum.splits prod.splits)

text \<open>C36: In every reachable state of the engine each base of the live list holds at most 76 units of stock (its regeneration caps, which Base.update, Base.resupply_tank and capture preserve through every frame and key press), and the supply disc Base.draw computes for it has radius between 1 and 8, half the base's size, although supply_level exceeds 1 above the total 68 the code assumes.\<close>

theorem base_indicator_reachable:
  assumes "bolo_reachable s" "Base b \<in> set (entities s)"
  shows "bs_shells b + bs_mines b + bs_armor b \<le> 76
    \<and> (\<forall>n. base_indicator_size b = Some n \<longrightarrow> 1 \<le> n \<and> n \<le> 8)"
proof -
  have "base_ok b" "bs_size b = 16"
    using bolo_reachable_bases_ok [OF assms(1)] assms(2) by (auto simp: bases_ok_def list_all_iff)
  then show ?thesis by (rule base_indicator_bounded)
qed

theorem base_indicator_reachable_witness:
  "\<exists>s. new_game 0 \<lparr>draws = \<lambda>_. 0.5, rpos = 0\<rparr> = Inr s \<and> bolo_reachable s
     \<and> Base (new_base 4 200 200 TEAM_1) \<in> set (entities s)
     \<and> base_indicator_size (new_base 4 200 200 TEAM_1) = Some 4"
proof -
  obtain s where s: "new_game 0 \<lparr>draws = \<lambda>_. 0.5, rpos = 0\<rparr> = Inr s" using new_game_total by blast
  then have r: "bolo_reachable s" by (rule bolo_reachable.start)
  have b: "Base (new_base 4 200 200 TEAM_1) \<in> set (entities s)"
    using new_game_first_base [OF s] by simp
  have "base_indicator_size (new_base 4 200 200 TEAM_1) = Some 4"
    by (simp add: base_indicator_size_def new_base_def)
  with s r b base_indicator_reachable [OF r b] show ?thesis by blast
qed

end
