(* ===== verification/Spec2Isabelle.thy ===== *)
theory Spec2Isabelle
  imports Bolo_Game Collisions Entity_Base Lesson_Game Enums Rendering
begin

text \<open>
  \<^bold>\<open>A verification development of bring-back-BOLO.\<close>

  The repository holds three programs that share no code at run time.
  \<^item> The engine, \<open>src/src/bolo_engine.py\<close>: the configuration (\<open>Config\<close>,
    \<open>TileType\<close>, \<open>TERRAIN_DATA\<close>, \<open>Team\<close>), the entity classes (\<open>Entity\<close>, \<open>Tank\<close>,
    \<open>Shell\<close>, \<open>Mine\<close>, \<open>Pillbox\<close>, \<open>Base\<close>), the map (\<open>GameMap\<close>), the frame
    pipeline (\<open>GameState\<close>: merge the pending entities, update every entity, four
    collision passes, purge the dead, move the camera) and the controller
    (\<open>BoloGame\<close>: setup, key presses, held keys, the enemy AI).
  \<^item> The modular package under \<open>src/src\<close>: \<open>config.py\<close> (frozen dataclasses of
    settings, the palette, the \<open>TERRAIN\<close> table), \<open>enums.py\<close> and the abstract
    \<open>entities/base_entity.py\<close>. The engine imports none of them.
  \<^item> The lesson game \<open>src/lesson/tank_game.py\<close>: one tank, bullets, bouncing enemies,
    obstacles and the loop of \<open>main()\<close>.

  \<^bold>\<open>Theories.\<close>
  \<^item> \<open>Bolo_Prelude\<close>: the Python runtime the code relies on. \<open>IndexError\<close> is the
    value \<open>Inl IndexError\<close> of \<open>py_error + 'a\<close>. Floats are reals and ints are
    integers. \<open>int()\<close> of a float truncates towards zero. \<open>random\<close> is a
    stream of draws \<open>rng\<close> threaded through the state.
    It also holds the key codes and the nearest-element and first-match loops.
  \<^item> \<open>Bolo_Config\<close>, \<open>Terrain\<close>: \<open>Config\<close>, the terrain table, \<open>GameMap\<close> with
    \<open>get_tile\<close>, \<open>set_tile\<close>, \<open>damage_tile\<close> and \<open>generate_random\<close>.
  \<^item> \<open>Entities\<close>: each entity class is an extensible record. The entity list is a
    \<open>datatype\<close> over the five classes. \<open>Entity._next_id\<close> is an explicit counter.
  \<^item> \<open>Tank_Ops\<close>, \<open>Shell_Mine\<close>, \<open>Pillbox_Ops\<close>, \<open>Base_Ops\<close>: one definition per
    method. A method that constructs an entity takes the counter and returns it
    advanced.
  \<^item> \<open>Game_State\<close>: \<open>GameState.update\<close> as \<open>game_update\<close>, composed of
    \<open>update_all\<close>, the passes of \<open>process_collisions\<close>, \<open>remove_dead_entities\<close>
    and \<open>update_camera\<close>. Each pass is a fold over the list indices and mutates
    slots in place, as the Python loops do.
  \<^item> \<open>Bolo_Game\<close>: \<open>BoloGame\<close> as \<open>setup_game\<close>, \<open>handle_keydown\<close>,
    \<open>bolo_update\<close>, and the reachable states \<open>bolo_reachable\<close> (a new game, then any
    interleaving of key presses and frames).
  \<^item> \<open>Collisions\<close>: the lemmas on the collision passes.
  \<^item> \<open>Rendering\<close>: what the engine's drawing code computes before it calls
    pygame: \<open>TEAM_COLORS\<close>, the pillbox health square, the base supply disc, the
    visible tile range and the terrain surface colours of \<open>GameMap\<close>, the layering
    order of \<open>_render\<close> (a stable \<^const>\<open>sort_key\<close>, as Python's \<open>sorted\<close> is) and the
    overlay of \<open>_render_ui\<close>.
  \<^item> \<open>Enums\<close>, \<open>Modular_Config\<close>, \<open>Entity_Base\<close>: the modular package.
  \<^item> \<open>Lesson_Game\<close>: the lesson game. Its \<open>main()\<close> is split into \<open>lesson_main\<close>
    (initialisation), \<open>lesson_events\<close> (the event loop, where \<open>return main()\<close>
    is \<open>Inl\<close> of a fresh state), \<open>lesson_update\<close> (the \<open>if not game_over\<close>
    block) and \<open>lesson_reachable\<close>.

  \<^bold>\<open>What the lemmas show.\<close>
  \<^item> Ids: entity ids stay distinct and below the counter in every reachable state of
    the engine. A frame adds to the live list only the pending entities, and the new
    pending list holds exactly the entities the frame constructed.
  \<^item> Functional behaviour: the pillbox targets the nearest enemy in range. A shell
    damages exactly the first tank it hits. Resupply conserves stock, keeps every
    resource within its bounds, and moves the amounts \<open>config.py\<close> names.
  \<^item> The map: inside the bounds \<open>get_tile\<close> returns what \<open>set_tile\<close> wrote, and
    writing back what was read changes only the dirty flag. A cell stops changing
    after two calls of \<open>damage_tile\<close>. A detonated mine leaves a crater.
  \<^item> Invariants: invariants of the pillbox and the tank resources hold under any
    sequence of their operations. A shell dies within its lifetime.
  \<^item> Findings: a base held by a team is never lost, because \<open>take_damage\<close> has no
    caller. The camera is pinned at the origin. \<open>game_over\<close> is never set. A paused
    game still fires. A tank on deep water cannot move, even with a boat.
  \<^item> Rendering:
    \<^item> the entities are drawn as the other entities, then the shells, then the tanks;
    \<^item> the terrain surface never passes pygame an invalid colour;
    \<^item> every base of every reachable state keeps its stock within the regeneration
      caps, so its supply disc stays within half the base, although the stock
      reaches 76 and the code divides by 68.
  \<^item> The modular package: \<open>move_towards\<close> moves in a straight line. Ids are fresh
    until \<open>reset_id_counter\<close> reuses them. \<open>config.py\<close> and \<open>enums.py\<close> are
    data; the one theorem over them ties \<open>Base.resupply_tank\<close> to the
    \<open>RESUPPLY_\<close> amounts of \<open>STRUCTURE\<close>.
  \<^item> The lesson game:
    \<^item> the player stays in the window and the enemy list is never empty;
    \<^item> the score is never negative and always a multiple of 100;
    \<^item> the circle/rectangle test is exact;
    \<^item> the score counts overlapping pairs, not kills;
    \<^item> after the hits are removed no remaining bullet overlaps a remaining enemy;
    \<^item> surviving bullets are in the window and clear of obstacles;
    \<^item> obstacles never stop a tank.

  \<^bold>\<open>Bounds and termination.\<close> Every loop of the code runs over a finite list or range.
  Each is a structural recursion or a fold, so every definition is total and
  executable, and no fuel is needed. The unbounded game loops are the inductive
  reachability relations. The one liveness bound, the shell's lifetime, is proved as
  such: \<open>max 1 lifetime\<close> updates destroy any shell.

  \<^bold>\<open>Not modelled.\<close>
  \<^item> The pixel output of drawing: surfaces, fonts, blits, the window and the clock.
    The draw methods of tanks, shells and mines and all of the lesson game's drawing
    compute only screen positions for pygame.
  \<^item> \<open>src/main.py\<close>: it prints a banner and calls \<open>BoloGame().run()\<close>, which
    \<open>bolo_reachable\<close> describes. The package \<open>__init__\<close> files only re-export names.
  \<^item> Float rounding: arithmetic is exact. In particular \<open>Entity.angle_to\<close>'s
    \<open>% 360\<close> is taken on reals, whereas CPython's float \<open>%\<close> can return \<open>360.0\<close>
    for a tiny negative angle; no theorem states the range of a heading.
  \<^item> The bit-level algorithm of CPython's \<open>random\<close>: the properties hold for every
    stream of draws.
\<close>

end
